theory Spec2Isabelle
  imports Complex_Main "HOL-Library.Word" "HOL-Library.AList" "HOL-Library.Monad_Syntax"
begin

unbundle bit_operations_syntax

section \<open>Crypto utilities (backends/crypto-utils)\<close>

type_synonym byte = "8 word"
type_synonym bytes = "byte list"

text \<open>
  \<open>BigInt\<close> values are integers. \<open>%\<close> on \<open>BigInt\<close> truncates towards zero (the remainder
  has the sign of the dividend), unlike \<open>mod\<close> on \<open>int\<close>.
\<close>

definition bigint_rem :: "int \<Rightarrow> int \<Rightarrow> int" where
  "bigint_rem a m = sgn a * (\<bar>a\<bar> mod \<bar>m\<bar>)"

text \<open>The loop of \<open>modPow(base, exp, mod)\<close>, with \<open>result\<close> as accumulator; the exponent
  is called \<open>e\<close> here.\<close>

function modPow_loop :: "int \<Rightarrow> int \<Rightarrow> int \<Rightarrow> int \<Rightarrow> int" where
  "modPow_loop result base e m =
     (if e > 0
      then modPow_loop (if e AND 1 = 1 then bigint_rem (result * base) m else result)
                       (bigint_rem (base * base) m) (drop_bit 1 e) m
      else result)"
  by pat_completeness auto
termination
  by (relation "measure (\<lambda>(result, base, e, m). nat e)") (auto simp: drop_bit_eq_div)

definition modPow :: "int \<Rightarrow> int \<Rightarrow> int \<Rightarrow> int" where
  "modPow base e m = modPow_loop 1 (bigint_rem (bigint_rem base m + m) m) e m"

text \<open>The P-256 parameters written in \<open>decompressPublicKey\<close>.\<close>

definition p256_p :: int where
  "p256_p = 0xffffffff00000001000000000000000000000000ffffffffffffffffffffffff"

definition p256_b :: int where
  "p256_b = 0x5ac635d8aa3a93e7b3ebbd55769886bc651d06b0cc53b0f63bce3c3e27d2604b"

text \<open>
  The two byte loops of \<open>decompressPublicKey\<close>: \<open>x = (x << 8) | byte\<close> over the bytes from
  the left, and \<open>yBytes[i] = tmp & 0xff; tmp >>= 8\<close> for \<open>i\<close> from the last index down.
\<close>

definition bigint_of_bytes :: "bytes \<Rightarrow> int" where
  "bigint_of_bytes bs = foldl (\<lambda>x b. push_bit 8 x OR uint b) 0 bs"

fun bytes_of_bigint :: "nat \<Rightarrow> int \<Rightarrow> bytes" where
  "bytes_of_bigint 0 tmp = []"
| "bytes_of_bigint (Suc n) tmp = bytes_of_bigint n (drop_bit 8 tmp) @ [word_of_int (tmp AND 0xff)]"

datatype crypto_error = KeyFormatError | WebCryptoError

definition slice_bytes :: "bytes \<Rightarrow> nat \<Rightarrow> nat \<Rightarrow> bytes" where
  "slice_bytes buffer a b = take (b - a) (drop a buffer)"

definition compressPublicKey :: "bytes \<Rightarrow> crypto_error + bytes" where
  "compressPublicKey uncompressed =
     (if length uncompressed \<noteq> 65 \<or> uncompressed ! 0 \<noteq> 0x04 then Inl KeyFormatError
      else let x = slice_bytes uncompressed 1 33;
               y = slice_bytes uncompressed 33 65;
               prefix = (if (y ! 31) AND 1 = 0 then 0x02 else 0x03)
           in Inr (prefix # x))"

definition decompressPublicKey :: "bytes \<Rightarrow> crypto_error + bytes" where
  "decompressPublicKey compressed =
     (if length compressed \<noteq> 33 then Inl KeyFormatError
      else let prefix = compressed ! 0 in
        if prefix \<noteq> 0x02 \<and> prefix \<noteq> 0x03 then Inl KeyFormatError
        else let p = p256_p; b = p256_b;
                 xBytes = slice_bytes compressed 1 33;
                 x = bigint_of_bytes xBytes;
                 x3 = modPow x 3 p;
                 threeX = bigint_rem (3 * x) p;
                 y2 = bigint_rem (x3 - threeX + b) p;
                 y2 = (if y2 < 0 then y2 + p else y2);
                 e = (p + 1) div 4;
                 y = modPow y2 e p;
                 wantOdd = (prefix = 0x03);
                 isOdd = (y AND 1 = 1);
                 y = (if wantOdd \<noteq> isOdd then p - y else y);
                 yBytes = bytes_of_bigint 32 y
             in Inr (0x04 # xBytes @ yBytes))"

text \<open>
  WebCrypto itself is outside the repository. What the code asks of it is a parameter:
  \<^item> \<open>ecdh priv raw\<close>: import the 65-byte raw point \<open>raw\<close> as an ECDH public key and derive
    256 bits with the private key \<open>priv\<close> (\<open>None\<close> when WebCrypto rejects the key);
  \<^item> \<open>hkdf ikm salt info i\<close>: byte \<open>i\<close> of the HKDF-SHA-256 output for that key material,
    salt and info; \<open>deriveBits\<close> with length 256 returns the first 32 bytes;
  \<^item> \<open>sha256\<close>: the digest (\<open>None\<close> when \<open>SubtleCrypto\<close> is not available);
  \<^item> \<open>gcm_authentic key nonce ciphertext\<close>: whether AES-256-GCM accepts the tag, with
    \<open>gcm_plain key nonce ciphertext i\<close> byte \<open>i\<close> of the plaintext then. The ciphertext
    carries the 16-byte tag at its end, so the plaintext is 16 bytes shorter.
  A \<open>CryptoKey\<close> handle is a number.
\<close>

type_synonym CryptoKey = nat

record WebCrypto =
  ecdh :: "CryptoKey \<Rightarrow> bytes \<Rightarrow> bytes option"
  hkdf :: "bytes \<Rightarrow> bytes \<Rightarrow> bytes \<Rightarrow> nat \<Rightarrow> byte"
  sha256 :: "bytes \<Rightarrow> bytes option"
  gcm_authentic :: "bytes \<Rightarrow> bytes \<Rightarrow> bytes \<Rightarrow> bool"
  gcm_plain :: "bytes \<Rightarrow> bytes \<Rightarrow> bytes \<Rightarrow> nat \<Rightarrow> byte"

text \<open>\<open>aesGcmDecrypt(key, ciphertext, nonce)\<close> without additional data; \<open>None\<close> when it throws.\<close>

definition aesGcmDecrypt :: "WebCrypto \<Rightarrow> bytes \<Rightarrow> bytes \<Rightarrow> bytes \<Rightarrow> bytes option" where
  "aesGcmDecrypt wc key ciphertext nonce =
     (if 16 \<le> length ciphertext \<and> gcm_authentic wc key nonce ciphertext
      then Some (map (gcm_plain wc key nonce ciphertext) [0..<length ciphertext - 16])
      else None)"

definition hkdf_deriveBits :: "WebCrypto \<Rightarrow> bytes \<Rightarrow> bytes \<Rightarrow> bytes \<Rightarrow> nat \<Rightarrow> bytes" where
  "hkdf_deriveBits wc ikm salt info nbits = map (hkdf wc ikm salt info) [0..<nbits div 8]"

text \<open>
  A JavaScript string is a list of UTF-16 code units. \<open>TextEncoder.encode\<close> is the
  platform's: the UTF-8 bytes of the string, a surrogate pair giving the four bytes of its
  code point and a surrogate without its partner the three bytes of \<open>U+FFFD\<close>.
\<close>

type_synonym js_string = "16 word list"

definition utf8_of_unit :: "nat \<Rightarrow> bytes" where
  "utf8_of_unit c =
     (if c < 0x80 then [of_nat c]
      else if c < 0x800 then [of_nat (0xC0 + c div 64), of_nat (0x80 + c mod 64)]
      else if 0xD800 \<le> c \<and> c < 0xE000 then [0xEF, 0xBF, 0xBD]
      else [of_nat (0xE0 + c div 4096), of_nat (0x80 + c div 64 mod 64),
            of_nat (0x80 + c mod 64)])"

definition utf8_of_pair :: "nat \<Rightarrow> nat \<Rightarrow> bytes" where
  "utf8_of_pair hi lo =
     (let c = 0x10000 + (hi - 0xD800) * 1024 + (lo - 0xDC00)
      in [of_nat (0xF0 + c div 262144), of_nat (0x80 + c div 4096 mod 64),
          of_nat (0x80 + c div 64 mod 64), of_nat (0x80 + c mod 64)])"

fun TextEncoder_encode :: "js_string \<Rightarrow> bytes" where
  "TextEncoder_encode [] = []"
| "TextEncoder_encode [u] = utf8_of_unit (unat u)"
| "TextEncoder_encode (u # v # rest) =
     (if 0xD800 \<le> unat u \<and> unat u < 0xDC00 \<and> 0xDC00 \<le> unat v \<and> unat v < 0xE000
      then utf8_of_pair (unat u) (unat v) @ TextEncoder_encode rest
      else utf8_of_unit (unat u) @ TextEncoder_encode (v # rest))"

text \<open>A string literal of the source, all in ASCII, as code units.\<close>

definition js_literal :: "string \<Rightarrow> js_string" where
  "js_literal s = map (\<lambda>c. of_nat (of_char c)) s"

text \<open>\<open>deriveSharedSecret(privateKey, peerPublicKey, info, salt?)\<close>.\<close>

definition deriveSharedSecret ::
  "WebCrypto \<Rightarrow> CryptoKey \<Rightarrow> bytes \<Rightarrow> js_string \<Rightarrow> bytes option \<Rightarrow> crypto_error + bytes" where
  "deriveSharedSecret wc privateKey peerPublicKey info salt =
     (case decompressPublicKey peerPublicKey of
        Inl e \<Rightarrow> Inl e
      | Inr uncompressed \<Rightarrow>
         (case ecdh wc privateKey uncompressed of
            None \<Rightarrow> Inl WebCryptoError
          | Some rawBits \<Rightarrow>
             (let saltBuf = (case salt of Some s \<Rightarrow> s | None \<Rightarrow> replicate 32 0);
                  infoBuf = TextEncoder_encode info
              in Inr (hkdf_deriveBits wc rawBits saltBuf infoBuf 256))))"

text \<open>\<open>base58Encode\<close> and \<open>deriveNodeId\<close>.\<close>

definition BASE58_ALPHABET :: string where
  "BASE58_ALPHABET = ''123456789ABCDEFGHJKLMNPQRSTUVWXYZabcdefghijkmnopqrstuvwxyz''"

function base58_loop :: "int \<Rightarrow> string \<Rightarrow> string" where
  "base58_loop num str =
     (if num > 0
      then base58_loop (num div 58) (BASE58_ALPHABET ! nat (num mod 58) # str)
      else str)"
  by pat_completeness auto
termination
  by (relation "measure (\<lambda>(num, str). nat num)") auto

definition base58Encode :: "bytes \<Rightarrow> string" where
  "base58Encode bs =
     (let num = bigint_of_bytes bs;
          str = base58_loop num [];
          str = replicate (length (takeWhile (\<lambda>b. b = 0) bs)) CHR ''1'' @ str
      in if str = [] then ''1'' else str)"

definition deriveNodeId :: "WebCrypto \<Rightarrow> bytes \<Rightarrow> string option" where
  "deriveNodeId wc publicKey = map_option base58Encode (sha256 wc publicKey)"

section \<open>P-256 public keys and the arithmetic behind point decompression\<close>

text \<open>
  An uncompressed P-256 public key: 65 bytes, the prefix \<open>0x04\<close>, then the two coordinates
  as 32 big-endian bytes each. The coordinates are elements of the field (below \<open>p\<close>) and
  satisfy the curve equation \<open>y\<^sup>2 = x\<^sup>3 - 3x + b\<close> modulo \<open>p\<close>.
\<close>

definition valid_p256_key :: "bytes \<Rightarrow> bool" where
  "valid_p256_key key \<longleftrightarrow>
     length key = 65 \<and> key ! 0 = 0x04 \<and>
     (let x = bigint_of_bytes (slice_bytes key 1 33);
          y = bigint_of_bytes (slice_bytes key 33 65)
      in x < p256_p \<and> y < p256_p
         \<and> (y * y) mod p256_p = (x ^ 3 - 3 * x + p256_b) mod p256_p)"

text \<open>
  \<open>decompressPublicKey\<close> takes the square root as \<open>y2 ^ ((p + 1) / 4) mod p\<close>, which is a
  square root because \<open>p\<close> is a prime with \<open>p mod 4 = 3\<close>. Primality is stated directly.
\<close>

definition is_prime :: "nat \<Rightarrow> bool" where
  "is_prime p \<longleftrightarrow> 1 < p \<and> (\<forall>d. d dvd p \<longrightarrow> d = 1 \<or> d = p)"

text \<open>
  Two checkers used to establish primality of concrete numbers. \<open>no_divisor n d k\<close>: none of
  \<open>d, d + 1, \<dots>, d + k - 1\<close> divides \<open>n\<close>. \<open>run_chain pos neg a x e cs\<close> replays a
  square-and-multiply computation of a power of \<open>a\<close> modulo \<open>n\<close>: each step carries the
  quotient \<open>q\<close> and the remainder \<open>y\<close> of its product, and is accepted when
  \<open>product + neg q = pos q + y\<close>, where \<open>pos q - neg q = q * n\<close>. The exponent reached so
  far is \<open>e\<close>.
\<close>

fun no_divisor :: "nat \<Rightarrow> nat \<Rightarrow> nat \<Rightarrow> bool" where
  "no_divisor n d k = (if k = 0 then True else n mod d \<noteq> 0 \<and> no_divisor n (d + 1) (k - 1))"

datatype pow_step = Sq nat nat | Mu nat nat

fun run_chain ::
  "(nat \<Rightarrow> nat) \<Rightarrow> (nat \<Rightarrow> nat) \<Rightarrow> nat \<Rightarrow> nat \<Rightarrow> nat \<Rightarrow> pow_step list \<Rightarrow> (nat \<times> nat) option" where
  "run_chain pos neg a x e [] = Some (x, e)"
| "run_chain pos neg a x e (Sq q y # cs) =
     (if x * x + neg q = pos q + y then run_chain pos neg a y (2 * e) cs else None)"
| "run_chain pos neg a x e (Mu q y # cs) =
     (if x * a + neg q = pos q + y then run_chain pos neg a y (e + 1) cs else None)"

text \<open>The multiples of a modulus \<open>n\<close>, and of the P-256 prime written as sums of powers of two.\<close>

definition times_n :: "nat \<Rightarrow> nat \<Rightarrow> nat" where
  "times_n n q = q * n"

definition no_neg :: "nat \<Rightarrow> nat" where
  "no_neg q = 0"

definition p256_pos :: "nat \<Rightarrow> nat" where
  "p256_pos q = q * 0x10000000000000000000000000000000000000000000000000000000000000000 + q * 0x1000000000000000000000000000000000000000000000000 + q * 0x1000000000000000000000000"

definition p256_neg :: "nat \<Rightarrow> nat" where
  "p256_neg q = q * 0x100000000000000000000000000000000000000000000000000000000 + q"

section \<open>The platform's ECDH on P-256\<close>

text \<open>
  WebCrypto computes ECDH in the group of points of the curve. Its point arithmetic is not
  code of the repository and is a parameter: the points with their addition and the point
  at infinity, the base point \<open>G\<close>, the 65-byte raw form of a point (\<open>exportKey\<close>) and the
  point of a raw key (\<open>importKey\<close>, \<open>None\<close> when it is refused), the 32 bytes of the \<open>x\<close>
  coordinate, and the scalar behind a private key handle.
\<close>

record 'g EcdhPlatform =
  point_add :: "'g \<Rightarrow> 'g \<Rightarrow> 'g"
  point_zero :: "'g"
  base_point :: "'g"
  raw_of_point :: "'g \<Rightarrow> bytes"
  point_of_raw :: "bytes \<Rightarrow> 'g option"
  x_bytes :: "'g \<Rightarrow> bytes"
  scalar_of :: "CryptoKey \<Rightarrow> nat"

text \<open>The multiple \<open>k P\<close> of a point.\<close>

fun scalar_mult :: "'g EcdhPlatform \<Rightarrow> nat \<Rightarrow> 'g \<Rightarrow> 'g" where
  "scalar_mult C 0 P = point_zero C"
| "scalar_mult C (Suc k) P = point_add C P (scalar_mult C k P)"

text \<open>
  What is asked of the platform: point addition is associative with the point at infinity
  as its neutral element, and \<open>deriveBits\<close> with a private key of scalar \<open>d\<close> and the raw
  public key of a point \<open>Q\<close> returns the \<open>x\<close> coordinate of \<open>d Q\<close>, failing when the raw key is
  refused.
\<close>

definition point_monoid :: "'g EcdhPlatform \<Rightarrow> bool" where
  "point_monoid C \<longleftrightarrow>
     (\<forall>P Q R. point_add C (point_add C P Q) R = point_add C P (point_add C Q R))
     \<and> (\<forall>P. point_add C (point_zero C) P = P)
     \<and> (\<forall>P. point_add C P (point_zero C) = P)"

definition implements_ecdh :: "'g EcdhPlatform \<Rightarrow> WebCrypto \<Rightarrow> bool" where
  "implements_ecdh C wc \<longleftrightarrow>
     (\<forall>priv raw. ecdh wc priv raw =
        map_option (\<lambda>Q. x_bytes C (scalar_mult C (scalar_of C priv) Q)) (point_of_raw C raw))"

text \<open>
  A valid key pair: the public key is the raw form of \<open>d G\<close> for the scalar \<open>d\<close> of the
  private key, it is a valid P-256 public key, and the platform imports it as that point.
\<close>

definition valid_key_pair :: "'g EcdhPlatform \<Rightarrow> CryptoKey \<Rightarrow> bytes \<Rightarrow> bool" where
  "valid_key_pair C priv pub \<longleftrightarrow>
     pub = raw_of_point C (scalar_mult C (scalar_of C priv) (base_point C))
     \<and> point_of_raw C pub = Some (scalar_mult C (scalar_of C priv) (base_point C))
     \<and> valid_p256_key pub"

section \<open>Data model (types/bond.ts, types/branded.ts, interfaces/channel.ts)\<close>

text \<open>
  A \<open>Uint8Array\<close> is a list of 8-bit words. A JavaScript \<open>number\<close> that holds a score is
  modelled as a real number (the IEEE-754 rounding of the arithmetic is not modelled);
  counters that start at zero and are only incremented are natural numbers; clock readings
  and their differences are integers.
\<close>

type_synonym NodeId = string

datatype TrustTier = GHOST | STRUT | COHERENT | RESONANT

datatype BondStatus = PENDING | NEGOTIATING | ACTIVE | TERMINATED | REJECTED

datatype StateVisibility = NONE | VOLTAGE | FULL_VECTOR

record CareScoreComponents =
  frequency :: real
  reciprocity :: real
  consistency :: real
  responsiveness :: real

record Partner =
  nodeId :: NodeId
  publicKey :: bytes
  keySequence :: nat

record Trust =
  careScore :: real
  components :: CareScoreComponents
  tier :: TrustTier

record Channel =
  sharedSecret :: bytes
  lastInteraction :: int
  totalExchanges :: nat
  status :: BondStatus

record Permissions =
  grantedVaultLayers :: "string list"
  stateVisibility :: StateVisibility

record NodeZeroBond =
  version :: nat
  partner :: Partner
  trust :: Trust
  channel :: Channel
  permissions :: Permissions
  createdAt :: int

datatype MessageType = STATE_UPDATE | VAULT_REQUEST | VAULT_GRANT | VAULT_FRAGMENT | PING | CUSTOM

record BondMessage =
  msg_type :: MessageType
  msg_payload :: bytes
  msg_timestamp :: nat
  msg_senderId :: bytes

text \<open>The per-bond interaction tracking of channel-manager.ts (\<open>BondInteractionState\<close>).\<close>

record BondInteractionState =
  sentCount :: nat
  recvCount :: nat
  dailyCounts :: "real list"
  responseTimesMs :: "int list"
  lastMessageSentAt :: int

text \<open>Constants of interfaces/channel.ts.\<close>

definition MAX_BONDS_PER_CELL :: nat where
  "MAX_BONDS_PER_CELL = 4"

definition halfLifeDays :: real where
  "halfLifeDays = 14"

text \<open>
  The tier thresholds are compared as JavaScript numbers, that is as IEEE 754 doubles. A
  double is the real number it denotes. \<open>double_of x\<close> is the double nearest to \<open>x\<close>, a tie
  going to the even significand (53 bits; \<open>x\<close> in the normal range, which holds all the
  numbers here): a decimal literal denotes \<open>double_of\<close> of its value, and \<open>+\<close> and \<open>-\<close> on
  doubles return \<open>double_of\<close> of the exact sum and difference.
\<close>

definition round_half_even :: "real \<Rightarrow> int" where
  "round_half_even x =
     (let n = \<lfloor>x\<rfloor>; r = x - of_int n
      in if r < 1 / 2 then n else if 1 / 2 < r then n + 1 else if even n then n else n + 1)"

definition double_of :: "real \<Rightarrow> real" where
  "double_of x =
     (if x = 0 then 0
      else let e = \<lfloor>log 2 \<bar>x\<bar>\<rfloor> - 52
           in of_int (round_half_even (x / 2 powr of_int e)) * 2 powr of_int e)"

definition double_add :: "real \<Rightarrow> real \<Rightarrow> real" where
  "double_add a b = double_of (a + b)"

definition double_sub :: "real \<Rightarrow> real \<Rightarrow> real" where
  "double_sub a b = double_of (a - b)"

text \<open>\<open>DEFAULT_TIER_THRESHOLDS\<close>: the literals \<open>0.2\<close>, \<open>0.5\<close> and \<open>0.8\<close>.\<close>

definition threshold_strut :: real where
  "threshold_strut = double_of 0.2"

definition threshold_coherent :: real where
  "threshold_coherent = double_of 0.5"

definition threshold_resonant :: real where
  "threshold_resonant = double_of 0.8"

datatype ChannelErrorCode =
    TOPOLOGY_VIOLATION | BOND_NOT_FOUND | NEGOTIATION_FAILED | NEGOTIATION_TIMEOUT
  | ALREADY_BONDED | VERIFICATION_FAILED | SEND_FAILED

text \<open>
  What a command can throw: a \<open>ChannelError\<close> with its code, an error raised by a
  collaborator (identity, transport, WebCrypto) that the command lets through, or an
  exception escaping from a registered callback.
\<close>

datatype exn = ChannelError ChannelErrorCode | CollaboratorError | ListenerError

datatype Event =
    BOND_FORMED NodeZeroBond int
  | CARE_SCORE_UPDATED NodeId real int
  | BOND_TRUST_CHANGED NodeId TrustTier TrustTier real int
  | BOND_TERMINATED NodeId int
  | BOND_MESSAGE_RECEIVED BondMessage int

section \<open>Care score and trust tiers (channel-manager.ts)\<close>

text \<open>
  \<open>scoreToTier(score, currentTier?)\<close>; the optional argument is an option. \<open>H\<close> is the
  literal \<open>0.02\<close>, and every bound is the double that the code's \<open>threshold + H\<close> or
  \<open>threshold - H\<close> evaluates to. The score is the real value of the double passed in.
\<close>

definition hysteresis :: real where
  "hysteresis = double_of 0.02"

definition scoreToTier :: "real \<Rightarrow> TrustTier option \<Rightarrow> TrustTier" where
  "scoreToTier s currentTier =
     (if (if currentTier = Some RESONANT then s \<ge> double_sub threshold_resonant hysteresis
          else s \<ge> double_add threshold_resonant hysteresis) then RESONANT
      else if (if currentTier = Some COHERENT
               then s \<ge> double_sub threshold_coherent hysteresis
                    \<and> s < double_add threshold_resonant hysteresis
               else s \<ge> double_add threshold_coherent hysteresis) then COHERENT
      else if (if currentTier = Some STRUT then s \<ge> double_sub threshold_strut hysteresis
               else s \<ge> double_add threshold_strut hysteresis) then STRUT
      else GHOST)"

text \<open>\<open>applyDecay(score, daysSinceInteraction)\<close>, with \<open>Math.LN2\<close> as \<open>ln 2\<close>.\<close>

definition applyDecay :: "real \<Rightarrow> real \<Rightarrow> real" where
  "applyDecay score daysSinceInteraction =
     (let lambda = ln 2 / halfLifeDays;
          decayed = score * exp (- lambda * daysSinceInteraction)
      in max 0 decayed)"

definition mean_of :: "real list \<Rightarrow> real" where
  "mean_of xs = sum_list xs / real (length xs)"

definition variance_of :: "real list \<Rightarrow> real" where
  "variance_of xs = sum_list (map (\<lambda>v. (v - mean_of xs) ^ 2) xs) / real (length xs)"

definition frequency_of :: "nat \<Rightarrow> nat \<Rightarrow> real" where
  "frequency_of sent recv = min 1 (real (sent + recv) / 140)"

definition reciprocity_of :: "nat \<Rightarrow> nat \<Rightarrow> real" where
  "reciprocity_of sent recv =
     (if sent + recv < 3 then 0.5
      else min 1 (real (min sent recv) / max 1 (real (max sent recv))))"

definition consistency_of :: "real list \<Rightarrow> real" where
  "consistency_of dc =
     (if length dc > 1 then 1 / (1 + sqrt (variance_of dc) / (mean_of dc + 0.1)) else 1)"

definition responsiveness_of :: "real \<Rightarrow> real" where
  "responsiveness_of avgResponseMinutes = max 0 (min 1 ((60 - avgResponseMinutes) / 60))"

text \<open>\<open>recalculateCareScore(_peerId, sentCount, recvCount, dailyCounts, avgResponseTime)\<close>.\<close>

definition recalculateCareScore :: "nat \<Rightarrow> nat \<Rightarrow> real list \<Rightarrow> real \<Rightarrow> real" where
  "recalculateCareScore sent recv dc avgResponseTime =
     (let composite = 0.3 * frequency_of sent recv + 0.3 * reciprocity_of sent recv
                      + 0.2 * consistency_of dc + 0.2 * responsiveness_of avgResponseTime
      in max 0 (min 1 composite))"


section \<open>The channel manager's state and its collaborators\<close>

text \<open>
  The fields of \<open>ChannelManager\<close>. \<open>bonds\<close> is a JavaScript \<open>Map\<close>, whose iteration
  order is insertion order and whose \<open>set\<close> on an existing key keeps the key's position:
  an association list with \<open>AList.update\<close>. The callbacks in \<open>messageListeners\<close> are
  identified by numbers. Three logs record what the manager does to the outside:
  the events passed to \<open>emit\<close>, the frames passed to \<open>transport.transmit\<close>, and the
  calls of message listeners.
\<close>

record ChannelManager =
  bonds :: "(NodeId \<times> NodeZeroBond) list"
  interactions :: "NodeId \<rightharpoonup> BondInteractionState"
  messageListeners :: "nat list"
  emitted :: "Event list"
  transmitted :: "bytes list"
  delivered :: "(nat \<times> BondMessage) list"

text \<open>
  What the manager reads from outside while it handles one call:
  \<^item> the clock (\<open>Date.now()\<close>, in milliseconds): the first reading of the call and a
    later one;
  \<^item> whether a listener registered on the emitter throws on an event, and whether a
    message listener throws on a message;
  \<^item> WebCrypto;
  \<^item> the identity provider: \<open>exportPublicKey\<close> (the public key bytes and the key
    sequence), \<open>getCompressedECDHPublicKey\<close>, \<open>getECDHPrivateKey\<close>, \<open>sign\<close> and
    \<open>verify payload signature publicKey\<close>, each \<open>None\<close> when it throws;
  \<^item> the transport: whether \<open>transmit\<close> of a frame succeeds;
  \<^item> the random bytes that \<open>randomBytes\<close> draws;
  \<^item> \<open>waitForMessage peerNodeId messageType\<close>: the payload that the dispatcher hands to the
    pending wait, or \<open>None\<close> when the 30-second timer fires first.
\<close>

record Env =
  clock_ms :: int
  clock_later_ms :: int
  event_listener_throws :: "Event \<Rightarrow> bool"
  message_listener_throws :: "nat \<Rightarrow> BondMessage \<Rightarrow> bool"
  webcrypto :: WebCrypto
  exportPublicKey :: "(bytes \<times> nat) option"
  getCompressedECDHPublicKey :: "bytes option"
  getECDHPrivateKey :: "CryptoKey option"
  sign :: "bytes \<Rightarrow> bytes option"
  verify :: "bytes \<Rightarrow> bytes \<Rightarrow> bytes \<Rightarrow> bool option"
  transmit_ok :: "bytes \<Rightarrow> bool"
  random_source :: "nat \<Rightarrow> byte"
  waitForMessage :: "NodeId \<Rightarrow> byte \<Rightarrow> bytes option"

definition now_seconds :: "Env \<Rightarrow> int" where
  "now_seconds env = clock_ms env div 1000"

definition later_seconds :: "Env \<Rightarrow> int" where
  "later_seconds env = clock_later_ms env div 1000"

definition randomBytes :: "Env \<Rightarrow> nat \<Rightarrow> bytes" where
  "randomBytes env n = map (random_source env) [0..<n]"

text \<open>
  \<open>NodeZeroEmitter.emit\<close> calls the listeners of the event's type one after the other and
  catches nothing: an exception of a listener leaves \<open>emit\<close>.
\<close>

definition emit :: "Env \<Rightarrow> Event \<Rightarrow> ChannelManager \<Rightarrow> (exn + unit) \<times> ChannelManager" where
  "emit env e st =
     (if event_listener_throws env e then Inl ListenerError else Inr (),
      st\<lparr>emitted := emitted st @ [e]\<rparr>)"

definition getActiveBondCount :: "ChannelManager \<Rightarrow> nat" where
  "getActiveBondCount st = length (filter (\<lambda>b. status (channel b) = ACTIVE) (map snd (bonds st)))"

definition createBondRecord ::
  "Env \<Rightarrow> NodeId \<Rightarrow> bytes \<Rightarrow> nat \<Rightarrow> bytes \<Rightarrow> int \<Rightarrow> ChannelManager
     \<Rightarrow> (exn + unit) \<times> ChannelManager" where
  "createBondRecord env peerId peerPublicKey peerKeySequence secret timestamp st =
     (let defaultComponents =
            \<lparr>frequency = 0.5, reciprocity = 0.5, consistency = 1, responsiveness = 1\<rparr>;
          initialScore = 0.5;
          bond = \<lparr>version = 1,
                  partner = \<lparr>nodeId = peerId, publicKey = peerPublicKey,
                             keySequence = peerKeySequence\<rparr>,
                  trust = \<lparr>careScore = initialScore, components = defaultComponents,
                           tier = scoreToTier initialScore None\<rparr>,
                  channel = \<lparr>sharedSecret = secret, lastInteraction = timestamp,
                             totalExchanges = 0, status = ACTIVE\<rparr>,
                  permissions = \<lparr>grantedVaultLayers = [], stateVisibility = VOLTAGE\<rparr>,
                  createdAt = timestamp\<rparr>;
          st1 = st\<lparr>bonds := AList.update peerId bond (bonds st),
                    interactions := (interactions st)(peerId \<mapsto>
                       \<lparr>sentCount = 0, recvCount = 0, dailyCounts = [],
                        responseTimesMs = [], lastMessageSentAt = 0\<rparr>)\<rparr>
      in emit env (BOND_FORMED bond timestamp) st1)"

definition updateBondChannel :: "NodeId \<Rightarrow> int \<Rightarrow> nat \<Rightarrow> ChannelManager \<Rightarrow> ChannelManager" where
  "updateBondChannel peerId timestamp exchangesDelta st =
     (case map_of (bonds st) peerId of
        None \<Rightarrow> st
      | Some existing \<Rightarrow>
          st\<lparr>bonds := AList.update peerId
                (existing\<lparr>channel := (channel existing)\<lparr>lastInteraction := timestamp,
                     totalExchanges := totalExchanges (channel existing) + exchangesDelta\<rparr>\<rparr>)
                (bonds st)\<rparr>)"

text \<open>The average response time in minutes and the raw score, as \<open>updateCareScore\<close> computes them.\<close>

definition avgResponseMinutes_of :: "BondInteractionState \<Rightarrow> real" where
  "avgResponseMinutes_of tracking =
     (let avgResponseMs =
            (if length (responseTimesMs tracking) > 0
             then real_of_int (sum_list (responseTimesMs tracking))
                    / real (length (responseTimesMs tracking))
             else 0)
      in avgResponseMs / 60000)"

definition dailyCounts_or_total :: "BondInteractionState \<Rightarrow> real list" where
  "dailyCounts_or_total tracking =
     (if length (dailyCounts tracking) > 0 then dailyCounts tracking
      else [real (sentCount tracking + recvCount tracking)])"

definition rawScore_of :: "BondInteractionState \<Rightarrow> real" where
  "rawScore_of tracking =
     recalculateCareScore (sentCount tracking) (recvCount tracking)
       (dailyCounts_or_total tracking) (avgResponseMinutes_of tracking)"

definition updateCareScore ::
  "Env \<Rightarrow> NodeId \<Rightarrow> real \<Rightarrow> ChannelManager \<Rightarrow> (exn + unit) \<times> ChannelManager" where
  "updateCareScore env peerId daysSinceLastInteraction st =
     (case map_of (bonds st) peerId of
        None \<Rightarrow> (Inl (ChannelError BOND_NOT_FOUND), st)
      | Some bond \<Rightarrow>
         (case interactions st peerId of
            None \<Rightarrow> (Inr (), st)
          | Some tracking \<Rightarrow>
             (let avgResponseMinutes = avgResponseMinutes_of tracking;
                  rawScore = rawScore_of tracking;
                  decayedScore = (if daysSinceLastInteraction > 0
                                  then applyDecay rawScore daysSinceLastInteraction
                                  else rawScore);
                  previousTier = tier (trust bond);
                  newTier = scoreToTier decayedScore (Some previousTier);
                  now = now_seconds env;
                  updated = bond\<lparr>trust :=
                     \<lparr>careScore = decayedScore,
                      components =
                        \<lparr>frequency = frequency_of (sentCount tracking) (recvCount tracking),
                         reciprocity = reciprocity_of (sentCount tracking) (recvCount tracking),
                         consistency = consistency_of (dailyCounts_or_total tracking),
                         responsiveness = responsiveness_of avgResponseMinutes\<rparr>,
                      tier = newTier\<rparr>\<rparr>;
                  st1 = st\<lparr>bonds := AList.update peerId updated (bonds st)\<rparr>
              in case emit env (CARE_SCORE_UPDATED peerId decayedScore now) st1 of
                   (Inl e, st2) \<Rightarrow> (Inl e, st2)
                 | (Inr _, st2) \<Rightarrow>
                     (if newTier \<noteq> previousTier
                      then emit env (BOND_TRUST_CHANGED peerId previousTier newTier
                                       decayedScore now) st2
                      else (Inr (), st2)))))"

section \<open>Wire codec (codec module)\<close>

text \<open>
  Reads of a \<open>Uint8Array\<close>. The decoders read single bytes (\<open>buffer[i]\<close>), ranges
  (\<open>buffer.slice(a, b)\<close>) and four-byte fields through a \<open>DataView\<close>. A read that leaves
  the buffer is \<open>None\<close> here, whatever JavaScript makes of it (\<open>undefined\<close>, a shorter
  slice, a \<open>RangeError\<close>), so that a decoder that reads out of bounds shows it in its
  result.
\<close>

definition byte_at :: "bytes \<Rightarrow> nat \<Rightarrow> byte option" where
  "byte_at buffer i = (if i < length buffer then Some (buffer ! i) else None)"

definition read_slice :: "bytes \<Rightarrow> nat \<Rightarrow> nat \<Rightarrow> bytes option" where
  "read_slice buffer a b = (if a \<le> b \<and> b \<le> length buffer then Some (slice_bytes buffer a b) else None)"

definition be32 :: "byte \<Rightarrow> byte \<Rightarrow> byte \<Rightarrow> byte \<Rightarrow> 32 word" where
  "be32 b0 b1 b2 b3 =
     push_bit 24 (ucast b0) OR push_bit 16 (ucast b1) OR push_bit 8 (ucast b2) OR ucast b3"

definition read_be32 :: "bytes \<Rightarrow> nat \<Rightarrow> 32 word option" where
  "read_be32 buffer off =
     do { b0 \<leftarrow> byte_at buffer off; b1 \<leftarrow> byte_at buffer (off + 1);
          b2 \<leftarrow> byte_at buffer (off + 2); b3 \<leftarrow> byte_at buffer (off + 3);
          Some (be32 b0 b1 b2 b3) }"

datatype decode_error = LengthError | OutOfBounds

text \<open>
  \<open>StateUpdateMessage\<close>: \<open>identity\<close> (public key, key sequence), \<open>stateData\<close> and the
  signature. The timestamp is assembled with \<open><<\<close> and \<open>|\<close>, which work on signed 32-bit
  integers in JavaScript, so it is the signed reading of the four bytes.
\<close>

record StateUpdateMessage =
  su_publicKey :: bytes
  su_keySequence :: byte
  su_urgency :: byte
  su_emotional :: byte
  su_cognitive :: byte
  su_timestamp :: int
  su_signature :: bytes

definition deserializeStateUpdate :: "bytes \<Rightarrow> decode_error + StateUpdateMessage" where
  "deserializeStateUpdate buffer =
     (if length buffer \<noteq> 105 then Inl LengthError
      else case do {
             pk \<leftarrow> read_slice buffer 0 33;
             ks \<leftarrow> byte_at buffer 33;
             u \<leftarrow> byte_at buffer 34;
             e \<leftarrow> byte_at buffer 35;
             c \<leftarrow> byte_at buffer 36;
             ts \<leftarrow> read_be32 buffer 37;
             sg \<leftarrow> read_slice buffer 41 105;
             Some \<lparr>su_publicKey = pk, su_keySequence = ks, su_urgency = u, su_emotional = e,
                   su_cognitive = c, su_timestamp = sint ts, su_signature = sg\<rparr> }
           of None \<Rightarrow> Inl OutOfBounds | Some m \<Rightarrow> Inr m)"

text \<open>
  \<open>BondHandshakePacket\<close>. \<open>qValue\<close> is read with \<open>getFloat32\<close>; the model keeps the four
  bytes of the float as a 32-bit word. \<open>crc\<close> is read with \<open>getUint32\<close>.
\<close>

record BondHandshakePacket =
  hs_packetType :: byte
  hs_subType :: byte
  hs_publicKey :: bytes
  hs_qValue_bits :: "32 word"
  hs_crc :: nat

definition deserializeBondHandshake :: "bytes \<Rightarrow> decode_error + BondHandshakePacket" where
  "deserializeBondHandshake buffer =
     (if length buffer \<noteq> 43 then Inl LengthError
      else case do {
             pt \<leftarrow> byte_at buffer 0;
             sub \<leftarrow> byte_at buffer 1;
             pk \<leftarrow> read_slice buffer 2 35;
             q \<leftarrow> read_be32 buffer 35;
             crc \<leftarrow> read_be32 buffer 39;
             Some \<lparr>hs_packetType = pt, hs_subType = sub, hs_publicKey = pk,
                   hs_qValue_bits = q, hs_crc = unat crc\<rparr> }
           of None \<Rightarrow> Inl OutOfBounds | Some p \<Rightarrow> Inr p)"

record VaultFragment =
  vf_packetType :: byte
  vf_layerIndex :: byte
  vf_current :: nat
  vf_total :: nat
  vf_payload :: bytes

definition deserializeVaultFragment :: "bytes \<Rightarrow> decode_error + VaultFragment" where
  "deserializeVaultFragment buffer =
     (if length buffer < 4 then Inl LengthError
      else case do {
             b0 \<leftarrow> byte_at buffer 0;
             b1 \<leftarrow> byte_at buffer 1;
             b2 \<leftarrow> byte_at buffer 2;
             b3 \<leftarrow> byte_at buffer 3;
             pl \<leftarrow> read_slice buffer 4 (length buffer);
             Some \<lparr>vf_packetType = b0, vf_layerIndex = b1,
                   vf_current = unat (drop_bit 4 (ucast b2 :: 32 word)
                                       OR push_bit 4 (ucast b3 AND 0x0f)),
                   vf_total = unat ((ucast b2 :: 32 word) AND 0x0f
                                     OR push_bit 4 (drop_bit 4 (ucast b3))),
                   vf_payload = pl\<rparr> }
           of None \<Rightarrow> Inl OutOfBounds | Some f \<Rightarrow> Inr f)"

section \<open>Bond negotiation (channel-manager.ts)\<close>

definition BOND_CHALLENGE :: byte where "BOND_CHALLENGE = 0x10"
definition BOND_RESPONSE :: byte where "BOND_RESPONSE = 0x11"
definition BOND_CONFIRM :: byte where "BOND_CONFIRM = 0x12"
definition BOND_DATA :: byte where "BOND_DATA = 0x13"

text \<open>
  \<open>target.set(source, offset)\<close> on a \<open>Uint8Array\<close> throws a \<open>RangeError\<close> when the source
  does not fit; \<open>DataView.setUint32(0, v, false)\<close> writes \<open>v\<close> modulo \<open>2^32\<close>, big-endian.
\<close>

definition set_at :: "bytes \<Rightarrow> bytes \<Rightarrow> nat \<Rightarrow> bytes option" where
  "set_at target source offset =
     (if offset + length source \<le> length target
      then Some (take offset target @ source @ drop (offset + length source) target)
      else None)"

definition uint32_be :: "int \<Rightarrow> bytes" where
  "uint32_be v = (let w = (word_of_int v :: 32 word)
                  in [ucast (drop_bit 24 w), ucast (drop_bit 16 w), ucast (drop_bit 8 w), ucast w])"

text \<open>
  The 103-byte payload of a challenge and of a confirm:
  \<open>ecdsaPub(33) + keySeq(1) + ecdhPub(33) + nonce(32) + timestamp(4)\<close>.
\<close>

definition payload103 :: "bytes \<Rightarrow> nat \<Rightarrow> bytes \<Rightarrow> bytes \<Rightarrow> int \<Rightarrow> bytes option" where
  "payload103 myPubKey keySeq myEcdhPub nonce now =
     do { b0 \<leftarrow> set_at (replicate 103 0) myPubKey 0;
          b2 \<leftarrow> set_at (b0[33 := of_nat keySeq]) myEcdhPub 34;
          b3 \<leftarrow> set_at b2 nonce 67;
          set_at b3 (uint32_be now) 99 }"

text \<open>
  The 135-byte payload of a response:
  \<open>ecdsaPub(33) + keySeq(1) + ecdhPub(33) + respNonce(32) + echoedNonce(32) + timestamp(4)\<close>.
\<close>

definition payload135 ::
  "bytes \<Rightarrow> nat \<Rightarrow> bytes \<Rightarrow> bytes \<Rightarrow> bytes \<Rightarrow> int \<Rightarrow> bytes option" where
  "payload135 myPubKey keySeq myEcdhPub responderNonce initiatorNonce now =
     do { b0 \<leftarrow> set_at (replicate 135 0) myPubKey 0;
          b2 \<leftarrow> set_at (b0[33 := of_nat keySeq]) myEcdhPub 34;
          b3 \<leftarrow> set_at b2 responderNonce 67;
          b4 \<leftarrow> set_at b3 initiatorNonce 99;
          set_at b4 (uint32_be now) 131 }"

text \<open>A frame: \<open>prefix(1) + payload(n) + signature(64)\<close>.\<close>

definition frame_of :: "byte \<Rightarrow> nat \<Rightarrow> bytes \<Rightarrow> bytes \<Rightarrow> bytes option" where
  "frame_of prefix n payload signature =
     do { f1 \<leftarrow> set_at ((replicate (1 + n + 64) 0)[0 := prefix]) payload 1;
          set_at f1 signature (1 + n) }"

definition combineNonces :: "bytes \<Rightarrow> bytes \<Rightarrow> bytes option" where
  "combineNonces initiatorNonce responderNonce =
     do { c \<leftarrow> set_at (replicate 64 0) initiatorNonce 0;
          set_at c responderNonce 32 }"

definition arrayEqual :: "bytes \<Rightarrow> bytes \<Rightarrow> bool" where
  "arrayEqual a b \<longleftrightarrow> length a = length b \<and> (\<forall>i < length a. a ! i = b ! i)"

text \<open>\<open>transport.transmit(frame)\<close>: the frame is handed over, then the call may throw.\<close>

definition transmit :: "Env \<Rightarrow> bytes \<Rightarrow> ChannelManager \<Rightarrow> (exn + unit) \<times> ChannelManager" where
  "transmit env frame st =
     (if transmit_ok env frame then Inr () else Inl CollaboratorError,
      st\<lparr>transmitted := transmitted st @ [frame]\<rparr>)"

definition BOND_INFO :: js_string where
  "BOND_INFO = js_literal ''node-zero-bond-v1''"

text \<open>
  \<open>initiate\<close> in three parts, the last one first: the confirm with the key agreement and
  the bond record, the wait for the response with its checks, and the guards with the
  transmission of the challenge.
\<close>

definition initiate_confirm ::
  "Env \<Rightarrow> bytes \<Rightarrow> NodeId \<Rightarrow> bytes \<Rightarrow> nat \<Rightarrow> bytes \<Rightarrow> bytes \<Rightarrow> int \<Rightarrow> bytes \<Rightarrow> ChannelManager
     \<Rightarrow> (exn + unit) \<times> ChannelManager" where
  "initiate_confirm env targetPublicKey targetNodeId myPubKey myKeySeq myEcdhPub initiatorNonce
      now responseRaw st =
     (let responderKeySeq = unat (responseRaw ! 33);
          responderEcdhPub = slice_bytes responseRaw 34 67;
          responderNonce = slice_bytes responseRaw 67 99;
          confirmNow = later_seconds env
      in case payload103 myPubKey myKeySeq myEcdhPub responderNonce confirmNow of
           None \<Rightarrow> (Inl CollaboratorError, st)
         | Some confirmPayload \<Rightarrow>
       (case sign env confirmPayload of
           None \<Rightarrow> (Inl CollaboratorError, st)
         | Some confirmSig \<Rightarrow>
       (case frame_of BOND_CONFIRM 103 confirmPayload confirmSig of
           None \<Rightarrow> (Inl CollaboratorError, st)
         | Some confirmFrame \<Rightarrow>
       (case transmit env confirmFrame st of
           (Inl e, st2) \<Rightarrow> (Inl e, st2)
         | (Inr _, st2) \<Rightarrow>
       (case getECDHPrivateKey env of
           None \<Rightarrow> (Inl CollaboratorError, st2)
         | Some ecdhKey \<Rightarrow>
       (case combineNonces initiatorNonce responderNonce of
           None \<Rightarrow> (Inl CollaboratorError, st2)
         | Some combinedNonces \<Rightarrow>
       (case deriveSharedSecret (webcrypto env) ecdhKey responderEcdhPub BOND_INFO
               (Some combinedNonces) of
           Inl _ \<Rightarrow> (Inl CollaboratorError, st2)
         | Inr secret \<Rightarrow>
             createBondRecord env targetNodeId targetPublicKey responderKeySeq secret
               now st2)))))))"

definition initiate_response ::
  "Env \<Rightarrow> bytes \<Rightarrow> NodeId \<Rightarrow> bytes \<Rightarrow> nat \<Rightarrow> bytes \<Rightarrow> bytes \<Rightarrow> int \<Rightarrow> ChannelManager
     \<Rightarrow> (exn + unit) \<times> ChannelManager" where
  "initiate_response env targetPublicKey targetNodeId myPubKey myKeySeq myEcdhPub initiatorNonce
      now st =
     (case waitForMessage env targetNodeId BOND_RESPONSE of
        None \<Rightarrow> (Inl (ChannelError NEGOTIATION_TIMEOUT), st)
      | Some responseRaw \<Rightarrow>
          if length responseRaw < 199 then (Inl (ChannelError NEGOTIATION_FAILED), st)
          else let responderPubKey = slice_bytes responseRaw 0 33;
                   echoedNonce = slice_bytes responseRaw 99 131;
                   responderPayload = slice_bytes responseRaw 0 135;
                   responderSig = slice_bytes responseRaw 135 199
               in if \<not> arrayEqual echoedNonce initiatorNonce
                  then (Inl (ChannelError VERIFICATION_FAILED), st)
                  else (case verify env responderPayload responderSig responderPubKey of
                          None \<Rightarrow> (Inl CollaboratorError, st)
                        | Some sigValid \<Rightarrow>
                            if \<not> sigValid then (Inl (ChannelError VERIFICATION_FAILED), st)
                            else initiate_confirm env targetPublicKey targetNodeId myPubKey
                                   myKeySeq myEcdhPub initiatorNonce now responseRaw st))"

text \<open>
  The first part returns what the later parts use: the target's node id, the own public
  key, key sequence and ECDH public key, the initiator's nonce and the timestamp \<open>now\<close>.
\<close>

type_synonym challenge_context = "NodeId \<times> bytes \<times> nat \<times> bytes \<times> bytes \<times> int"

definition initiate_challenge ::
  "Env \<Rightarrow> bytes \<Rightarrow> ChannelManager \<Rightarrow> (exn + challenge_context) \<times> ChannelManager" where
  "initiate_challenge env targetPublicKey st =
     (if getActiveBondCount st \<ge> MAX_BONDS_PER_CELL
      then (Inl (ChannelError TOPOLOGY_VIOLATION), st)
      else case deriveNodeId (webcrypto env) targetPublicKey of
             None \<Rightarrow> (Inl CollaboratorError, st)
           | Some targetNodeId \<Rightarrow>
       if map_of (bonds st) targetNodeId \<noteq> None
       then (Inl (ChannelError ALREADY_BONDED), st)
       else case exportPublicKey env of
             None \<Rightarrow> (Inl CollaboratorError, st)
           | Some (myPubKey, myKeySeq) \<Rightarrow>
       (case getCompressedECDHPublicKey env of
             None \<Rightarrow> (Inl CollaboratorError, st)
           | Some myEcdhPub \<Rightarrow>
       (let now = now_seconds env;
            initiatorNonce = randomBytes env 32
        in case payload103 myPubKey myKeySeq myEcdhPub initiatorNonce now of
             None \<Rightarrow> (Inl CollaboratorError, st)
           | Some challengePayload \<Rightarrow>
       (case sign env challengePayload of
             None \<Rightarrow> (Inl CollaboratorError, st)
           | Some challengeSig \<Rightarrow>
       (case frame_of BOND_CHALLENGE 103 challengePayload challengeSig of
             None \<Rightarrow> (Inl CollaboratorError, st)
           | Some challengeFrame \<Rightarrow>
       (case transmit env challengeFrame st of
             (Inl e, st1) \<Rightarrow> (Inl e, st1)
           | (Inr _, st1) \<Rightarrow>
               (Inr (targetNodeId, myPubKey, myKeySeq, myEcdhPub, initiatorNonce, now),
                st1)))))))"

definition initiate :: "Env \<Rightarrow> bytes \<Rightarrow> ChannelManager \<Rightarrow> (exn + unit) \<times> ChannelManager" where
  "initiate env targetPublicKey st =
     (case initiate_challenge env targetPublicKey st of
        (Inl e, st1) \<Rightarrow> (Inl e, st1)
      | (Inr (targetNodeId, myPubKey, myKeySeq, myEcdhPub, initiatorNonce, now), st1) \<Rightarrow>
          initiate_response env targetPublicKey targetNodeId myPubKey myKeySeq myEcdhPub
            initiatorNonce now st1)"

text \<open>
  \<open>accept\<close> in two parts, the later one first: the checks on the confirm with the key
  agreement and the bond record, and everything up to the wait for the confirm.
\<close>

definition accept_confirm ::
  "Env \<Rightarrow> bytes \<Rightarrow> NodeId \<Rightarrow> bytes \<Rightarrow> bytes \<Rightarrow> int \<Rightarrow> bytes \<Rightarrow> ChannelManager
     \<Rightarrow> (exn + unit) \<times> ChannelManager" where
  "accept_confirm env initiatorPublicKey initiatorNodeId challengeRaw responderNonce now
      confirmRaw st =
     (if length confirmRaw < 167 then (Inl (ChannelError NEGOTIATION_FAILED), st)
      else let challengerKeySeq = unat (challengeRaw ! 33);
               challengerEcdhPub = slice_bytes challengeRaw 34 67;
               initiatorNonce = slice_bytes challengeRaw 67 99;
               confirmPubKey = slice_bytes confirmRaw 0 33;
               echoedResponderNonce = slice_bytes confirmRaw 67 99;
               confirmPayload = slice_bytes confirmRaw 0 103;
               confirmSig = slice_bytes confirmRaw 103 167
           in if \<not> arrayEqual echoedResponderNonce responderNonce
              then (Inl (ChannelError VERIFICATION_FAILED), st)
              else (case verify env confirmPayload confirmSig confirmPubKey of
                      None \<Rightarrow> (Inl CollaboratorError, st)
                    | Some confirmValid \<Rightarrow>
                  if \<not> confirmValid then (Inl (ChannelError VERIFICATION_FAILED), st)
                  else (case getECDHPrivateKey env of
                      None \<Rightarrow> (Inl CollaboratorError, st)
                    | Some ecdhKey \<Rightarrow>
                  (case combineNonces initiatorNonce responderNonce of
                      None \<Rightarrow> (Inl CollaboratorError, st)
                    | Some combinedNonces \<Rightarrow>
                  (case deriveSharedSecret (webcrypto env) ecdhKey challengerEcdhPub BOND_INFO
                          (Some combinedNonces) of
                      Inl _ \<Rightarrow> (Inl CollaboratorError, st)
                    | Inr secret \<Rightarrow>
                        createBondRecord env initiatorNodeId initiatorPublicKey
                          challengerKeySeq secret now st)))))"

definition accept :: "Env \<Rightarrow> bytes \<Rightarrow> ChannelManager \<Rightarrow> (exn + unit) \<times> ChannelManager" where
  "accept env initiatorPublicKey st =
     (if getActiveBondCount st \<ge> MAX_BONDS_PER_CELL
      then (Inl (ChannelError TOPOLOGY_VIOLATION), st)
      else case deriveNodeId (webcrypto env) initiatorPublicKey of
             None \<Rightarrow> (Inl CollaboratorError, st)
           | Some initiatorNodeId \<Rightarrow>
       if map_of (bonds st) initiatorNodeId \<noteq> None
       then (Inl (ChannelError ALREADY_BONDED), st)
       else case waitForMessage env initiatorNodeId BOND_CHALLENGE of
             None \<Rightarrow> (Inl (ChannelError NEGOTIATION_TIMEOUT), st)
           | Some challengeRaw \<Rightarrow>
       if length challengeRaw < 167 then (Inl (ChannelError NEGOTIATION_FAILED), st)
       else let challengerPubKey = slice_bytes challengeRaw 0 33;
                initiatorNonce = slice_bytes challengeRaw 67 99;
                challengePayload = slice_bytes challengeRaw 0 103;
                challengeSig = slice_bytes challengeRaw 103 167
            in case verify env challengePayload challengeSig challengerPubKey of
                 None \<Rightarrow> (Inl CollaboratorError, st)
               | Some sigValid \<Rightarrow>
       if \<not> sigValid then (Inl (ChannelError VERIFICATION_FAILED), st)
       else case exportPublicKey env of
             None \<Rightarrow> (Inl CollaboratorError, st)
           | Some (myPubKey, myKeySeq) \<Rightarrow>
       (case getCompressedECDHPublicKey env of
             None \<Rightarrow> (Inl CollaboratorError, st)
           | Some myEcdhPub \<Rightarrow>
       (let responderNonce = randomBytes env 32;
            now = now_seconds env
        in case payload135 myPubKey myKeySeq myEcdhPub responderNonce initiatorNonce now of
             None \<Rightarrow> (Inl CollaboratorError, st)
           | Some responsePayload \<Rightarrow>
       (case sign env responsePayload of
             None \<Rightarrow> (Inl CollaboratorError, st)
           | Some responseSig \<Rightarrow>
       (case frame_of BOND_RESPONSE 135 responsePayload responseSig of
             None \<Rightarrow> (Inl CollaboratorError, st)
           | Some responseFrame \<Rightarrow>
       (case transmit env responseFrame st of
             (Inl e, st1) \<Rightarrow> (Inl e, st1)
           | (Inr _, st1) \<Rightarrow>
       (case waitForMessage env initiatorNodeId BOND_CONFIRM of
             None \<Rightarrow> (Inl (ChannelError NEGOTIATION_TIMEOUT), st1)
           | Some confirmRaw \<Rightarrow>
               accept_confirm env initiatorPublicKey initiatorNodeId challengeRaw
                 responderNonce now confirmRaw st1)))))))"

text \<open>
  How a negotiation with the peer key \<open>pk\<close> ends, seen from the two stores: it failed
  with an error of its own (not an exception of a callback) and left both stores as they
  were, or it ran \<open>createBondRecord\<close> for that key, from a state with the stores as they
  were, and returned what that returned.
\<close>

definition ends_well ::
  "Env \<Rightarrow> bytes \<Rightarrow> ChannelManager \<Rightarrow> (exn + unit) \<times> ChannelManager \<Rightarrow> bool" where
  "ends_well env pk st out \<longleftrightarrow>
     (\<exists>e. fst out = Inl e \<and> e \<noteq> ListenerError \<and> bonds (snd out) = bonds st
           \<and> interactions (snd out) = interactions st)
     \<or> (\<exists>peerId ks secret ts st2. out = createBondRecord env peerId pk ks secret ts st2
           \<and> bonds st2 = bonds st \<and> interactions st2 = interactions st
           \<and> (fst out = Inr () \<or> fst out = Inl ListenerError))"

section \<open>Receiving data frames (channel-manager.ts)\<close>

definition decodeMessageType :: "byte \<Rightarrow> MessageType" where
  "decodeMessageType code =
     (if code = 0x01 then STATE_UPDATE
      else if code = 0x02 then VAULT_REQUEST
      else if code = 0x03 then VAULT_GRANT
      else if code = 0x04 then VAULT_FRAGMENT
      else if code = 0x05 then PING
      else CUSTOM)"

text \<open>
  The loop over \<open>messageListeners\<close>. Each call is logged; a listener that throws ends the
  loop, and the result is \<open>False\<close>.
\<close>

fun call_listeners :: "Env \<Rightarrow> BondMessage \<Rightarrow> nat list \<Rightarrow> ChannelManager \<Rightarrow> bool \<times> ChannelManager" where
  "call_listeners env message [] st = (True, st)"
| "call_listeners env message (listener # rest) st =
     (let st1 = st\<lparr>delivered := delivered st @ [(listener, message)]\<rparr>
      in if message_listener_throws env listener message then (False, st1)
         else call_listeners env message rest st1)"

text \<open>
  The body of the \<open>try\<close> block of \<open>handleBondData\<close> for one bond, after the decryption has
  given a plaintext of at least 6 bytes. The result is \<open>True\<close> when the body reaches its
  \<open>return\<close>, \<open>False\<close> when \<open>emit\<close> or a message listener throws and the \<open>catch\<close> takes over.
\<close>

definition receive_on_bond :: "Env \<Rightarrow> NodeId \<Rightarrow> bytes \<Rightarrow> ChannelManager \<Rightarrow> bool \<times> ChannelManager" where
  "receive_on_bond env peerId plaintext st =
     (let typeCode = plaintext ! 0;
          timestamp = unat (be32 (plaintext ! 1) (plaintext ! 2) (plaintext ! 3) (plaintext ! 4));
          senderIdLen = unat (plaintext ! 5);
          senderId = slice_bytes plaintext 6 (6 + senderIdLen);
          msgPayload = drop (6 + senderIdLen) plaintext;
          message = \<lparr>msg_type = decodeMessageType typeCode, msg_payload = msgPayload,
                     msg_timestamp = timestamp, msg_senderId = senderId\<rparr>;
          now = now_seconds env;
          st1 = updateBondChannel peerId now 1 st;
          st2 = (case interactions st1 peerId of
                   None \<Rightarrow> st1
                 | Some tracking \<Rightarrow>
                     st1\<lparr>interactions := (interactions st1)(peerId \<mapsto>
                        tracking\<lparr>recvCount := recvCount tracking + 1,
                                 responseTimesMs :=
                                   (if lastMessageSentAt tracking > 0
                                    then responseTimesMs tracking
                                           @ [clock_later_ms env - lastMessageSentAt tracking]
                                    else responseTimesMs tracking)\<rparr>)\<rparr>)
      in case emit env (BOND_MESSAGE_RECEIVED message now) st2 of
           (Inl _, st3) \<Rightarrow> (False, st3)
         | (Inr _, st3) \<Rightarrow> call_listeners env message (messageListeners st3) st3)"

text \<open>
  The \<open>for\<close> loop of \<open>handleBondData\<close> over the keys of \<open>bonds\<close> that are still to visit.
  The bond of a key is read from the current state, as the iteration of a \<open>Map\<close> does.
\<close>

fun handleBondData_loop ::
  "Env \<Rightarrow> bytes \<Rightarrow> bytes \<Rightarrow> NodeId list \<Rightarrow> ChannelManager \<Rightarrow> ChannelManager" where
  "handleBondData_loop env nonce ciphertext [] st = st"
| "handleBondData_loop env nonce ciphertext (peerId # rest) st =
     (case map_of (bonds st) peerId of
        None \<Rightarrow> handleBondData_loop env nonce ciphertext rest st
      | Some bond \<Rightarrow>
          if status (channel bond) \<noteq> ACTIVE
          then handleBondData_loop env nonce ciphertext rest st
          else (case aesGcmDecrypt (webcrypto env) (sharedSecret (channel bond))
                       ciphertext nonce of
                  None \<Rightarrow> handleBondData_loop env nonce ciphertext rest st
                | Some plaintext \<Rightarrow>
                    if length plaintext < 6
                    then handleBondData_loop env nonce ciphertext rest st
                    else (case receive_on_bond env peerId plaintext st of
                            (True, st') \<Rightarrow> st'
                          | (False, st') \<Rightarrow>
                              handleBondData_loop env nonce ciphertext rest st')))"

definition handleBondData :: "Env \<Rightarrow> bytes \<Rightarrow> ChannelManager \<Rightarrow> ChannelManager" where
  "handleBondData env payload st =
     (if length payload < 13 then st
      else handleBondData_loop env (slice_bytes payload 0 12) (drop 12 payload)
             (map fst (bonds st)) st)"

text \<open>
  \<open>handleTransportMessage\<close>. A negotiation message resolves a pending wait, which the
  model has in \<open>waitForMessage\<close>; it leaves the state as it is.
\<close>

definition handleTransportMessage :: "Env \<Rightarrow> bytes \<Rightarrow> ChannelManager \<Rightarrow> ChannelManager" where
  "handleTransportMessage env data st =
     (if length data < 2 then st
      else if data ! 0 = BOND_DATA then handleBondData env (drop 1 data) st
      else st)"

text \<open>
  A bond takes a frame when it is \<open>ACTIVE\<close> and its shared secret authenticates and
  decrypts the frame; callbacks are quiet when none of them throws.
\<close>

definition takes_frame :: "Env \<Rightarrow> bytes \<Rightarrow> bytes \<Rightarrow> NodeZeroBond \<Rightarrow> bool" where
  "takes_frame env nonce ciphertext bond \<longleftrightarrow>
     status (channel bond) = ACTIVE
     \<and> aesGcmDecrypt (webcrypto env) (sharedSecret (channel bond)) ciphertext nonce \<noteq> None"

definition callbacks_quiet :: "Env \<Rightarrow> bool" where
  "callbacks_quiet env \<longleftrightarrow>
     (\<forall>e. \<not> event_listener_throws env e) \<and> (\<forall>l m. \<not> message_listener_throws env l m)"

text \<open>The \<open>BondMessage\<close> that \<open>handleBondData\<close> decodes from a plaintext.\<close>

definition received_message :: "bytes \<Rightarrow> BondMessage" where
  "received_message plaintext =
     \<lparr>msg_type = decodeMessageType (plaintext ! 0),
      msg_payload = drop (6 + unat (plaintext ! 5)) plaintext,
      msg_timestamp = unat (be32 (plaintext ! 1) (plaintext ! 2) (plaintext ! 3) (plaintext ! 4)),
      msg_senderId = slice_bytes plaintext 6 (6 + unat (plaintext ! 5))\<rparr>"

section \<open>Concrete inputs used by the examples\<close>

definition fresh_tracking :: BondInteractionState where
  "fresh_tracking = \<lparr>sentCount = 0, recvCount = 0, dailyCounts = [],
                      responseTimesMs = [], lastMessageSentAt = 0\<rparr>"

definition no_webcrypto :: WebCrypto where
  "no_webcrypto = \<lparr>ecdh = (\<lambda>_ _. None), hkdf = (\<lambda>_ _ _ _. 0), sha256 = (\<lambda>_. None),
                    gcm_authentic = (\<lambda>_ _ _. False), gcm_plain = (\<lambda>_ _ _ _. 0)\<rparr>"

definition quiet_env :: Env where
  "quiet_env = \<lparr>clock_ms = 1700000000000, clock_later_ms = 1700000000500,
                 event_listener_throws = (\<lambda>_. False),
                 message_listener_throws = (\<lambda>_ _. False),
                 webcrypto = no_webcrypto,
                 exportPublicKey = None, getCompressedECDHPublicKey = None,
                 getECDHPrivateKey = None, sign = (\<lambda>_. None), verify = (\<lambda>_ _ _. None),
                 transmit_ok = (\<lambda>_. True), random_source = (\<lambda>_. 0),
                 waitForMessage = (\<lambda>_ _. None)\<rparr>"

definition empty_manager :: ChannelManager where
  "empty_manager = \<lparr>bonds = [], interactions = Map.empty, messageListeners = [],
                     emitted = [], transmitted = [], delivered = []\<rparr>"

text \<open>
  A toy digest (the first byte of the input) makes node ids short: the 33-byte key
  \<open>2, 2, ...\<close> has the node id \<open>''3''\<close>. \<open>ready_env\<close> has a provisioned identity, draws the
  nonce \<open>7, 7, ...\<close> and delivers 199 zero bytes to every wait.
\<close>

definition toy_webcrypto :: WebCrypto where
  "toy_webcrypto = no_webcrypto\<lparr>sha256 := (\<lambda>bs. Some (take 1 bs))\<rparr>"

definition ready_env :: Env where
  "ready_env = quiet_env\<lparr>webcrypto := toy_webcrypto,
      exportPublicKey := Some (replicate 33 2, 1),
      getCompressedECDHPublicKey := Some (replicate 33 3),
      sign := (\<lambda>_. Some (replicate 64 9)),
      random_source := (\<lambda>_. 7),
      waitForMessage := (\<lambda>_ _. Some (replicate 199 0))\<rparr>"

definition timeout_env :: Env where
  "timeout_env = ready_env\<lparr>waitForMessage := (\<lambda>_ _. None)\<rparr>"

definition sample_bond :: "NodeId \<Rightarrow> bytes \<Rightarrow> NodeZeroBond" where
  "sample_bond peerId secret =
     \<lparr>version = 1, partner = \<lparr>nodeId = peerId, publicKey = [], keySequence = 0\<rparr>,
      trust = \<lparr>careScore = 0.5,
               components = \<lparr>frequency = 0.5, reciprocity = 0.5, consistency = 1,
                             responsiveness = 1\<rparr>,
               tier = STRUT\<rparr>,
      channel = \<lparr>sharedSecret = secret, lastInteraction = 0, totalExchanges = 0,
                 status = ACTIVE\<rparr>,
      permissions = \<lparr>grantedVaultLayers = [], stateVisibility = VOLTAGE\<rparr>,
      createdAt = 0\<rparr>"

definition full_manager :: ChannelManager where
  "full_manager = empty_manager\<lparr>bonds :=
      [(''3'', sample_bond ''3'' [1]), (''a'', sample_bond ''a'' [2]),
       (''b'', sample_bond ''b'' [3]), (''c'', sample_bond ''c'' [4])]\<rparr>"

definition one_bond_manager :: ChannelManager where
  "one_bond_manager = empty_manager\<lparr>bonds := [(''3'', sample_bond ''3'' [1])]\<rparr>"

text \<open>
  A data frame of 12 nonce bytes and 24 ciphertext bytes, which only the key \<open>[1]\<close>
  authenticates, to the 8-byte plaintext of a \<open>PING\<close>; and a manager with two bonds and
  two message listeners.
\<close>

definition gcm_webcrypto :: WebCrypto where
  "gcm_webcrypto = toy_webcrypto\<lparr>gcm_authentic := (\<lambda>key nonce ct. key = [1]),
      gcm_plain := (\<lambda>key nonce ct i. [5, 0, 0, 0, 9, 1, 65, 42] ! i)\<rparr>"

definition gcm_env :: Env where
  "gcm_env = quiet_env\<lparr>webcrypto := gcm_webcrypto\<rparr>"

definition listening_manager :: ChannelManager where
  "listening_manager = empty_manager\<lparr>
      bonds := [(''a'', sample_bond ''a'' [2]), (''3'', sample_bond ''3'' [1])],
      interactions := [''a'' \<mapsto> fresh_tracking, ''3'' \<mapsto> fresh_tracking],
      messageListeners := [0, 1]\<rparr>"

definition data_frame :: bytes where
  "data_frame = replicate 12 0 @ replicate 24 0"

text \<open>
  Two bonds with the same shared secret \<open>[1]\<close>, so that both authenticate the frame, and
  an environment whose message listener 0 throws.
\<close>

definition twin_manager :: ChannelManager where
  "twin_manager = empty_manager\<lparr>
      bonds := [(''a'', sample_bond ''a'' [1]), (''3'', sample_bond ''3'' [1])],
      interactions := [''a'' \<mapsto> fresh_tracking, ''3'' \<mapsto> fresh_tracking],
      messageListeners := [0, 1]\<rparr>"

definition throwing_env :: Env where
  "throwing_env = gcm_env\<lparr>message_listener_throws := (\<lambda>listener message. listener = 0)\<rparr>"

text \<open>The order of the tiers and the threshold that opens each one (\<open>GHOST\<close> has none).\<close>

definition tier_rank :: "TrustTier \<Rightarrow> nat" where
  "tier_rank t = (case t of GHOST \<Rightarrow> 0 | STRUT \<Rightarrow> 1 | COHERENT \<Rightarrow> 2 | RESONANT \<Rightarrow> 3)"

definition threshold_of :: "TrustTier \<Rightarrow> real" where
  "threshold_of t = (case t of GHOST \<Rightarrow> 0 | STRUT \<Rightarrow> threshold_strut
                      | COHERENT \<Rightarrow> threshold_coherent | RESONANT \<Rightarrow> threshold_resonant)"

section \<open>Two P-256 points used by the examples\<close>

text \<open>
  The base point \<open>G\<close> of P-256 (its \<open>y\<close> is odd) and the point \<open>-2G\<close> (its \<open>y\<close> is even),
  as coordinates, as uncompressed keys and in compressed form.
\<close>

definition generator_x :: bytes where
  "generator_x =
    [0x6b, 0x17, 0xd1, 0xf2, 0xe1, 0x2c, 0x42, 0x47, 0xf8, 0xbc, 0xe6, 0xe5, 0x63, 0xa4, 0x40, 0xf2,
     0x77, 0x03, 0x7d, 0x81, 0x2d, 0xeb, 0x33, 0xa0, 0xf4, 0xa1, 0x39, 0x45, 0xd8, 0x98, 0xc2, 0x96]"

definition generator_y :: bytes where
  "generator_y =
    [0x4f, 0xe3, 0x42, 0xe2, 0xfe, 0x1a, 0x7f, 0x9b, 0x8e, 0xe7, 0xeb, 0x4a, 0x7c, 0x0f, 0x9e, 0x16,
     0x2b, 0xce, 0x33, 0x57, 0x6b, 0x31, 0x5e, 0xce, 0xcb, 0xb6, 0x40, 0x68, 0x37, 0xbf, 0x51, 0xf5]"

definition generator_key :: bytes where
  "generator_key = 0x04 # generator_x @ generator_y"

definition generator_compressed :: bytes where
  "generator_compressed = 0x03 # generator_x"

definition peer_x :: bytes where
  "peer_x =
    [0x7c, 0xf2, 0x7b, 0x18, 0x8d, 0x03, 0x4f, 0x7e, 0x8a, 0x52, 0x38, 0x03, 0x04, 0xb5, 0x1a, 0xc3,
     0xc0, 0x89, 0x69, 0xe2, 0x77, 0xf2, 0x1b, 0x35, 0xa6, 0x0b, 0x48, 0xfc, 0x47, 0x66, 0x99, 0x78]"

definition peer_y :: bytes where
  "peer_y =
    [0xf8, 0x88, 0xaa, 0xee, 0x24, 0x71, 0x2f, 0xc0, 0xd6, 0xc2, 0x65, 0x39, 0x60, 0x8b, 0xcf, 0x24,
     0x45, 0x82, 0x52, 0x1a, 0xc3, 0x16, 0x7d, 0xd6, 0x61, 0xfb, 0x48, 0x62, 0xdd, 0x87, 0x8c, 0x2e]"

definition peer_key :: bytes where
  "peer_key = 0x04 # peer_x @ peer_y"

definition peer_compressed :: bytes where
  "peer_compressed = 0x02 # peer_x"

text \<open>The point \<open>2G\<close>, with the \<open>x\<close> of \<open>-2G\<close> and an odd \<open>y\<close>.\<close>

definition double_x :: bytes where
  "double_x =
    [0x7c, 0xf2, 0x7b, 0x18, 0x8d, 0x03, 0x4f, 0x7e, 0x8a, 0x52, 0x38, 0x03, 0x04, 0xb5, 0x1a, 0xc3,
     0xc0, 0x89, 0x69, 0xe2, 0x77, 0xf2, 0x1b, 0x35, 0xa6, 0x0b, 0x48, 0xfc, 0x47, 0x66, 0x99, 0x78]"

definition double_y :: bytes where
  "double_y =
    [0x07, 0x77, 0x55, 0x10, 0xdb, 0x8e, 0xd0, 0x40, 0x29, 0x3d, 0x9a, 0xc6, 0x9f, 0x74, 0x30, 0xdb,
     0xba, 0x7d, 0xad, 0xe6, 0x3c, 0xe9, 0x82, 0x29, 0x9e, 0x04, 0xb7, 0x9d, 0x22, 0x78, 0x73, 0xd1]"

definition double_key :: bytes where
  "double_key = 0x04 # double_x @ double_y"

definition double_compressed :: bytes where
  "double_compressed = 0x03 # double_x"

text \<open>
  A stand-in for the platform: its points are the bytes under addition modulo 256, with
  the points 1 and 2 exported as \<open>G\<close> and \<open>2G\<close>, and the handle of a private key is its
  scalar. \<open>dh_webcrypto\<close> computes ECDH on it; its HKDF stream repeats the key material.
\<close>

definition stand_in_platform :: "byte EcdhPlatform" where
  "stand_in_platform =
     \<lparr>point_add = (+), point_zero = 0, base_point = 1,
      raw_of_point = (\<lambda>k. if k = 1 then generator_key else if k = 2 then double_key else []),
      point_of_raw = (\<lambda>raw. if raw = generator_key then Some 1
                             else if raw = double_key then Some 2 else None),
      x_bytes = (\<lambda>k. if k = 1 then generator_x else if k = 2 then double_x else []),
      scalar_of = (\<lambda>priv. priv)\<rparr>"

definition dh_webcrypto :: WebCrypto where
  "dh_webcrypto = no_webcrypto\<lparr>
      ecdh := (\<lambda>priv raw.
                 map_option (\<lambda>Q. x_bytes stand_in_platform
                                    (scalar_mult stand_in_platform
                                       (scalar_of stand_in_platform priv) Q))
                   (point_of_raw stand_in_platform raw)),
      hkdf := (\<lambda>ikm salt info i. ikm ! i)\<rparr>"

section \<open>Primes: Fermat, Pocklington and trial division\<close>

lemma is_prime_gt1: "is_prime p \<Longrightarrow> 1 < p"
  by (simp add: is_prime_def)

lemma is_prime_2: "is_prime 2"
proof -
  have "m = 1 \<or> m = 2" if "m dvd 2" for m :: nat
  proof -
    from that have "m \<le> 2" by (auto dest: dvd_imp_le)
    moreover from that have "m \<noteq> 0" by (cases "m = 0") simp_all
    ultimately show ?thesis by arith
  qed
  then show ?thesis by (simp add: is_prime_def)
qed

lemma prime_factor_exists: "n \<noteq> 1 \<Longrightarrow> \<exists>p. is_prime p \<and> p dvd n"
proof (induction n rule: less_induct)
  case (less n)
  show ?case
  proof (cases "n = 0")
    case True
    then show ?thesis using is_prime_2 by auto
  next
    case False
    with less.prems have n: "1 < n" by simp
    show ?thesis
    proof (cases "is_prime n")
      case True
      then show ?thesis by auto
    next
      case False
      with n obtain m where m: "m dvd n" "m \<noteq> 1" "m \<noteq> n"
        by (auto simp: is_prime_def)
      with n have "m < n" using dvd_imp_le [of m n] by simp
      from less.IH [OF this m(2)] obtain p where "is_prime p" "p dvd m" by blast
      with m(1) show ?thesis by (meson dvd_trans)
    qed
  qed
qed

lemma prime_coprime: "is_prime p \<Longrightarrow> \<not> p dvd a \<Longrightarrow> coprime p a"
proof -
  assume p: "is_prime p" and n: "\<not> p dvd a"
  have "gcd p a dvd p" by simp
  with p have "gcd p a = 1 \<or> gcd p a = p" by (simp add: is_prime_def)
  moreover have "gcd p a \<noteq> p"
  proof
    assume "gcd p a = p"
    then have "p dvd a" by (metis gcd_dvd2)
    with n show False ..
  qed
  ultimately show ?thesis by (simp add: coprime_iff_gcd_eq_1)
qed

lemma prime_dvd_mult: "is_prime p \<Longrightarrow> p dvd a * b \<Longrightarrow> p dvd a \<or> p dvd b"
  using prime_coprime coprime_dvd_mult_right_iff by blast

lemma prime_dvd_choose:
  assumes "is_prime p" "0 < k" "k < p"
  shows "p dvd (p choose k)"
proof -
  have "k * (p choose k) = p * ((p - 1) choose (k - 1))"
    using assms(2) by (rule times_binomial_minus1_eq)
  then have "p dvd k * (p choose k)" by simp
  moreover have "\<not> p dvd k" using assms(2,3) by (auto dest: dvd_imp_le)
  ultimately show ?thesis using prime_dvd_mult [OF assms(1)] by blast
qed

lemma freshman:
  assumes "is_prime p"
  shows "(a + 1) ^ p mod p = (a ^ p + 1) mod p"
proof -
  from assms have p: "1 < p" by (rule is_prime_gt1)
  have "(a + 1) ^ p = (\<Sum>k\<le>p. (p choose k) * a ^ k)"
    using binomial [of a 1 p] by simp
  also have "{..p} = insert 0 (insert p {1..<p})" using p by auto
  also have "(\<Sum>k\<in>insert 0 (insert p {1..<p}). (p choose k) * a ^ k)
           = 1 + (a ^ p + (\<Sum>k\<in>{1..<p}. (p choose k) * a ^ k))"
    using p by simp
  finally have e: "(a + 1) ^ p = (a ^ p + 1) + (\<Sum>k\<in>{1..<p}. (p choose k) * a ^ k)"
    by simp
  have "p dvd (\<Sum>k\<in>{1..<p}. (p choose k) * a ^ k)"
    by (rule dvd_sum) (auto intro!: dvd_mult2 prime_dvd_choose [OF assms])
  then obtain M where "(\<Sum>k\<in>{1..<p}. (p choose k) * a ^ k) = p * M" ..
  then show ?thesis unfolding e by simp
qed

lemma fermat_pow: "is_prime p \<Longrightarrow> a ^ p mod p = a mod p"
proof (induction a)
  case 0
  then have "0 < p" using is_prime_gt1 [of p] by simp
  then show ?case by (simp add: zero_power)
next
  case (Suc a)
  have "Suc a ^ p mod p = (a ^ p + 1) mod p"
    using freshman [OF Suc.prems, of a] by simp
  also have "\<dots> = (a ^ p mod p + 1) mod p" by (simp only: mod_add_left_eq)
  also have "\<dots> = (a mod p + 1) mod p" using Suc.IH [OF Suc.prems] by simp
  also have "\<dots> = (a + 1) mod p" by (simp only: mod_add_left_eq)
  also have "\<dots> = Suc a mod p" by simp
  finally show ?case .
qed

lemma fermat_little:
  assumes "is_prime p" "\<not> p dvd a"
  shows "a ^ (p - 1) mod p = 1"
proof -
  from assms(1) have p: "1 < p" by (rule is_prime_gt1)
  from assms(2) have a: "0 < a" by (cases a) auto
  have "a ^ p mod p = a mod p" by (rule fermat_pow [OF assms(1)])
  moreover have "a \<le> a ^ p" using a p by (simp add: self_le_power)
  ultimately have "p dvd a ^ p - a" by (simp add: mod_eq_dvd_iff_nat)
  moreover have "a ^ p - a = a * (a ^ (p - 1) - 1)"
    using p by (cases p) (auto simp: algebra_simps)
  ultimately have "p dvd a ^ (p - 1) - 1"
    using prime_dvd_mult [OF assms(1)] assms(2) by auto
  moreover have "1 \<le> a ^ (p - 1)" using a by simp
  ultimately have "a ^ (p - 1) mod p = 1 mod p"
    using mod_eq_dvd_iff_nat [of 1 "a ^ (p - 1)" p] by simp
  with p show ?thesis by simp
qed

lemma pow_mod_one:
  fixes a n :: nat
  assumes "a ^ x mod n = 1"
  shows "a ^ (x * k) mod n = 1 mod n"
proof -
  have "a ^ (x * k) mod n = (a ^ x mod n) ^ k mod n"
    by (simp add: power_mult power_mod)
  with assms show ?thesis by simp
qed

lemma pow_gcd_one:
  fixes a n :: nat
  assumes "a ^ x mod n = 1" "a ^ y mod n = 1" "x \<noteq> 0"
  shows "a ^ gcd x y mod n = 1"
proof -
  from bezout_nat [OF assms(3), of y] obtain u v where uv: "x * u = y * v + gcd x y" by blast
  have n: "1 mod n = (1::nat)" using mod_mod_trivial [of "a ^ x" n] assms(1) by simp
  have l: "a ^ (x * u) mod n = 1" using pow_mod_one [OF assms(1), of u] n by simp
  have r: "a ^ (y * v) mod n = 1" using pow_mod_one [OF assms(2), of v] n by simp
  have "a ^ (y * v + gcd x y) mod n = (a ^ (y * v) mod n * (a ^ gcd x y mod n)) mod n"
    by (simp only: power_add mod_mult_eq)
  also have "\<dots> = a ^ gcd x y mod n" by (simp only: r mult_1 mod_mod_trivial)
  finally show ?thesis using l uv by simp
qed

text \<open>Pocklington: one prime factor of n - 1 at a time.\<close>

lemma pocklington_step:
  assumes q: "is_prime q" and nm: "n - 1 = q * m" and n: "1 < n"
    and one: "a ^ (n - 1) mod n = 1"
    and cop: "coprime (a ^ m mod n - 1) n"
    and P: "is_prime P" "P dvd n"
  shows "q dvd P - 1"
proof (rule ccontr)
  assume nq: "\<not> q dvd P - 1"
  from P(1) have P1: "1 < P" by (rule is_prime_gt1)
  have modP: "x mod n mod P = x mod P" for x
    using P(2) by (rule mod_mod_cancel)
  have oneP: "a ^ (n - 1) mod P = 1"
    using modP [of "a ^ (n - 1)"] one P1 by simp
  have na: "\<not> P dvd a"
  proof
    assume "P dvd a"
    moreover have "a dvd a ^ (n - 1)" using n by (intro dvd_power) simp
    ultimately have "P dvd a ^ (n - 1)" by (rule dvd_trans)
    with oneP show False by simp
  qed
  have fer: "a ^ (P - 1) mod P = 1" by (rule fermat_little [OF P(1) na])
  let ?g = "gcd (n - 1) (P - 1)"
  have g1: "a ^ ?g mod P = 1"
    using pow_gcd_one [OF oneP fer] n by simp
  have "\<not> q dvd ?g" using nq by (meson dvd_trans gcd_dvd2)
  then have "coprime q ?g" by (rule prime_coprime [OF q])
  moreover have "?g dvd q * m" using nm by (metis gcd_dvd1)
  ultimately have "?g dvd m" by (simp add: coprime_commute coprime_dvd_mult_right_iff)
  then obtain k where k: "m = ?g * k" ..
  have am: "a ^ m mod P = 1"
    using pow_mod_one [OF g1, of k] k P1 by simp
  then have "(a ^ m mod n) mod P = 1" by (simp add: modP)
  then have "P dvd a ^ m mod n - 1"
    using dvd_minus_mod [of P "a ^ m mod n"] by simp
  with P(2) cop have "is_unit P"
    unfolding coprime_def by blast
  with P1 show False by simp
qed

lemma prime_by_large_factors:
  assumes n: "1 < n" and F: "\<And>P. is_prime P \<Longrightarrow> P dvd n \<Longrightarrow> F dvd P - 1"
    and big: "n < (F + 1) * (F + 1)"
  shows "is_prime n"
proof -
  have ge: "F + 1 \<le> m" if "m dvd n" "m \<noteq> 1" for m
  proof -
    from prime_factor_exists [OF that(2)] obtain P where P: "is_prime P" "P dvd m" by blast
    with that(1) have "P dvd n" by (meson dvd_trans)
    from F [OF P(1) this] have "F dvd P - 1" .
    moreover have "0 < P - 1" using is_prime_gt1 [OF P(1)] by simp
    ultimately have "F \<le> P - 1" by (rule dvd_imp_le)
    then have "F + 1 \<le> P" using is_prime_gt1 [OF P(1)] by simp
    moreover have "0 < m" using that(1) n by (cases "m = 0") simp_all
    then have "P \<le> m" using P(2) by (simp add: dvd_imp_le)
    ultimately show ?thesis by simp
  qed
  have "m = 1 \<or> m = n" if m: "m dvd n" for m
  proof (rule ccontr)
    assume c: "\<not> (m = 1 \<or> m = n)"
    from m obtain k where k: "n = m * k" ..
    with c n have "k \<noteq> 1" by auto
    moreover have "k dvd n" using k by simp
    ultimately have "F + 1 \<le> k" by (rule ge [rotated])
    moreover have "F + 1 \<le> m" using ge [OF m] c by simp
    ultimately have "(F + 1) * (F + 1) \<le> m * k" by (rule mult_le_mono [rotated])
    with big k show False by simp
  qed
  with n show ?thesis by (simp add: is_prime_def)
qed

text \<open>Trial division.\<close>

declare no_divisor.simps [simp del]

lemma no_divisor_range:
  "no_divisor n d k \<Longrightarrow> d \<le> m \<Longrightarrow> m < d + k \<Longrightarrow> \<not> m dvd n"
proof (induction n d k rule: no_divisor.induct)
  case (1 n d k)
  from "1.prems" have k: "k \<noteq> 0" by auto
  from "1.prems"(1) k have a: "n mod d \<noteq> 0" and b: "no_divisor n (d + 1) (k - 1)"
    by (simp_all add: no_divisor.simps [of n d k])
  show ?case
  proof (cases "m = d")
    case True
    with a show ?thesis by (simp add: dvd_eq_mod_eq_0)
  next
    case False
    with "1.prems" k show ?thesis by (intro "1.IH" [OF k b]) auto
  qed
qed

lemma prime_by_trial:
  assumes "1 < n" "no_divisor n 2 k" "n < (k + 2) * (k + 2)"
  shows "is_prime n"
proof -
  have "m = 1 \<or> m = n" if m: "m dvd n" for m
  proof (rule ccontr)
    assume c: "\<not> (m = 1 \<or> m = n)"
    from m obtain j where j: "n = m * j" ..
    have jd: "j dvd n" using j by simp
    from c j assms(1) have m2: "2 \<le> m" and j2: "2 \<le> j"
      by (cases m; cases j; auto)+
    have "k + 2 \<le> m" using no_divisor_range [OF assms(2), of m] m m2 by fastforce
    moreover have "k + 2 \<le> j" using no_divisor_range [OF assms(2), of j] jd j2 by fastforce
    ultimately have "(k + 2) * (k + 2) \<le> m * j" by (rule mult_le_mono)
    with assms(3) j show False by simp
  qed
  with assms(1) show ?thesis by (simp add: is_prime_def)
qed

text \<open>Certified modular exponentiation.\<close>

lemma run_chain_correct:
  assumes pn: "\<And>q. pos q = q * n + neg q"
    and "run_chain pos neg a x e cs = Some (y, e')" and "x mod n = a ^ e mod n"
  shows "y mod n = a ^ e' mod n"
  using assms(2,3)
proof (induction cs arbitrary: x e)
  case Nil
  then show ?case by simp
next
  case (Cons c cs)
  show ?case
  proof (cases c)
    case (Sq q z)
    with Cons.prems(1) have eq: "x * x + neg q = pos q + z"
      and rest: "run_chain pos neg a z (2 * e) cs = Some (y, e')"
      by (auto split: if_splits)
    from eq pn [of q] have "x * x = q * n + z" by simp
    then have "z mod n = x * x mod n" by simp
    also have "\<dots> = (x mod n) * (x mod n) mod n" by (simp only: mod_mult_eq)
    also have "\<dots> = a ^ e * a ^ e mod n" by (simp only: Cons.prems(2) mod_mult_eq)
    also have "a ^ e * a ^ e = a ^ (2 * e)" by (simp add: power_add mult_2)
    finally show ?thesis by (rule Cons.IH [OF rest])
  next
    case (Mu q z)
    with Cons.prems(1) have eq: "x * a + neg q = pos q + z"
      and rest: "run_chain pos neg a z (e + 1) cs = Some (y, e')"
      by (auto split: if_splits)
    from eq pn [of q] have "x * a = q * n + z" by simp
    then have "z mod n = x * a mod n" by simp
    also have "\<dots> = (x mod n) * a mod n" by (simp only: mod_mult_left_eq)
    also have "\<dots> = a ^ e * a mod n" by (simp only: Cons.prems(2) mod_mult_left_eq)
    also have "a ^ e * a = a ^ (e + 1)" by simp
    finally show ?thesis by (rule Cons.IH [OF rest])
  qed
qed

lemma bezout_coprime:
  fixes a b :: nat
  assumes "u * a = v * b + 1"
  shows "coprime a b"
proof (rule coprimeI)
  fix d assume "d dvd a" "d dvd b"
  then have "d dvd u * a" "d dvd v * b" by simp_all
  with assms show "is_unit d" by (metis dvd_add_right_iff)
qed

text \<open>Square roots modulo a prime that is 3 modulo 4.\<close>

lemma sqrt_one_prime:
  assumes p: "is_prime p" and z: "z < p" "z * z mod p = 1"
  shows "z = 1 \<or> z = p - 1"
proof -
  from p have p1: "1 < p" by (rule is_prime_gt1)
  from z(2) have z0: "0 < z" by (cases "z = 0") simp_all
  then have "1 \<le> z * z" by (simp add: Suc_leI)
  with z(2) p1 have "p dvd z * z - 1"
    using mod_eq_dvd_iff_nat [of 1 "z * z" p] by simp
  moreover have "z * z - 1 = (z - 1) * (z + 1)"
    using z0 by (cases z) (simp_all add: algebra_simps)
  ultimately have "p dvd z - 1 \<or> p dvd z + 1"
    using prime_dvd_mult [OF p] by simp
  then show ?thesis
  proof
    assume "p dvd z - 1"
    moreover have "z - 1 < p" using z(1) by simp
    ultimately have "z - 1 = 0" by (meson dvd_imp_le gr0I not_le)
    with z0 show ?thesis by simp
  next
    assume "p dvd z + 1"
    then have "p \<le> z + 1" by (rule dvd_imp_le) simp
    with z(1) show ?thesis by arith
  qed
qed

lemma sqrt_3mod4:
  assumes p: "is_prime p" and p4: "p mod 4 = 3" and y: "y < p"
  shows "(y * y mod p) ^ ((p + 1) div 4) mod p = y
       \<or> (y * y mod p) ^ ((p + 1) div 4) mod p = p - y"
proof (cases "y = 0")
  case True
  define e where "e = (p + 1) div 4"
  have "0 < e" unfolding e_def using p4 by presburger
  then have "(0 * 0 mod p) ^ e mod p = 0" by (simp add: zero_power)
  with True show ?thesis unfolding e_def by blast
next
  case False
  from p have p1: "1 < p" by (rule is_prime_gt1)
  from False y have nd: "\<not> p dvd y" by (auto dest: dvd_imp_le)
  define k where "k = p div 4"
  have pk: "p = 4 * k + 3" using p4 by (simp add: k_def) presburger
  have e: "(p + 1) div 4 = k + 1" using pk by simp
  define z where "z = y ^ (2 * k + 1) mod p"
  have zp: "z < p" using p1 by (simp add: z_def)
  have "z * z mod p = y ^ (2 * k + 1) * y ^ (2 * k + 1) mod p"
    by (simp only: z_def mod_mult_eq)
  also have "y ^ (2 * k + 1) * y ^ (2 * k + 1) = y ^ (p - 1)"
    by (simp add: pk power_add [symmetric] del: power_Suc)
  also have "y ^ (p - 1) mod p = 1" by (rule fermat_little [OF p nd])
  finally have zz: "z * z mod p = 1" .
  have "(y * y mod p) ^ (k + 1) mod p = (y * y) ^ (k + 1) mod p"
    by (simp only: power_mod)
  also have "(y * y) ^ (k + 1) = y ^ (2 * k + 1) * y"
    by (simp add: power_mult_distrib power_add mult_2)
  also have "y ^ (2 * k + 1) * y mod p = z * y mod p"
    by (simp only: z_def mod_mult_left_eq)
  finally have s: "(y * y mod p) ^ ((p + 1) div 4) mod p = z * y mod p"
    by (simp only: e)
  from sqrt_one_prime [OF p zp zz] show ?thesis
  proof
    assume "z = 1"
    with s y show ?thesis by simp
  next
    assume "z = p - 1"
    then have "z * y = (y - 1) * p + (p - y)"
      using y False by (cases y) (auto simp: algebra_simps)
    then have "z * y mod p = (p - y) mod p" by simp
    also have "\<dots> = p - y" using False y by simp
    finally show ?thesis using s by simp
  qed
qed

lemma times_n_pos: "times_n n q = q * n + no_neg q"
  by (simp add: times_n_def no_neg_def)

lemma chain_step:
  assumes "\<And>q. pos q = q * n + neg q"
    and "run_chain pos neg a x e cs = Some (y, e')" and "a ^ e mod n = x mod n"
  shows "a ^ e' mod n = y mod n"
  using run_chain_correct [OF assms(1) assms(2)] assms(3) by simp

lemma chain_start: "(a::nat) ^ 0 mod n = 1 mod n"
  by simp

lemma pocklington_one:
  assumes q: "is_prime q" and n: "n = q * m + 1" and big: "n < (q + 1) * (q + 1)"
    and c: "a ^ m mod n = c" and one: "c ^ q mod n = 1" and bz: "u * (c - 1) = v * n + 1"
  shows "is_prime n"
proof -
  have n1: "1 < n"
  proof (rule ccontr)
    assume "\<not> 1 < n"
    with n have "n = 1" by simp
    with one show False by simp
  qed
  have nm: "n - 1 = q * m" using n by simp
  have "a ^ (n - 1) = (a ^ m) ^ q"
    unfolding nm by (simp add: power_mult mult.commute)
  then have "a ^ (n - 1) mod n = (a ^ m mod n) ^ q mod n"
    by (simp only: power_mod)
  with c one have pw: "a ^ (n - 1) mod n = 1" by simp
  have cop: "coprime (a ^ m mod n - 1) n"
    unfolding c by (rule bezout_coprime [OF bz])
  show ?thesis
    by (rule prime_by_large_factors [OF n1 _ big])
       (rule pocklington_step [OF q nm n1 pw cop])
qed

lemma pocklington_two:
  assumes q1: "is_prime q1" and q2: "is_prime q2" and ne: "q1 \<noteq> q2"
    and n: "n = q1 * q2 * k + 1"
    and big: "n < (q1 * q2 + 1) * (q1 * q2 + 1)"
    and b: "a ^ k mod n = b" and c1: "b ^ q1 mod n = c1" and c2: "b ^ q2 mod n = c2"
    and one: "c1 ^ q2 mod n = 1"
    and bz1: "u1 * (c2 - 1) = v1 * n + 1" and bz2: "u2 * (c1 - 1) = v2 * n + 1"
  shows "is_prime n"
proof -
  have n1: "1 < n"
  proof (rule ccontr)
    assume "\<not> 1 < n"
    with n have "n = 1" by simp
    with one show False by simp
  qed
  have nm1: "n - 1 = q1 * (q2 * k)" and nm2: "n - 1 = q2 * (q1 * k)"
    using n by (simp_all add: mult_ac)
  have e1: "a ^ (q1 * k) mod n = c1"
    using b c1 by (metis mult.commute power_mod power_mult)
  have e2: "a ^ (q2 * k) mod n = c2"
    using b c2 by (metis mult.commute power_mod power_mult)
  have "a ^ (n - 1) = (a ^ (q1 * k)) ^ q2"
    unfolding nm2 by (simp only: power_mult [symmetric] mult.commute [of q2])
  then have "a ^ (n - 1) mod n = (a ^ (q1 * k) mod n) ^ q2 mod n"
    by (simp only: power_mod)
  with e1 one have pw: "a ^ (n - 1) mod n = 1" by simp
  have cop1: "coprime (a ^ (q2 * k) mod n - 1) n"
    unfolding e2 by (rule bezout_coprime [OF bz1])
  have cop2: "coprime (a ^ (q1 * k) mod n - 1) n"
    unfolding e1 by (rule bezout_coprime [OF bz2])
  have "\<not> q1 dvd q2"
    using q2 ne is_prime_gt1 [OF q1] by (auto simp: is_prime_def)
  then have cq: "coprime q1 q2" by (rule prime_coprime [OF q1])
  have F: "q1 * q2 dvd P - 1" if "is_prime P" "P dvd n" for P
    using pocklington_step [OF q1 nm1 n1 pw cop1 that]
      pocklington_step [OF q2 nm2 n1 pw cop2 that] cq
    by (simp add: divides_mult)
  show ?thesis
    by (rule prime_by_large_factors [OF n1 F big])
qed

section \<open>The P-256 modulus is prime\<close>

text \<open>
  A chain of Pocklington certificates: each prime has a large prime factor of its
  predecessor with a witness base, down to primes settled by trial division.
\<close>

lemma p256_pos_neg:
  "p256_pos q = q * 0xffffffff00000001000000000000000000000000ffffffffffffffffffffffff + p256_neg q"
  by (simp add: p256_pos_def p256_neg_def)

lemmas chain_eval = run_chain.simps p256_pos_def p256_neg_def times_n_def no_neg_def
      if_True if_False simp_thms
      arith_simps rel_simps more_arith_simps numeral_plus_numeral numeral_times_numeral
      add_0 add_0_right mult_0 mult_0_right numeral_plus_one one_plus_numeral
      option.inject prod.inject diff_numeral_simps

lemma prime_197: "is_prime 197"
  by (rule prime_by_trial [where k = 13]) (simp_all add: no_divisor.simps)

lemma prime_3677: "is_prime 3677"
  by (rule prime_by_trial [where k = 59]) (simp_all add: no_divisor.simps)

lemma prime_78283: "is_prime 78283"
  by (rule prime_by_trial [where k = 278]) (simp_all add: no_divisor.simps)

lemma prime_704251: "is_prime 704251"
  by (rule prime_by_trial [where k = 838]) (simp_all add: no_divisor.simps)

lemma prime_v_pow_a:
  "run_chain (times_n 0xf76c8ffcb) no_neg 2 1 0
    [Mu 0 2,
     Sq 0 4,
     Sq 0 0x10,
     Mu 0 0x20,
     Sq 0 0x400,
     Mu 0 0x800,
     Sq 0 0x400000,
     Sq 0x108 0xd80b836a8,
     Sq 0xbca53da27 0xa3de87853,
     Mu 1 0x50507f0db,
     Sq 0x1a11fc570 0x853393b89,
     Mu 1 0x12fa97747,
     Sq 0x174aeb17 0x568c4c174,
     Sq 0x1e4631190 0x22a42bf60,
     Sq 0x4d99cf1a 0x335fe4462,
     Sq 0xaaad4440 0xb985b56c4,
     Mu 1 0x7b9edadbd,
     Sq 0x3dc3b9147 0x41d71113c,
     Sq 0x11852bdb3 0xd65b74c1f,
     Mu 1 0xb54a59873,
     Sq 0x84d563f84 0x8a33de9fd,
     Sq 0x4d31fbe04 0x332dedadd,
     Mu 0 0x665bdb5ba,
     Sq 0x2a587af00 0xc77bbc624]
   = Some (0xc77bbc624, 0x1662a)"
  by (simp only: chain_eval)

lemma prime_v_pow_b1:
  "run_chain (times_n 0xf76c8ffcb) no_neg 0xc77bbc624 1 0
    [Mu 0 0xc77bbc624,
     Sq 0xa0d4e25f8 0x12b699168,
     Mu 0xf165ff40 0x76124bae0,
     Sq 0x385812e46 0x1e232d87e,
     Mu 0x184c4a3b0 0xeb027c928,
     Sq 0xdf37de6ea 0x92796a4b2,
     Sq 0x56b65a4c7 0xbc858a8f7,
     Sq 0x8fa44585c 0x4913f695d,
     Mu 0x3aeb1ecd5 0xeb3f0c72d,
     Sq 0xdfaaf9366 0xa249a8207,
     Sq 0x6a722d8a2 0xa817bf5bb,
     Mu 0x8785f19e3 0x4788b8c4b,
     Sq 0x14ae7ca54 0x7e45d015d,
     Mu 0x65ce62588 0x359eee43c,
     Sq 0xb9ed96ad 0xb55661fe1,
     Mu 0x92339c9ef 0xb73af501f,
     Sq 0x87b10612f 0xcfff2827c,
     Sq 0xaeda2638b 0x9f56dc7d7,
     Mu 0x807740129 0x812e0a1b9]
   = Some (0x812e0a1b9, 0xe5d)"
  by (simp only: chain_eval)

lemma prime_v_pow_b2:
  "run_chain (times_n 0xf76c8ffcb) no_neg 0xc77bbc624 1 0
    [Mu 0 0xc77bbc624,
     Sq 0xa0d4e25f8 0x12b699168,
     Mu 0xf165ff40 0x76124bae0,
     Sq 0x385812e46 0x1e232d87e,
     Sq 0x3abbeb08 0x6afec86ac,
     Sq 0x2e44c7841 0x99ec46905,
     Sq 0x5fc17829d 0xd6c56249a,
     Mu 0xad2839f5a 0x22a803f4a,
     Sq 0x4dab0899 0x46fed4911,
     Sq 0x145f0dd75 0xbc8558c5a,
     Mu 0x97fe4261e 0xf6b013cde]
   = Some (0xf6b013cde, 0xc5)"
  by (simp only: chain_eval)

lemma prime_v_pow_c:
  "run_chain (times_n 0xf76c8ffcb) no_neg 0x812e0a1b9 1 0
    [Mu 0 0x812e0a1b9,
     Sq 0x4371d4ff5 0xf219ec56a,
     Mu 0x7e669b641 0x3fb7e0f0f,
     Sq 0x1068be0d8 0xb7f044f99,
     Sq 0x88be15c7e 0x1a641ef87,
     Sq 0x2d0a186f 0x4909b682c,
     Sq 0x158f70c7f 0x3e11a5ddb,
     Mu 0x2067f7d3b 0x699c67b7a,
     Sq 0x2d144529a 0xa8c819006,
     Sq 0x7322a1872 0xeac47cfbe,
     Mu 0x7a9266747 1]
   = Some (1, 0xc5)"
  by (simp only: chain_eval)

lemma prime_v: "is_prime 0xf76c8ffcb"
proof -
  have b: "(2::nat) ^ 0x1662a mod 0xf76c8ffcb = 0xc77bbc624"
  proof -
    note s1 = chain_step [OF times_n_pos prime_v_pow_a chain_start]
    have "(0xc77bbc624::nat) mod 0xf76c8ffcb = 0xc77bbc624" by (rule mod_less) (simp only: chain_eval)
    with s1 show ?thesis by (simp only:)
  qed
  have c1: "(0xc77bbc624::nat) ^ 0xe5d mod 0xf76c8ffcb = 0x812e0a1b9"
  proof -
    note s1 = chain_step [OF times_n_pos prime_v_pow_b1 chain_start]
    have "(0x812e0a1b9::nat) mod 0xf76c8ffcb = 0x812e0a1b9" by (rule mod_less) (simp only: chain_eval)
    with s1 show ?thesis by (simp only:)
  qed
  have c2: "(0xc77bbc624::nat) ^ 0xc5 mod 0xf76c8ffcb = 0xf6b013cde"
  proof -
    note s1 = chain_step [OF times_n_pos prime_v_pow_b2 chain_start]
    have "(0xf6b013cde::nat) mod 0xf76c8ffcb = 0xf6b013cde" by (rule mod_less) (simp only: chain_eval)
    with s1 show ?thesis by (simp only:)
  qed
  have one: "(0x812e0a1b9::nat) ^ 0xc5 mod 0xf76c8ffcb = 1"
  proof -
    note s1 = chain_step [OF times_n_pos prime_v_pow_c chain_start]
    have "(1::nat) mod 0xf76c8ffcb = 1" by (rule mod_less) (simp only: chain_eval)
    with s1 show ?thesis by (simp only:)
  qed
  show ?thesis
  proof (rule pocklington_two [where ?q1.0 = "0xe5d" and ?q2.0 = "0xc5" and k = "0x1662a" and a = "2"
        and b = "0xc77bbc624" and ?c1.0 = "0x812e0a1b9" and ?c2.0 = "0xf6b013cde"
        and ?u1.0 = "0xb8335656d" and ?v1.0 = "0xb7a703e48" and ?u2.0 = "0xbecb15555" and ?v2.0 = "0x639cebd65"])
    show "is_prime 0xe5d" by (rule prime_3677)
    show "is_prime 0xc5" by (rule prime_197)
    show "(0xe5d::nat) \<noteq> 0xc5" by (simp only: chain_eval)
    show "(0xf76c8ffcb::nat) = 0xe5d * 0xc5 * 0x1662a + 1" by (simp only: chain_eval)
    show "(0xf76c8ffcb::nat) < (0xe5d * 0xc5 + 1) * (0xe5d * 0xc5 + 1)" by (simp only: chain_eval)
    show "(0xb8335656d::nat) * (0xf6b013cde - 1) = 0xb7a703e48 * 0xf76c8ffcb + 1" by (simp only: chain_eval)
    show "(0xbecb15555::nat) * (0x812e0a1b9 - 1) = 0x639cebd65 * 0xf76c8ffcb + 1" by (simp only: chain_eval)
  qed (rule b c1 c2 one)+
qed

lemma prime_u_pow_a:
  "run_chain (times_n 0xa44e179dccf) no_neg 2 1 0
    [Mu 0 2,
     Sq 0 4,
     Sq 0 0x10,
     Mu 0 0x20,
     Sq 0 0x400,
     Sq 0 0x100000,
     Mu 0 0x200000,
     Sq 0 0x40000000000,
     Sq 0x18ede2af217 0x15ecf5b7b67,
     Mu 0 0x2bd9eb6f6ce,
     Sq 0xbb413be728 0xa027eda446c]
   = Some (0xa027eda446c, 0xaa)"
  by (simp only: chain_eval)

lemma prime_u_pow_c_1:
  "run_chain (times_n 0xa44e179dccf) no_neg 0xa027eda446c 1 0
    [Mu 0 0xa027eda446c,
     Sq 0x9c1c961dc7d 0x521e687d87d,
     Mu 0x500b8b58055 0x4458509b801,
     Sq 0x1c6dd62ae54 0x6df74044a15,
     Mu 0x6b305e1c307 0x39366e91e33,
     Sq 0x13ec07e5517 0x524fa406c90,
     Mu 0x503b889ca4b 0x90cd8ee061b,
     Sq 0x7f9d9c17b36 0x5e5de7e3e2f,
     Sq 0x3632d4b0336 0x373b86ecbf7,
     Mu 0x35d678bfbb8 0x2b0c6c6fe6c,
     Sq 0xb47644645c 0x636e8e2472c,
     Mu 0x60ebc500fff 0x5b4dcd2a35f,
     Sq 0x32bcc39ae89 0x5ba1bbb407a,
     Mu 0x59515f30d14 0x3ed02cad84c,
     Sq 0x18036365e9c 0x946dbafc66c,
     Sq 0x8616192f48f 0x74232dd99ef,
     Mu 0x7134661cdd6 0x5b9b3c714ca,
     Sq 0x3312f797aec 0x4218152fa90,
     Mu 0x406ccfdf0ff 0x95bd437f28f,
     Sq 0x8876ff73b00 0x92f14a7f6e1,
     Sq 0x836a2eb6832 0x414f41cf953,
     Mu 0x3fa90ec0321 0x4805c015755,
     Sq 0x1f921d428cb 0x93483e67214,
     Mu 0x8f90201c4d2 0x40f1ab8d2a2,
     Sq 0x19ab8b5e2d0 0x2cbafe10854,
     Sq 0xc2d6ba4a19 0x485c4ccf559,
     Sq 0x1fde2b79de4 0x403160edd95,
     Mu 0x3e9265f45b9 0x517d39db245,
     Sq 0x286a6378e4f 0x65e0b3710b8,
     Sq 0x3f2b66a9841 0x4ebcd658bb1,
     Sq 0x25bb7bcc213 0x510c97f6f04,
     Sq 0x27faf79e033 0xa0432c95ad3,
     Mu 0x9c3724ed118 0x26804fcaa9c,
     Sq 0x9059b4111f 0x4196dc12ff,
     Mu 0x3feeda220f 0x882e94c5173,
     Sq 0x70df5dc63c7 0x883892f47c0,
     Mu 0x84c7f63b8a2 0x13cada1c202,
     Sq 0x2625bfaf6a 0x724f9b3194e,
     Mu 0x6f6ca21ef9d 0xe70122b8f5,
     Sq 0x144c7c46ef 0x397554b5b38]
   = Some (0x397554b5b38, 0x1eed91e)"
  by (simp only: chain_eval)

lemma prime_u_pow_c_2:
  "run_chain (times_n 0xa44e179dccf) no_neg 0xa027eda446c 0x397554b5b38 0x1eed91e
    [Mu 0x3801e2fd0c4 0x51ccff1d24,
     Sq 0x28b9aa900 0x4c9c4be8610,
     Mu 0x4aad0a8c47d 0xa1283581ad,
     Sq 0x9e11c4178 0xa184b7dbee1,
     Mu 0x9d70918d39b 0x881992afc97,
     Sq 0x70bc8d5c7c5 0x23fab1eccc6,
     Mu 0x23121a9a6df 0x62252026937,
     Sq 0x3aa018ae858 0xa014384aaa9,
     Mu 0x9c09602c43e 0x2dd4f06ed2a,
     Sq 0xcc8d32b639 0xa11eb2376cd,
     Mu 0x9d0d1f70719 0x65d4a6d5945,
     Sq 0x3f1c764f3e0 0x608e6cd5a79,
     Sq 0x38be281a596 0x86fc6bb80e7,
     Sq 0x6ee614cd5e6 0x445f1b93377,
     Mu 0x42a51d3eebb 0x77b143994ff,
     Sq 0x5731744249f 0x7961a8c9570,
     Sq 0x59abe10b881 0x303e5ae84b1,
     Mu 0x2f067afc5f7 0x9c7cf98a7f3,
     Sq 0x950b0fa3ad5 0x587b02d526e,
     Mu 0x563f0571ae9 1]
   = Some (1, 0xf76c8ffcb)"
  by (simp only: chain_eval)

lemma prime_u: "is_prime 0xa44e179dccf"
proof -
  have c: "(2::nat) ^ 0xaa mod 0xa44e179dccf = 0xa027eda446c"
  proof -
    note s1 = chain_step [OF times_n_pos prime_u_pow_a chain_start]
    have "(0xa027eda446c::nat) mod 0xa44e179dccf = 0xa027eda446c" by (rule mod_less) (simp only: chain_eval)
    with s1 show ?thesis by (simp only:)
  qed
  have one: "(0xa027eda446c::nat) ^ 0xf76c8ffcb mod 0xa44e179dccf = 1"
  proof -
    note s1 = chain_step [OF times_n_pos prime_u_pow_c_1 chain_start]
    note s2 = chain_step [OF times_n_pos prime_u_pow_c_2 s1]
    have "(1::nat) mod 0xa44e179dccf = 1" by (rule mod_less) (simp only: chain_eval)
    with s2 show ?thesis by (simp only:)
  qed
  show ?thesis
  proof (rule pocklington_one [where q = "0xf76c8ffcb" and m = "0xaa" and a = "2" and c = "0xa027eda446c"
        and u = "0x3dcf4686688" and v = "0x3c3fb39d379"])
    show "is_prime 0xf76c8ffcb" by (rule prime_v)
    show "(0xa44e179dccf::nat) = 0xf76c8ffcb * 0xaa + 1" by (simp only: chain_eval)
    show "(0xa44e179dccf::nat) < (0xf76c8ffcb + 1) * (0xf76c8ffcb + 1)" by (simp only: chain_eval)
    show "(0x3dcf4686688::nat) * (0xa027eda446c - 1) = 0x3c3fb39d379 * 0xa44e179dccf + 1" by (simp only: chain_eval)
  qed (rule c one)+
qed

lemma prime_t_pow_a:
  "run_chain (times_n 0xa3b2bf8c32ceaf) no_neg 2 1 0
    [Mu 0 2,
     Sq 0 4,
     Mu 0 8,
     Sq 0 0x40,
     Sq 0 0x1000,
     Sq 0 0x1000000,
     Mu 0 0x2000000,
     Sq 0 0x4000000000000,
     Mu 0 0x8000000000000,
     Sq 0x64162b7fd835 0x9d2b172d468dc5,
     Sq 0x96e61d7b4a56ac 0x3183130116f205,
     Sq 0xef9b0cb4f57c8 0x909f832eb98261,
     Sq 0x7fc54d3ea746a3 0x4d556c2f923554,
     Sq 0x24889f067abaf0 0x45b2c5c3b8f980,
     Sq 0x1dacf9ad16d918 0x1c32b35f2a8898,
     Sq 0x4db776f6578d9 0x648ee9d6c39fe9,
     Mu 1 0x256b1421547123,
     Sq 0x88d97f5c379d5 0x2ed71fe2b43c2e,
     Sq 0xd671ea28036e4 0x9146a3c7c9a68,
     Mu 0 0x1228d478f934d0,
     Sq 0x203b5180c75a1 0x3092934ae731f1,
     Mu 0 0x61252695ce63e2,
     Sq 0x39a65ad23d821a 0x2e3bef22dfb7be,
     Mu 0 0x5c77de45bf6f7c,
     Sq 0x343b87b669e13d 0x797f63240ab55d,
     Mu 1 0x4f4c06bbe29c0b,
     Sq 0x2669867872f0b2 0x329e58c583a2cb,
     Mu 0 0x653cb18b074596,
     Sq 0x3e9bd92a28e736 0x317e18588eb1fa]
   = Some (0x317e18588eb1fa, 0xcc0be)"
  by (simp only: chain_eval)

lemma prime_t_pow_b1:
  "run_chain (times_n 0xa3b2bf8c32ceaf) no_neg 0x317e18588eb1fa 1 0
    [Mu 0 0x317e18588eb1fa,
     Sq 0xef6ade1bd54a8 0xeb9a3b9b7994c,
     Sq 0x153172e5ca07a 0x6334fd142c0f2a,
     Mu 0x1dfe87e8414689 0x9bda5904ab635d,
     Sq 0x94623364b48060 0x79e342235e0e29,
     Sq 0x5ac191b20b8b7f 0x27d567e9f1f4c0,
     Mu 0xc0b15fa996323 0x413d9b458ad493,
     Sq 0x1a004b68e43419 0x742e37ee321152,
     Sq 0x5274c2fb8cb6c6 0x91345c1243b8ea,
     Mu 0x2be6b2f58f8509 0x4c092c68dd2f5d,
     Sq 0x235155efb981ce 0x3c2cfe36d5c7f7,
     Mu 0x12318c80d374f3 0x76f9603aea9219,
     Sq 0x5678183d01151e 0x4d9d15a27cf2ef,
     Mu 0x17773923cbdb9b 0x174645cf36a371,
     Sq 0x34f24a39252b4 0x5e51df349b6d5,
     Mu 0x1c84449bd6c47 0x39b8f6600faa79,
     Sq 0x145a956b2e7a9c 0x3adc733dcb948d,
     Mu 0x11cbcc63fc80fb 0x9b632bfa4e691d,
     Sq 0x937f9c652bfd6f 0x64d0bb1a253c68,
     Sq 0x3e16971621d201 0x5b9e55bc038d91,
     Mu 0x1bb3304591dc79 0x20bba145066be3,
     Sq 0x68b9506259c37 0x17e6368bf37fb0,
     Mu 0x739c82616532b 0x44e18981ded7b,
     Sq 0x1cfbd8a8f353 0x659912c0a9d95c,
     Mu 0x1eb796b4a499d6 0x36b8c0c213828e,
     Sq 0x124ae6b1d404f5 0x42f6a5bbe1fd49,
     Mu 0x143ee960a135bc 0x862963b25cec6,
     Sq 0x6df45959c56c 0x48a1e9bfec6450,
     Mu 0x15f5b006da3ab1 0x301773759ab921,
     Sq 0xe20e22cc9e4f5 0x103c4aa37a0cc6,
     Sq 0x19c3812f981bc 0x7d44606bae31a0,
     Mu 0x25df8f4c62cc7a 0x5efab9bf4422da,
     Sq 0x371ba74622292e 0x2f4cec33157732,
     Mu 0xe4d03a490a801 0x5e0ec2c5d65225]
   = Some (0x5e0ec2c5d65225, 0xabefb)"
  by (simp only: chain_eval)

lemma prime_t_pow_b2:
  "run_chain (times_n 0xa3b2bf8c32ceaf) no_neg 0x317e18588eb1fa 1 0
    [Mu 0 0x317e18588eb1fa,
     Sq 0xef6ade1bd54a8 0xeb9a3b9b7994c,
     Sq 0x153172e5ca07a 0x6334fd142c0f2a,
     Sq 0x3c1f7bcf23fc22 0x9de85e62353ba6,
     Mu 0x2fbde98313bfb9 0x8571d4bf6518a5,
     Sq 0x6cc846b683fb10 0x5d6ac1e931da69,
     Mu 0x1c3e648fa455c2 0x8f991b2ab327ec,
     Sq 0x7df749627083e2 0x7a662a1b13be12,
     Sq 0x5b84eb97396516 0x9bcce139eaeb3a,
     Sq 0x94488f643a5718 0x3c3dac1984afbc,
     Sq 0x162b2bdb39f176 0x1c69ed3c8d8e66,
     Mu 0x89733563b4470 0x6e6986cccfad0c,
     Sq 0x4a78b5b28bb747 0x7a87755385cd07,
     Mu 0x250ba4daa637d0 0x2ce7dd562488a6,
     Sq 0xc518c0c4efeb5 0x53253a895107e9,
     Mu 0x19236169eece31 0x5880d1f51b710b,
     Sq 0x2fd960271a7dae 0x5b445a5802c887,
     Sq 0x32e25fcfcbc86f 0x5807e0ade9e150,
     Sq 0x2f56f32b935a12 0x14af6f3e34aab2,
     Mu 0x64105d60324ff 0x65e2eb86764783,
     Sq 0x3f6a1be485aadb 0x492a203b1be754,
     Sq 0x20b363206689e4 0x190f4a0d2af8b4,
     Mu 0x7939993a71c5b 0x80fac8afefb793,
     Sq 0x659fdc24f21559 0x93b78f5c114892,
     Mu 0x2ca92a154b42bd 0x3505c3c9f91b61]
   = Some (0x3505c3c9f91b61, 0x131cb)"
  by (simp only: chain_eval)

lemma prime_t_pow_c:
  "run_chain (times_n 0xa3b2bf8c32ceaf) no_neg 0x5e0ec2c5d65225 1 0
    [Mu 0 0x5e0ec2c5d65225,
     Sq 0x360b29ea2adef2 0x9cf4feec3e95eb,
     Sq 0x967e4fa953cb1f 0x3a77c06fd69988,
     Sq 0x14e200b3fd93b0 0x78151ccbe442f0,
     Mu 0x44ff36fc8e6769 0x7625255efd5de9,
     Sq 0x5544ad36ff4362 0x4475971b213213,
     Mu 0x2755d88be90c74 0x73f2b8fdbb7773,
     Sq 0x52206515ad4044 0x12826e0f50772d,
     Sq 0x217c731d4cfac 0x574330a6c7f55,
     Sq 0x2e8454a1780d 0x76b258fb87eb56,
     Sq 0x5610f8472bdcf1 0x6d8292cb330a25,
     Mu 0x3eec17bfc3b106 0x2284c341297a3f,
     Sq 0x747625f2dad10 0x4b857001f1ed91,
     Mu 0x2b64991484e81c 0x3ea2ce532c94d1,
     Sq 0x17f768787b17da 0x5c8a85ba6f989b,
     Mu 0x352c17006546a7 0x46c32ba4e1063e,
     Sq 0x1e96b498398020 0x2345808e7aa124,
     Sq 0x7998e3d110108 0x33d547eaba2898,
     Sq 0x10698ff73fdcb1 0x4d5a4c947f8f41,
     Mu 0x2c71ff0b4cda13 0x96aee08aee2968,
     Sq 0x8ab3e99267899b 0x72df9c1a4aaf4b,
     Sq 0x509c794c32f9bd 0x837c05ccaad1c6,
     Mu 0x4b8c5c6416d934 0x2591ec5ad76b12,
     Sq 0x89f634ba957f4 0x1f73c211d29578,
     Mu 0x12126026d4a8d9 1]
   = Some (1, 0x131cb)"
  by (simp only: chain_eval)

lemma prime_t: "is_prime 0xa3b2bf8c32ceaf"
proof -
  have b: "(2::nat) ^ 0xcc0be mod 0xa3b2bf8c32ceaf = 0x317e18588eb1fa"
  proof -
    note s1 = chain_step [OF times_n_pos prime_t_pow_a chain_start]
    have "(0x317e18588eb1fa::nat) mod 0xa3b2bf8c32ceaf = 0x317e18588eb1fa" by (rule mod_less) (simp only: chain_eval)
    with s1 show ?thesis by (simp only:)
  qed
  have c1: "(0x317e18588eb1fa::nat) ^ 0xabefb mod 0xa3b2bf8c32ceaf = 0x5e0ec2c5d65225"
  proof -
    note s1 = chain_step [OF times_n_pos prime_t_pow_b1 chain_start]
    have "(0x5e0ec2c5d65225::nat) mod 0xa3b2bf8c32ceaf = 0x5e0ec2c5d65225" by (rule mod_less) (simp only: chain_eval)
    with s1 show ?thesis by (simp only:)
  qed
  have c2: "(0x317e18588eb1fa::nat) ^ 0x131cb mod 0xa3b2bf8c32ceaf = 0x3505c3c9f91b61"
  proof -
    note s1 = chain_step [OF times_n_pos prime_t_pow_b2 chain_start]
    have "(0x3505c3c9f91b61::nat) mod 0xa3b2bf8c32ceaf = 0x3505c3c9f91b61" by (rule mod_less) (simp only: chain_eval)
    with s1 show ?thesis by (simp only:)
  qed
  have one: "(0x5e0ec2c5d65225::nat) ^ 0x131cb mod 0xa3b2bf8c32ceaf = 1"
  proof -
    note s1 = chain_step [OF times_n_pos prime_t_pow_c chain_start]
    have "(1::nat) mod 0xa3b2bf8c32ceaf = 1" by (rule mod_less) (simp only: chain_eval)
    with s1 show ?thesis by (simp only:)
  qed
  show ?thesis
  proof (rule pocklington_two [where ?q1.0 = "0xabefb" and ?q2.0 = "0x131cb" and k = "0xcc0be" and a = "2"
        and b = "0x317e18588eb1fa" and ?c1.0 = "0x5e0ec2c5d65225" and ?c2.0 = "0x3505c3c9f91b61"
        and ?u1.0 = "0x3382d1c86f8bb8" and ?v1.0 = "0x10af4396bffab1" and ?u2.0 = "0x93a72f8843276b" and ?v2.0 = "0x54d6a3accd9a65"])
    show "is_prime 0xabefb" by (rule prime_704251)
    show "is_prime 0x131cb" by (rule prime_78283)
    show "(0xabefb::nat) \<noteq> 0x131cb" by (simp only: chain_eval)
    show "(0xa3b2bf8c32ceaf::nat) = 0xabefb * 0x131cb * 0xcc0be + 1" by (simp only: chain_eval)
    show "(0xa3b2bf8c32ceaf::nat) < (0xabefb * 0x131cb + 1) * (0xabefb * 0x131cb + 1)" by (simp only: chain_eval)
    show "(0x3382d1c86f8bb8::nat) * (0x3505c3c9f91b61 - 1) = 0x10af4396bffab1 * 0xa3b2bf8c32ceaf + 1" by (simp only: chain_eval)
    show "(0x93a72f8843276b::nat) * (0x5e0ec2c5d65225 - 1) = 0x54d6a3accd9a65 * 0xa3b2bf8c32ceaf + 1" by (simp only: chain_eval)
  qed (rule b c1 c2 one)+
qed

lemma prime_s_pow_a_1:
  "run_chain (times_n 0x22b559b5c816ae00f2378e18df38c5410ed597) no_neg 2 1 0
    [Mu 0 2,
     Sq 0 4,
     Sq 0 0x10,
     Mu 0 0x20,
     Sq 0 0x400,
     Sq 0 0x100000,
     Mu 0 0x200000,
     Sq 0 0x40000000000,
     Sq 0 0x1000000000000000000000,
     Sq 0x76030 0x8628a4338786578dd9ded13769b3665fe53b0,
     Mu 0 0x10c5148670f0caf1bb3bda26ed366ccbfca760,
     Sq 0x81a42dc33856428364e17df46156dcc4de27e 0xd9c0f4bcc365cc1e1ae0251cb97518226f5ae,
     Sq 0x55624fbe95224502f9fbcfa291b96eb19ccde 0x1697ce658cae82304d5437e766dca9dd9df552,
     Sq 0xeb4e5362d2663392691711702e90f858ac788 0x62ff90e4f01cb8e3f6e12f418b91db75a350c,
     Mu 0 0xc5ff21c9e03971c7edc25e831723b6eb46a18,
     Sq 0x4697c747b4d4108853dcf5b056f0b57b01e4c 0x128f809fad3ed75d69fad653de6decc778c76c,
     Sq 0x9ece6118d07a300acac9b17a26b09b3f0a153 0x160c1ea18bf9700df69d68536733b739e5de9b,
     Sq 0xe013ca894d5413f5fd3a6ee79d6e9eec4cbed 0x1c7fbd07f030c224e16818378efb922128b80e,
     Mu 1 0x164a205a184ad648d098a2563ebe5f01429a85,
     Sq 0xe5071ed59546e66fb6a107a7ec25fa23419d6 0x6c251605020536978e2069628adca4de9fddf,
     Sq 0x150f5898ce6abf13616d336a99b9af82aac84 0xd106ff29b435e451f1e4dca3bdfe96bc2f265,
     Sq 0x4ead7cc2430e1921426c6428c1bd391f839f5 0x1b8b99020dc1e099875b60f08916dcb28e1356,
     Sq 0x15dc4b2adca71bd0b6ce94ae607a7ef02b2e6b 0x2248a0fb990e0bddbc3411f4c2cd5cc0ec78c7,
     Sq 0x21dd3cd1731fddcb16fd1a0b33574daf6cca28 0x822382de58ed20a1b37eee3e66aca3454a519,
     Mu 0 0x1044705bcb1da414366fddc7ccd59468a94a32,
     Sq 0x79fd06240c592da9052a10cb586c0735a85bb 0x83b5155e37fe44e71d8683df42be84a17977,
     Sq 0x1f3c9a01a16c9f5e6a73022dbc046388d55 0x160fe0b0468cfa95024e0815216d86f0b69f2e,
     Mu 1 0x96a67aac50347291264821163a248a05e68c5,
     Sq 0x28de4227a4e5839689c5d929f1c6493003d00 0x13267ddf3aef52c45a9f0203b4f0751da7ac99,
     Sq 0xa90f3166f6336a7db0218c1a564280c8a0cd2 0x20b78b1eaa0df7984ed6b5a13f1e510667a993,
     Mu 1 0x1eb9bc878c05412fab75dd299f03dccbc07d8f,
     Sq 0x1b33201e1be742772e17dcd821e3a468f54cfb 0x22af1f7008481457f0ba16394cc33a6b9db6d4,
     Mu 1 0x22a8e52a48797aaeef3c9e59ba4daf962c9811,
     Sq 0x229c751701d7ee4dabe8f6f1c58ee2caac2a52 0x736eb43b9f5f1b023651ab8cb238c9eed00c3,
     Sq 0x17fe715b997595bf39f42b5dec1b8d6e5dfb2 0x24890eca936fac4a5fc0a31384e76aa9c888b,
     Sq 0x26756262da486bea51a43af855951151617d 0x197542b7f69ff4f4dd39795bf45d784f4879be,
     Sq 0x12ac4e1b167a4eb93d6c66a21e8f7295981b40 0xcba4e994ac23288f2237d1cc0453d6fe0d644,
     Sq 0x4aad6d372f8c57ee78eb2f1591e47e033dda5 0x1fdb31a403dc49557f8cd426ccc3a8384dbcbd,
     Mu 1 0x1d0109923fa1e4aa0ce21a34ba4e8b2f8ca3e3,
     Sq 0x183cba4c90167693c790d3bed1f8bc7a8fee03 0x17a3e580faeb70af2a83329c9da530301af884]
   = Some (0x17a3e580faeb70af2a83329c9da530301af884, 0x2a490ac2)"
  by (simp only: chain_eval)

lemma prime_s_pow_a_2:
  "run_chain (times_n 0x22b559b5c816ae00f2378e18df38c5410ed597) no_neg 2 0x17a3e580faeb70af2a83329c9da530301af884 0x2a490ac2
    [Mu 1 0xc92714c2dc0335d62ced7205c119b1f271b71,
     Sq 0x48dc7ee91979f1efc97d88c21a5d815f9b3c5 0x26ba27656a96c6449a8e6b8b215d12abd15ae,
     Sq 0x2b361431d17f50de9128be290082f31adf80 0xe37b9e9fca861349a6dbee7d52ba7a2f2adc4,
     Mu 0 0x1c6f73d3f950c26934db7dcfaa574f45e55b88,
     Sq 0x174bcc1552602a06cba28cbc624bbcb4710fb6 0x21aa9acb69add24467668c505e36199f5345e6,
     Sq 0x20a7dde906ac26164bff9ca68522aa5bed983d 0x930e05875e460521ebcde8683304661143da9,
     Sq 0x26f0d131b1089900b280c1432546cc8e1a19d 0x1ebbf220e990ab7744569262562540d71e04f6,
     Mu 1 0x1ac28a8c0b0aa8ed967596abcd11bc6d2d3455,
     Sq 0x14a1b7ca95b3299897473816b09b708bea122f 0xb0477d90415e8f6b9d52262cffe019cd0cf80,
     Mu 0 0x1608efb2082bd1ed73aa44c59ffc0339a19f00,
     Sq 0xdfd31a13313f8715e4309fdd473ed76a4c346 0x1238ddf5abc8f8bf1c2a7cf96e3c99db4493b6,
     Mu 1 0x1bc62358f7b437d461d6bd9fd406e757a51d5,
     Sq 0x163998d74d87083151965b30e0d8ff2d15e2 0x1084c52cc0d169dc895524d909020c300388eb,
     Sq 0x7dc9506b0c57a4263de0d3c1f094468314bd2 0x18c82a2ec246e2c0a550f1c255f3d5ae1714db,
     Sq 0x11b1c04e245a03b4bc83f71590e6b4e7668623 0x17c543e449fe6676ca7ad04b05af06710eb5b4,
     Mu 1 0xcd52e12cbe61eeca2be127d2c2547a10e95d1,
     Sq 0x4bea11d6c4829bcd0ffa1d0dc34a2929bd65f 0x2153ce1950223f45cd3bf56d333844a10e7798,
     Sq 0x200053c1f4ba7dc40b6e952d4700ab3907bdd3 0x4ee93b804a7a380e3b5df5d550f8e737323cb,
     Sq 0xb3686272d5151fcdd4f676fc98749c266a97 0x168d899f89b90ad57365eb2a84d91452c8a0e8,
     Sq 0xea789ea8578e753752be63cd1e8c401c84507 0x10b31e085e3a2a7860f0923d309e9a33b1481f,
     Mu 0 0x21663c10bc7454f0c1e1247a613d346762903e,
     Sq 0x2023c20606c50c0d52219c872d42e3409f6a2c 0x96b52160ccc04bb0a251c931abbdbe8f79310,
     Sq 0x28e6358354c31dceb341132067a42d724ab3f 0x1a537b8737c14ea57bfa56254e49f457ccf3d7,
     Sq 0x13f7daee62aba71e598bdb3537bdde4afa1654 0x1aa219fbb7c86d037de449ca54472cce3acf05,
     Mu 1 0x128eda41a77a2c060991057bc955945b66c873,
     Sq 0x9ec34260c99e15f962c80a43935c074a6addd 0x203756bae434b57f26d731abc0b2d6fe88754e,
     Sq 0x1de723b6afe930f4ed8aa769345b98f88d56a1 0xc9c20ed3ae5d0f57739be3fcffd44ce6055cd,
     Mu 0 0x193841da75cba1eaee737c7f9ffa899cc0ab9a,
     Sq 0x12533be3c767eeb72748d10636d113722d95bb 0x51462314414741b454ff3f995621798553057,
     Mu 0 0xa28c4628828e8368a9fe7f32ac42f30aa60ae,
     Sq 0x2f9407abeb25ce684bff74ff5b360917ed99d 0x1efd94eae6545baeee572aee922683ab22f9a9]
   = Some (0x1efd94eae6545baeee572aee922683ab22f9a9, 0x549215869c896)"
  by (simp only: chain_eval)

lemma prime_s_pow_b1_1:
  "run_chain (times_n 0x22b559b5c816ae00f2378e18df38c5410ed597) no_neg 0x1efd94eae6545baeee572aee922683ab22f9a9 1 0
    [Mu 0 0x1efd94eae6545baeee572aee922683ab22f9a9,
     Sq 0x1babc3639a3c541bcef2417138fe0e3009e6a6 0x1c08946dc19997275e62e7ab6fd315b48b07a7,
     Sq 0x16a46dabf5831c21405311401aff237f73a0f1 0x97bec1c800ae5f334082aa2f16d09c74a1bca,
     Mu 0x877d9fa37ed82a20af124a4b58bf9d1e19cbb 0x10d3fd2ea6ff7831a67f20d1cef80cb312c90d,
     Sq 0x828b167d9c710a383914d0a44a45cced4204e 0x4e30ac3341391f28b5422ba660d19017576a7,
     Sq 0xb025023a4b0d3c3ffd00e87c2ee9ae2d7645 0x118d2ba40022a8f63da5689cd4fd126ca6353e,
     Sq 0x8e01eacfe0e758d01af3c24eeae59a3256df4 0xddd673c8a47b4d3a4482caad4dc351092dc18,
     Sq 0x589de7b67e183ea758f2355ef7f581021f7a1 0xd2c78f4f47eacda8c1f1ac23b66b495b93d49,
     Mu 0xbc33981392136c70383411ed7e5a3be77f39f 0x20ee8833192934423ec4ed4dcb71e812717868,
     Sq 0x1f3efe9f8b2265f5f5484e010f255bad4f24d6 0x13daeb96145f91284157d9bfd12817b768e206,
     Mu 0x11ba747baf09e6bac191142afc7486b174af33 0x1f34cda3a303d17d0ba54aae8c64d1d57e45e1,
     Sq 0x1c0eb8228a504030fb567815b93ef4bd391d3b 0x14dad42aac4dca7b9400ff9a183c349052baf4,
     Mu 0x129ef393c90e52c3184f2a59e7295d08944c79 0x1bbe4347445e18b4cbd687c1e6f1263424f6b5,
     Sq 0x162d0013021290c5aefc74dc55d54324a8576b 0x193a302c3fa67f2f6637360768fc7335c6c4dc,
     Sq 0x12560a5c390ab68517fba5786eb68906bd22bd 0x17233372b5cafcf1f171d33307c076f8e4de95,
     Mu 0x14a8ba49ff1b0800e603ae03a52e0c68b7194e 0x207e111e899c2b5c042063d11d7d0ab60e0a5b,
     Sq 0x1e6b005d9d19a12d52549e3cf797f14f631f93 0x1dcc94a80ccc7fd4d05e9ec43e47a82c984da4,
     Mu 0x1a9b6ed25d3565e8ba1dee6080d48bfba67e29 0x20eb76b502afdc3e0ea2b101baec52a6d3e15,
     Sq 0x1f392c52f981cea236f84e34b0ed67355987 0x18b6b0c73d64db3f202308e3459ede60990c18,
     Sq 0x1198d50e7e1dd4d41a44448b3d750b1e5558af 0x107ea90ebb5e766f00d493854b998b458f5807,
     Sq 0x7d6c54b0e8a2f4a2f649713024fb1e2d49b6c 0x107ba7523e4c5eb4ce52ef9234ea769f76477d,
     Mu 0xeb7a8976a847ada511cc737a29f7b225a9c2b 0x15f3350ce63bc61d443aed11437eed317be228,
     Sq 0xde1a840c7feaf503f281b4f2e4b4e1491e434 0x3c3e8c122eba8b064b9dfba903d7b3675c794,
     Sq 0x689156dde7aba37032f9c41e47f722c37d22 0x1a8ef69085feacdcb2ea85d4dedf47d6975482,
     Mu 0x17b6ae61cca9f7fb2c9494f2706df0c40eae23 0x17ccc2ecebf75dc15142a187b21e20a5e7662d,
     Sq 0x1051dbeb7eae2fceeac93abd01c68d64136569 0x205b244b9c02deefdf467185ed08d9306eb5fa,
     Sq 0x1e29bf82ee5c32154b292902b423eef9c7cda6 0xf2ac81989baf75d0f1cb50721d947ac2a0d3a,
     Mu 0xd8adf0626d4065dbf752564d5aab8e94a58cc 0x1a74c4341dd268259b808b5e005719f07008f6,
     Sq 0x142a789b4c5d4588743c1c5788818ac3427316 0x1e4aab14cf7ad6216d3d7f03da6bc8c0691c6a,
     Mu 0x1b0c03b0d571fb729cc9a5489975c61bf31959 0x1f224c6149ce683cc3f661dc16ed8819c1db7b,
     Sq 0x1bed7b7a4e129fd0040094e0fe3fe812044799 0x4234ae1930a82152eead44272f453be2b24da,
     Mu 0x3b1d31d92ef5bf0296dfce5f6dcdf9979f814 0xb2dadc9799ff89d66c89cd16e13845cd5661e,
     Sq 0x399a70d729ff09161fa5812eadabd353c3984 0x10e04b4774e22d45b9db84195f0cd97b0f2aa8,
     Mu 0xf1184cd1bc66d629763531683a6b6b6ac6846 0xf9e62eedecd79f063b0e4e80994353388d19e,
     Sq 0x70743ac6a74b9d53dc73332994ac5ea25266d 0x12bbfffc74878810af0004f5a7dad78bab0239,
     Mu 0x10ba44c532bc4c0ef8538a7710c66a07c59f37 0x80d68b4da5779af3f60c0935e16f138943c30,
     Sq 0x1de3fa96bdb3e2bd5b90fdcf51e967b80e8f5 0x15a925462911ad8626c2c816002a499863477d,
     Mu 0x13572b18345f648e9eaa5866f576819b0de34d 0x1bead60c775a7bb33db0883b2eb0862926a31a,
     Sq 0x16747b17d5ba041a53d5404d96d8a20bdba80c 0x16888939c40a0a307cb0cbe154ecee29980390,
     Mu 0x141ea14415bcc374873ab77db46710e2bc1232 0x5384390249343199ddf44567463f211231492]
   = Some (0x5384390249343199ddf44567463f211231492, 0x147657f)"
  by (simp only: chain_eval)

lemma prime_s_pow_b1_2:
  "run_chain (times_n 0x22b559b5c816ae00f2378e18df38c5410ed597) no_neg 0x1efd94eae6545baeee572aee922683ab22f9a9 0x5384390249343199ddf44567463f211231492 0x147657f
    [Sq 0xc8f5cbae6605a5a2d640080412375bd5fad0 0x3c622a4a3db2b0c75630fa512d30f494d2294,
     Sq 0x690d20e7c42848c9a506b2edb5645274bd05 0x1d44a526a3deabc1db2f34a4bef04cda4cfe9d,
     Sq 0x18ae3c2059e73464458deafa40644212790492 0x2e27b73fd66952855c42b014e788aa648c02b,
     Sq 0x3d6082108455e32caa514861ad638010b48b 0x883bc0d65048d3ab166911f894749d1c4623c,
     Mu 0x79a3fafb85e333b27414e039b4c7fe3faa501 0x132515e5891f00536e2bd554343dac52fa0d05,
     Sq 0xa8f65e96ced47afd2ee2f569b3f1c7caafc6d 0x1874e859112badb206d53af518c4725a95ecce,
     Mu 0x15d642a574d66af4e32ee48e6cf581ddd77667 0x67d83104e9f0f7ed6bf3fd6147ed0ed6d283d,
     Sq 0x136b1938082fdeacb4d1f828316771e48844f 0x200559367eba49437fbcd90cf1335cbe1758f0,
     Sq 0x1d8a9e875a48123fe59689fbbf5a5bfbd5d6d1 0xd62f78be36da542d85e09249d49c912ba46b9,
     Sq 0x529bcda1f439316e6c2c864d74e71ddaa808e 0x14d57d9c5ce206206682bd6e54e0292a11b7ef,
     Sq 0xc8176964f4f3d506da9992486c7c8e9dd71ad 0x21a35d3f61c0dda04627bb553fa3f1083c9316,
     Sq 0x2099d39de523a01efbc791df384cc5315e6e3e 0x2ff256b427fea8906903062415db13101a952,
     Mu 0x2acf8d90ee0bd7e7fee1cc56398a15b1c0440 0xb544c07cd03997d4f06bad05cfc14b21dc762,
     Sq 0x3b2b21681f07b7b135b832d1176e08b076923 0xf6436e169d2268c9a3a34659285e340ba5edf,
     Mu 0xdbe26e480a696878df8182569786ce00c0cf7 0x15ff5c89f0e8bbc6b63c05d07c388ef5865f86,
     Sq 0xdf10bff7d53798c1dfc5ff754647a0b3fe9cc 0x685756a93796153fda03d5e36e0d63a8b16d0,
     Sq 0x139ac38a48450bae3a00b78fe6104f47cbd55 0xaf582bb83f757428e7871ce08c702192702dd,
     Sq 0x375d3e89ce8adabdc312ca737138f26613d5d 0x17d1bb9081237c59ed1d3a0dbf471f85de9fee,
     Mu 0x1544906c1c68106f1840917cce0cb6fe1b3a3e 0xd56257493b7b5a4663f2e641c51daaa39218c,
     Sq 0x51fddddb02ce4bdcd58381d23e3af255e94d9 0x1a50feef975234938960bacc4b8f62eb3d0b91,
     Sq 0x13f4156826756b84c8dd9a96330499637bec52 0x143c1b02035d585912c56f91b9f1ad316b29c3,
     Mu 0x12113ae7b8acc138c28288e7f08abcc7515f9e 0x144b36b8f7f7de6a0dc4f165a9dad00a116089,
     Sq 0xbdd9ca4121538396d8c81a4ceed6fc466a01f 0x2f72c4e9a5923c0fe07fcc55b7e2ce24cc08,
     Mu 0x2a5da5f7a2e9c30eadbb45c07fcc3697b908 0xf18a2fb6bfc99608b8175a8d69c30baecad90,
     Sq 0x690e74a3cd2019086fbf946416e105ff6b564 0x6baea45186f3a33f5c43a007378048842bf04,
     Sq 0x14e1504469c05d301131e2a99b7faf27e9110 0x16fe45da0f440d1e5c235cc52cdca1f65d17a0,
     Sq 0xf3b79c80c7fb19d4f8db0beb2eb3a46e1e3f0 0xcf63cff873012aec54b382799633d836a0170,
     Mu 0xb92ccbfb35c7f7882c667065bbde4ae06d458 0x19039e702af65832163d655de7c91793bc6b08,
     Sq 0x12070cc1c0977ac82d1549ffb9a78564068eb9 0xc1667f38469175d5acfee4f9f7e2b54c39421,
     Mu 0xacaf198b2dc04682b4d7a1ad69a0856720d3e 0x2236f1209207aeb19496253774cdb48de47d37,
     Sq 0x21ba54ed19780f974664a8e5d63787ef5d19fc 0x1cae3f5d50749ce41bf668b6baf442cee5c22d,
     Mu 0x199bc55109e4eb844d3e237d9a9084485c9a4e 0x1bcdc796fe6991e513d2143f27a516ef3f0ab3,
     Sq 0x1645d55440a1af505e6ae9452328450afb0ae1 0x15f1f25350823ed9e76a98eb6338c56b1dd972,
     Sq 0xde0101bb4b876a1bd904e90f6d6699e9d75b3 0xf08a3cdca2787bfa45f6d552dc530d3ee1b2f,
     Mu 0xd6c62f58803906e6c540cc60d40498cb6da34 0xcf83ad19827e9538428b746f339523b9eb05b,
     Sq 0x4d8af7e91e3b13420db614bd0bea7da669cb4 0x17bf50bf9ccb599d20dd9d2467f450a3110e2d,
     Sq 0x103f7077cce06205e7bddef1c1e9ef31aa2bf9 0x1df0c57dd217f3c1ad8417569421d1ae2ed70a,
     Mu 0x1abbbf3d2b933251eb62b526a88815b711a8cb 0x13234524069ae7d52ca6f505d316a7567338dd,
     Sq 0xa8d654bb8b6efc1573d159098e38aecac7cb0 0x1eb69f98f879877dd624fee315cc02001372f9,
     Sq 0x1b2d9d6eb2ca9ac1bbfbf82f7adc3550bb841b 0x1c6683e84120bfff76db69e292ce2c8c995344]
   = Some (0x1c6683e84120bfff76db69e292ce2c8c995344, 0x147657f18659d4)"
  by (simp only: chain_eval)

lemma prime_s_pow_b1_3:
  "run_chain (times_n 0x22b559b5c816ae00f2378e18df38c5410ed597) no_neg 0x1efd94eae6545baeee572aee922683ab22f9a9 0x1c6683e84120bfff76db69e292ce2c8c995344 0x147657f18659d4
    [Mu 0x195bb8e40b48725da4266767a80434562d9ca4 0xd0ddc14d2adf6ba2f702a58507ee671094328,
     Sq 0x4e8e73e24b7ca4ad5482dc55c134334606e41 0x42610b4829316b5849017396788fd7142d8e9,
     Mu 0x3b44ce7d1d2941386f5d445661f3a421943b9 0x298deb2c348bd915d5a352899b82c8caff3b2,
     Sq 0x31c02aedbac5d26353502d213e975aa7dbcc 0x1bc6af13780d78c3b4cb544ef05efcd14c0670,
     Mu 0x18cd02eead545f685b4c21b4ad328535541ca9 0xcdb658f31486a89d9349612f52e4fdd9fab41,
     Sq 0x4c33b1181c2c78ac34ad6d03503e351eee741 0x17d725805fe3d3843a19e925936054266c6a2a,
     Mu 0x154965e704827fea2ce70db7bc56d78487724a 0x2cbe55ea53ac8f31a83a9d88b34f81060f414]
   = Some (0x2cbe55ea53ac8f31a83a9d88b34f81060f414, 0xa3b2bf8c32ceaf)"
  by (simp only: chain_eval)

lemma prime_s_pow_b2_1:
  "run_chain (times_n 0x22b559b5c816ae00f2378e18df38c5410ed597) no_neg 0x1efd94eae6545baeee572aee922683ab22f9a9 1 0
    [Mu 0 0x1efd94eae6545baeee572aee922683ab22f9a9,
     Sq 0x1babc3639a3c541bcef2417138fe0e3009e6a6 0x1c08946dc19997275e62e7ab6fd315b48b07a7,
     Sq 0x16a46dabf5831c21405311401aff237f73a0f1 0x97bec1c800ae5f334082aa2f16d09c74a1bca,
     Mu 0x877d9fa37ed82a20af124a4b58bf9d1e19cbb 0x10d3fd2ea6ff7831a67f20d1cef80cb312c90d,
     Sq 0x828b167d9c710a383914d0a44a45cced4204e 0x4e30ac3341391f28b5422ba660d19017576a7,
     Sq 0xb025023a4b0d3c3ffd00e87c2ee9ae2d7645 0x118d2ba40022a8f63da5689cd4fd126ca6353e,
     Sq 0x8e01eacfe0e758d01af3c24eeae59a3256df4 0xddd673c8a47b4d3a4482caad4dc351092dc18,
     Mu 0xc613403a20233939d429097341d39850ee0fe 0x7fd789afdae2bdbf6f7426c6c9eea63589806,
     Sq 0x1d6e1ce728168d5a503e2500b7bbe8ed9b7cf 0x1018b310c06595450a19d76bd9b157dba7a0b,
     Sq 0x7770779e6df3f608fde3ba9fc465c32cabb 0xc0cf045c3b539444db3088c9ec8741a4d512c,
     Sq 0x42f1250492950aebcfd459d2c01db687d3be6 0x1b50dd4eda940ceafd59074d0e8a4f5cec2ce6,
     Sq 0x157f754552da65c9835c80bb549831bc25d0b6 0x13a4a466df439a15c7923f9ebdd11d0f06554a,
     Mu 0x1189fdb435dc2cb9522fa7d642ddad2329b3de 0x1c39849ef6edcb0d9c4df7e59ade4f319279e8,
     Sq 0x16f3c0622cadda017e476229ed9c30f278d28f 0x1e86da8dc3409a60b95092a9ae8efb765f4e7,
     Sq 0x1ad95447da6a62dddfe80b3e8f3b7a0cedbd 0xf8f884dc36c48f549b64703a8abeaadcaacf6,
     Sq 0x6f9ebaeab644e90db8501320f3b0662d730ec 0x7018e38db698bd4d5f22bca05f223f3894530,
     Mu 0x6416f99f8bad8e3c97fe4eca6e38dfa37c1cb 0x188020e7fa07fd196ffdcde095a8376b0f26f3,
     Sq 0x114b7791c8106b73e1a7ede900df7691fef4fc 0x19fedce09e9d519194a27d03f883641766de05,
     Mu 0x173604318d7ff8ad4db3d23df280a57a67f386 0x168e71c9cb4f01753532722c07e7464c424c43,
     Sq 0xea8b7a72a2d2b0a0ec5c4306038cd7e590e73 0x1dce0ef6bb76de83c43c4ab00fc5b8946ca4b4,
     Mu 0x1a9cc09b282e15dccaa67342c7fd795c7b7d08 0x18b6f1f7df35a2bd97769f2ac17a959985671c,
     Sq 0x119931e4c9fa017452a10ce8a2fde08ffb6b41 0x1a5999cf360ddd37e74b88d214631a488832b9,
     Sq 0x14012409e5a410be61eb7bcaebeb0ca0a43aa5 0x1a3e8c9c45cc1c0e17917b74366d9e7eece95e,
     Sq 0x13d826253d92bbe28dcf05a012fbe0434d6985 0x1d01ab48442316c6301915431f6258fc515811,
     Sq 0x183dc893f5ab36f3b768e54c2144b3ec226ba8 0xa08028051ac381d777b78263155d1d9fd6909,
     Sq 0x2e632407b0d526391477d456ea1f92a98e110 0x17d5b4cfa0ea163226ad5dec4f6061569351e1,
     Mu 0x15481cb4725e336fbea26f199c13150425799f 0xc53fc4987d2809936e7f27dada5baf6c8dec0,
     Sq 0x460f946b04b91755638fa5247ac320619da37 0x20a676253fc4c906b8419e280ecdfbcc00168f,
     Sq 0x1eb6d0fd1d54709309bff51f7b08cb5d404978 0x1805cc139326ab6beadbdfd6becc4fef60b619,
     Mu 0x15730d3aa7ee7ed5b2f60697c7c96bb3e27d1a 0x12210f70f8bf2e096ff58751ac3184fc2e1b2b,
     Sq 0x97826efc86327c07830951e71097b18bd65ee 0x16bfa94cc97ec9c507e28d0c34538e3fcbf3d7,
     Mu 0x144fd9b3d94811cdf78c9e22d756d30c1331bf 0x147b893ea525c015333cd4269a82c02e35d546,
     Sq 0xc1661dd601e5d324d6f684547f801d4e6f572 0xdc6c4209feb382f47d7c1c63b7c110bfaeee6,
     Mu 0xc4cfda85bb409fe3c152e93b44028867d254d 0x99a6d665dd6994459059c90a5d7224c815a6b,
     Sq 0x2a834a153e9c32126c75de5736c06d44ae7a4 0xede46f3cd3fe8acdb474eb09da4b0ede352fd,
     Mu 0xd468fc57da7c833d0b65cee91c01945a03e1e 0x7638efde79c1a499fa50c88b214d0c28c4453,
     Sq 0x192af4202d0e1f44016220e0e41464b57dc7b 0x1a050d563a96224b7647ed7a32e5b1c404cf5c,
     Sq 0x138191cbbefe19bb984496e14b733e9355b743 0x8f085d9b6936fb8ea5ec30806278dc122118b,
     Sq 0x24d6f5e83e170e0469c6d809912356e284cbc 0x1782195c1cd30edb12d16a61336f92d03a1295,
     Mu 0x14fd75eb4537048437d87077d8cb0d139a5bb2 0x9e44b4b504ff06d10b165781c1d19bd20015f]
   = Some (0x9e44b4b504ff06d10b165781c1d19bd20015f, 0xa44e179)"
  by (simp only: chain_eval)

lemma prime_s_pow_b2_2:
  "run_chain (times_n 0x22b559b5c816ae00f2378e18df38c5410ed597) no_neg 0x1efd94eae6545baeee572aee922683ab22f9a9 0x9e44b4b504ff06d10b165781c1d19bd20015f 0xa44e179
    [Sq 0x2d1b1ef5d3b5297bf335b7cb22046b86ffbac 0x51e9a436b52897f492fb7d6635f0637e652cd,
     Mu 0x492371be2f21190cc56f7aeb7517b41989079 0x63adf0af35436a71441122e8744db9b0029f6,
     Sq 0x11e45441f6e5e36ba09d113f50e2777dd6cc7 0x1a329363499f536e9ae898c36c79d381e1fc03,
     Mu 0x176430a3b498c309e252cb23406fbfc19a0325 0xa168f48c17a320b0ff5f36aa615f61e38a528,
     Sq 0x2eea165695ee744509938e1508e3f605e7abf 0x1c667ddd9a8d5c1169c6993faa2a3d62bf4497,
     Sq 0x173d1fac35b6223c843198b24234b12cb83b5c 0x129c0d9a420483b9ecf7d03d75b5b8c29c01cd,
     Mu 0x109dbe6d736ec196c3d3161d8fa61f16da1448 0x2080ccebf480c70323a19353943f401185b6dd,
     Sq 0x1e701ed40aa79f2c2b9cc1e942a5eec14a9898 0x1b8ebad2ddca70958d7acd58e4862ed9fa8121,
     Mu 0x189b0d0ba5d3635bce8db2f3839c4f412b1871 0x1f6a1c6c267110337101dbdade3bde6c6ae822,
     Sq 0x1c6ee59b8c03a6fff3a40a81db1d5d291bb6c9 0x46617dbd2ed8777b7a10813b0e8b8683996f5,
     Mu 0x3ed784b4b619a583c10ff764652a13af536e4 0x1255283bc69ca6e0a8e18af9866f02d39be041,
     Sq 0x9aee178e85d98ef916f13b51463c8e67e3268 0xb8e073cd17e5d8ec697f07f92fe965b178d29,
     Sq 0x3d8c25fe99e3d28e6f2ab4aff7b39ad034abb 0xab18d85791b2644f44d569fd0268a75db8544,
     Sq 0x34b6ec7d6f789281a7081189ac7ce93dc2e54 0x20b6264d701e5723db7ef69ede810c29b48284,
     Mu 0x1d352395a6dca312239a55f3d62823bb4b7bc4 0x1d229dd57ed1cabea62e6abec89600cc6c7888,
     Sq 0x1874f9b560f8dec60987d784fbabe3ccb32cb1 0x146b0742c65fadb6b365e2a33fb50576f326d9,
     Mu 0x123b207238d10399e654cc6a6f158a1c0631f9 0x234b4b0bfff9e1a6246570a8b7a2b7f460f62,
     Sq 0x23e3c4259073963f00a2ed9f51b305c6198f 0x1aa2ec7b345ed6c5184e040d167497b695932b,
     Sq 0x147113a905adf8e1758ece906a02a5e66323dd 0x180b86ca087d950d219d89867c4a3c544160de,
     Sq 0x10a8612abb30c0cd6cfda0f9e944c66427d6f9 0xf21267bf0b96e45337f9f9fc29899d16846a5,
     Mu 0xd8245844eebc4d70542394482fcfd910bcf62 0x6630dbc92b8e1b61a426e6cdf4dbba897431f,
     Sq 0x12ce0985a7817f2af422edb8d3ae1e254089e 0x1194c02d14d368e79110cf5f1901d7eecab28f,
     Mu 0xfb2a53e1da6e886e2f5537e25064834e67669 0x20f074dc1a22fef0719fe5a51bac1af047c278,
     Sq 0x1f42a59d3e3786690bd9a8fc3278a2ba882e8f 0x12caa0f3ff23455a748cf9dcc7f09f4267a6e7,
     Mu 0x10c75496cc514fa5785b4c8688aedaddb5ffe3 0x21da175be5acd38b1df2320cf65c0249c60f9a,
     Sq 0x21043e1b801e9f74adec82fecd0c19d6e8b188 0xc36f8740cdada93091315372ca6075ac4896c,
     Mu 0xae8051ee1097f4ecf1daaa8c646531c338476 0xac1f69987a98cd70795a5538e728fc5b374b2]
   = Some (0xac1f69987a98cd70795a5538e728fc5b374b2, 0xa44e179dccf)"
  by (simp only: chain_eval)

lemma prime_s_pow_c_1:
  "run_chain (times_n 0x22b559b5c816ae00f2378e18df38c5410ed597) no_neg 0x2cbe55ea53ac8f31a83a9d88b34f81060f414 1 0
    [Mu 0 0x2cbe55ea53ac8f31a83a9d88b34f81060f414,
     Sq 0x39ae14bca33db6ec5f6cce5ff51df229649d 0xbdf7d7d15fe00b370d4a2957a4533d2ff27f5,
     Sq 0x40fbec691545dc07c27f2a528d8dd21ed8c7b 0x105897539453e3a0a02b442fb5838301985cec,
     Mu 0x15127703f3e9cb1f06c0bc3c05ad5692a1e9d 0x1dd615950cfcc324603bfb1f17ba0d541182d5,
     Sq 0x19a5e6ac40f84a6926c15387e04b4cd7b4cdc5 0x155cd145ec01c1a8a078478919ce287a86bd06,
     Sq 0xd25fc661683721f78c599b65419e68ef73717 0x1b2e99343242126ad67009fcbd4dcd46f03a93,
     Sq 0x1549a79f897732a55d2588be506c6fd32bd871 0xf5390431805a800e3864c5fc688ebb3e640c2,
     Mu 0x13c1f7abae444b73d96afcab9cfcd9db31887 0x17b0bc4c64f1f36bcd09aa61a030cf46082c87,
     Sq 0x102b83247f1d0d4202ae5decaa8c39e00a8906 0x1bdec084d5e7d8407d7e32dd328e66b5a1dea7,
     Sq 0x16610ece2f091558ea3d42bdd40de70e572758 0x234228d01d3b0bf9d5fcbabd819947dbfa409,
     Sq 0x23d1332a71bbebe24654dbd94978fa308668 0x20c93fd27ade4fbc2bb79ab9cdf4b94465b8f9,
     Sq 0x1ef867055f9bb164630955b3d5f3a99477751e 0x17ad1e023933e33f1b47e5471b3da8c594d77f,
     Mu 0x1e858b194a9be1890b5435875d423dae8d804 0x309f5687e3473ff46a57522fc78df5d5b2390,
     Sq 0x441d443a90b350a5ec0bd06aa29f7918a8e1 0x1b75141519943b320ed15a813a1f79df3df49,
     Sq 0x15b89b73369fc57adfd1f4359af42e02404a 0x1e7bbe9ab1748a3cdc8a1cece7695be078c52b,
     Sq 0x1ac5cd357a2c2031f138a3c10ec163b0845d40 0xfa800f6ff5bb61e8d85ff7923fbc11701f479,
     Mu 0x142ed2529542eb197a0cfd0dfcc39e1e4efc4 0x2224c481259278042b078d560e61ed4c4aecd8,
     Sq 0x21968994585eace3a8ce3fbd1c3530bb1324d2 0xcb30240f93842ac0103f3cc82196c958462,
     Mu 0x105ef5b151c439e48c82d28b2278704a709 0x1e035317aafad685ce3dffee9b9183d464bc59,
     Sq 0x19f3e930f2536681e0ac088d0f56ef6e097aa5 0x4a6a9e07d23932cb80d112b2e3143b372369e,
     Mu 0x5feea50a58b9c74010fcdbdd5881b8244c2f 0xbaa074dce94aa9dd35ebe121b7b6851dcd19f,
     Sq 0x3eb7d9d8537b44d2c7c100bd77ecdba071060 0xda66dc7510d849c13c300f7d30dc3b2e27821,
     Sq 0x55e49cb82f2447e4fb660746550064933f2f3 0x796b9d3698f0ba45126a2ae8a5688d39077ec,
     Sq 0x1a8c3c81fdc31931a53455b62b14976a0460d 0x41284818078f7cc422581af81d15fb5251ee5,
     Sq 0x7a518ac76a922b467b31eaf59b018b54ec8b 0x10ef4644b561fc4bab9f59167c0685b16b4bdc,
     Sq 0x8433c2dc39ac34c6ce6e2ae2f84976f511b3a 0x13f4019f9741bc475e34ed9f57278a5cb853da,
     Mu 0x19b8dd0852db620c9b43217cbc1fdb7832353 0x19b54ac96e54909281a57eab239261a3ca7013,
     Sq 0x130ab2ddee98687683a0e0801cbe80d8a9e297 0x1207937dfaf4c799cf005b6be210e8600e5758,
     Sq 0x95d9a602d13fec17161fd0bcdeb9709c09efe 0x78901f45516b5305fa2ba55d9163e76a1d06e,
     Mu 0x9b6bbd752a3c152b3ca4070e7d57b3b471fc 0x214afe239271f9b6f75e6f9f40bf3d2e7f38f4,
     Sq 0x1fef699a65a9e4eee73b18453e13ecc9b676b6 0xea38577f2c22c56abb73549c7e94cbf6a3536,
     Mu 0x12df06e60dc1f39ab169dc5fdc360f0f931ac 0xfc7d648e2ed696282f6bf7c8f1ca0a68b37c4,
     Sq 0x72cc3577a68872af41639db2d41e0d7201486 0x20201b4731c38a6b932f4d9a357a5610aa3506,
     Mu 0x2969e8b3293ac5fc8a8d6a26d30ee84778ddf 0x1b722c097183f16e8abfd15eed307dcd54a2ef,
     Sq 0x15b4027c2d6dbfb04bb0ec9c538ee254b78b43 0x4b8cbd2e50b60c5b2542426d6bf62cabf779c,
     Mu 0x6164a5e7ecdd45f3c4738bb629276fc68ff4 0xae4724ae1058efb6a75ac9354e6ecf8391b44,
     Sq 0x36b15aa99f55549751bf517d8ac05025600af 0x1434a7c49121bb2ad5a8319105bf7f7f5167d7,
     Sq 0xbc34a22e791f98751a3ed04e289ce287ce90e 0xfe70d3d37ec63387d8a6c994d922b15d2994f,
     Sq 0x74941ca9ed882947158ebe1e3c2fc2ab264f1 0x818d63125db874d71c4c35e7efdd58407773a,
     Mu 0xa7025c39386cd081bea74406f27a0a569074 0x1b62bf39519c8bb16408be4bb6f3b24a60e01c]
   = Some (0x1b62bf39519c8bb16408be4bb6f3b24a60e01c, 0xa44e179)"
  by (simp only: chain_eval)

lemma prime_s_pow_c_2:
  "run_chain (times_n 0x22b559b5c816ae00f2378e18df38c5410ed597) no_neg 0x2cbe55ea53ac8f31a83a9d88b34f81060f414 0x1b62bf39519c8bb16408be4bb6f3b24a60e01c 0xa44e179
    [Sq 0x159ba438699f72b5c7b82f271c49565024b348 0x90a98d5a13626a0bf36ce56a578a224705b98,
     Mu 0xba7ce988933ce9055cf12acd4f4f7d3c5077 0x4c70e33b9167225ed19858e0f3a1e1e0b8eaf,
     Sq 0xa85a0f464310dd07b5fedb2949ee5c5376b4 0x7ad2705f36e4f4934c6a2620f8e587db9d375,
     Mu 0x9e554364741f14eb76cd9954ac237bc71eb8 0x1a837bca05d8b42c1f1dbc57a990ca76ddd29c,
     Sq 0x1440ee74087ac3c69b370b813420384114bcaf 0xbfc85a243080e43c773547154ff82b9d168d7,
     Sq 0x423b3d1778e6868fb75986d863e530b8adfbb 0x225a3dc4aeef9f62fbab4904c4e4b05b2d644,
     Mu 0x2c48e26ad1ee93179239aeb9a56abbb3f7cb 0x2499557d09c9780b9de6a3f9be484f3447d93,
     Sq 0x2697ae10feaac0e0af0b4612232d09416545 0x139030bc52d2aee11a258e4b2015a91815bdb6,
     Mu 0x1938302474326b8c7b8813c48abd027c36656 0x16730a1518ea05f381ce74a3851dc6a7a95f7e,
     Sq 0xe852e81742510979e051f916e8eeb573bac2a 0x16ee3b20c29f9141bf35c660cf8dc6d3d433e,
     Mu 0x1d8f77893158062c9e9f2ff578c1c058a5bc 0x877515942d530c57caf76cc6ef0a801a92af4,
     Sq 0x210a724b8dc1239a676f272ee2bd1350050cb 0x507d01fad8a3ead35eb536bae2a2128da69d3,
     Sq 0xbaa6bc1f9d085547274138f86e0e43c9b48b 0x1ef834328a94264aad9ef2ed7d74295d4f9eec,
     Sq 0x1ba229b8a3b64fed35d7cfd4b9e970a972fb2c 0x8b4c4bd341473775b558b582dec766a1a669c,
     Mu 0xb3929cc48773e08c5c25d681835ec87db4d1 0x181f49b094ee3087a71aaecdfdc57ae05727e9,
     Sq 0x10c3cdc0aa39927784c096c3b1bdbbe163dee6 0xedcd603bf51cee2d3352c5d75853145a4fa67,
     Mu 0x1328e9a881418d7ff72b985e272b7048f8c3e 0x209018ee8d363db9bf31ea2c3d2c9c7c6e6d7a,
     Sq 0x1e8ccbf74ab705eeed66b5e7050f715f226dbd 0x2766db6b6ffc0649327d7cc835a29b3b622a9,
     Sq 0x2cbad5e4b254dbb60a4548166d7ed888fef9 0x1d7696b4c0bdb59e418574837ab65bc36bc1b2,
     Sq 0x1902bf0add9755421a86db9c74cc1cf8938561 0x972b96aee613f0dd58f99b33cba7f600e7e8d,
     Mu 0xc2e0a49d2e2a0e1c5bdcb48c8ae1ce872651 0x12b8cca5495929b087785ca36486f6a899483d,
     Sq 0xa194220c830edcd95936a99c5fdccfd629182 0x20340bad56eaadb40116de307badb70dfb60db,
     Mu 0x29839ce9b6ba73da3579707698561b271b6e7 0x11f0e3d9d2fcf429f5eb53c94070962c3137db,
     Sq 0x946178a22844639e64fc82be71d71698a3f95 0xa147323af4660722415fa4cc5e93b1f6d5b76,
     Mu 0xcfe86523b4ced7d81da8c1485c3c6e91aac5 0x13ee2c8b05b62210166d07e49f8a0b952ffa05,
     Sq 0xb71c9563a3ea43f3d861b865fdf0cf422c0b7 0x1667588b4330093f0ce37258afe908a829d528,
     Mu 0x1ce19543ccc57228c0dfffb8eba78153c9bb9 1]
   = Some (1, 0xa44e179dccf)"
  by (simp only: chain_eval)

lemma prime_s: "is_prime 0x22b559b5c816ae00f2378e18df38c5410ed597"
proof -
  have b: "(2::nat) ^ 0x549215869c896 mod 0x22b559b5c816ae00f2378e18df38c5410ed597 = 0x1efd94eae6545baeee572aee922683ab22f9a9"
  proof -
    note s1 = chain_step [OF times_n_pos prime_s_pow_a_1 chain_start]
    note s2 = chain_step [OF times_n_pos prime_s_pow_a_2 s1]
    have "(0x1efd94eae6545baeee572aee922683ab22f9a9::nat) mod 0x22b559b5c816ae00f2378e18df38c5410ed597 = 0x1efd94eae6545baeee572aee922683ab22f9a9" by (rule mod_less) (simp only: chain_eval)
    with s2 show ?thesis by (simp only:)
  qed
  have c1: "(0x1efd94eae6545baeee572aee922683ab22f9a9::nat) ^ 0xa3b2bf8c32ceaf mod 0x22b559b5c816ae00f2378e18df38c5410ed597 = 0x2cbe55ea53ac8f31a83a9d88b34f81060f414"
  proof -
    note s1 = chain_step [OF times_n_pos prime_s_pow_b1_1 chain_start]
    note s2 = chain_step [OF times_n_pos prime_s_pow_b1_2 s1]
    note s3 = chain_step [OF times_n_pos prime_s_pow_b1_3 s2]
    have "(0x2cbe55ea53ac8f31a83a9d88b34f81060f414::nat) mod 0x22b559b5c816ae00f2378e18df38c5410ed597 = 0x2cbe55ea53ac8f31a83a9d88b34f81060f414" by (rule mod_less) (simp only: chain_eval)
    with s3 show ?thesis by (simp only:)
  qed
  have c2: "(0x1efd94eae6545baeee572aee922683ab22f9a9::nat) ^ 0xa44e179dccf mod 0x22b559b5c816ae00f2378e18df38c5410ed597 = 0xac1f69987a98cd70795a5538e728fc5b374b2"
  proof -
    note s1 = chain_step [OF times_n_pos prime_s_pow_b2_1 chain_start]
    note s2 = chain_step [OF times_n_pos prime_s_pow_b2_2 s1]
    have "(0xac1f69987a98cd70795a5538e728fc5b374b2::nat) mod 0x22b559b5c816ae00f2378e18df38c5410ed597 = 0xac1f69987a98cd70795a5538e728fc5b374b2" by (rule mod_less) (simp only: chain_eval)
    with s2 show ?thesis by (simp only:)
  qed
  have one: "(0x2cbe55ea53ac8f31a83a9d88b34f81060f414::nat) ^ 0xa44e179dccf mod 0x22b559b5c816ae00f2378e18df38c5410ed597 = 1"
  proof -
    note s1 = chain_step [OF times_n_pos prime_s_pow_c_1 chain_start]
    note s2 = chain_step [OF times_n_pos prime_s_pow_c_2 s1]
    have "(1::nat) mod 0x22b559b5c816ae00f2378e18df38c5410ed597 = 1" by (rule mod_less) (simp only: chain_eval)
    with s2 show ?thesis by (simp only:)
  qed
  show ?thesis
  proof (rule pocklington_two [where ?q1.0 = "0xa3b2bf8c32ceaf" and ?q2.0 = "0xa44e179dccf" and k = "0x549215869c896" and a = "2"
        and b = "0x1efd94eae6545baeee572aee922683ab22f9a9" and ?c1.0 = "0x2cbe55ea53ac8f31a83a9d88b34f81060f414" and ?c2.0 = "0xac1f69987a98cd70795a5538e728fc5b374b2"
        and ?u1.0 = "0x1c57608cca63bd0dec0bb61f90d77cc342f96e" and ?v1.0 = "0x8c8c32ecd9e78f5a7b15ea29193120df46efb" and ?u2.0 = "0xe62dfc289b94889baf37a7ecd87a1cba8a4a8" and ?v2.0 = "0x128bb03d7bb2a1c56a8b803543011de45b021"])
    show "is_prime 0xa3b2bf8c32ceaf" by (rule prime_t)
    show "is_prime 0xa44e179dccf" by (rule prime_u)
    show "(0xa3b2bf8c32ceaf::nat) \<noteq> 0xa44e179dccf" by (simp only: chain_eval)
    show "(0x22b559b5c816ae00f2378e18df38c5410ed597::nat) = 0xa3b2bf8c32ceaf * 0xa44e179dccf * 0x549215869c896 + 1" by (simp only: chain_eval)
    show "(0x22b559b5c816ae00f2378e18df38c5410ed597::nat) < (0xa3b2bf8c32ceaf * 0xa44e179dccf + 1) * (0xa3b2bf8c32ceaf * 0xa44e179dccf + 1)" by (simp only: chain_eval)
    show "(0x1c57608cca63bd0dec0bb61f90d77cc342f96e::nat) * (0xac1f69987a98cd70795a5538e728fc5b374b2 - 1) = 0x8c8c32ecd9e78f5a7b15ea29193120df46efb * 0x22b559b5c816ae00f2378e18df38c5410ed597 + 1" by (simp only: chain_eval)
    show "(0xe62dfc289b94889baf37a7ecd87a1cba8a4a8::nat) * (0x2cbe55ea53ac8f31a83a9d88b34f81060f414 - 1) = 0x128bb03d7bb2a1c56a8b803543011de45b021 * 0x22b559b5c816ae00f2378e18df38c5410ed597 + 1" by (simp only: chain_eval)
  qed (rule b c1 c2 one)+
qed

lemma prime_r_pow_a:
  "run_chain (times_n 0x926d1276e41fae13fdda5f78edb7802a76951509) no_neg 2 1 0
    [Mu 0 2,
     Sq 0 4,
     Sq 0 0x10,
     Sq 0 0x100,
     Sq 0 0x10000,
     Sq 0 0x100000000,
     Mu 0 0x200000000,
     Sq 0 0x40000000000000000,
     Mu 0 0x80000000000000000,
     Sq 0 0x4000000000000000000000000000000000,
     Mu 0 0x8000000000000000000000000000000000,
     Sq 0x6fe4849cefe4849c101b7b62a036 0x8d26628799a205e78779ac7e6b6f9ecd6ef5f01a,
     Sq 0x88105dd341037d77d72f9ecc2975840f4666add4 0xdf13e0192b37adf2c82db25024a304500b24230,
     Sq 0x153dae2a357a1aec4e4fed836d930f365974f0e 0x84f6174410b13b7c641bfb1c0429a24ea8e8db82]
   = Some (0x84f6174410b13b7c641bfb1c0429a24ea8e8db82, 0x438)"
  by (simp only: chain_eval)

lemma prime_r_pow_c_1:
  "run_chain (times_n 0x926d1276e41fae13fdda5f78edb7802a76951509) no_neg 0x84f6174410b13b7c641bfb1c0429a24ea8e8db82 1 0
    [Mu 0 0x84f6174410b13b7c641bfb1c0429a24ea8e8db82,
     Sq 0x78bc14a2c651318eab04e3530c54ea14d6cfcea0 0x716368c5f08bdf6c4943d9ea39b018559b764a64,
     Sq 0x57ce071634e61f945ade563176736e7b08f643e5 0x6ab32842e8421fff279f0be4d07f42e32b4acb03,
     Sq 0x4dc06609e8fbd756c25af536be8a67b99b6baca7 0x4c80de5574152e7ca5b9f82e5533ff723d93fd2a,
     Sq 0x27f88754752aed654b9df28e0dd6753c460adcb8 0x68797d6eefaaf4a280c4a0945780f47e1b03306c,
     Mu 0x5ede14315f05143eb7e54c1ffb6e58e4b06c0b5a 0x375bdf1039b31d96d440f07c543a79530bce32ae,
     Sq 0x14edeaf8abcb1a803f3888b4ae2537d28ad2ac96 0x3045d9bf8b8266961c7236aeaa8042b2cd320efe,
     Sq 0xfea0f9e91b59bcde0845ca1dc5139ee877afbe9 0x2e389b2a6c6cdb1f0182abf9903d0d98c97ecbd3,
     Mu 0x29f88696f02e5881bd55904c37a24e83123d8e73 0x20858902b4c5f9b5b72072b2305dad755e30911b,
     Sq 0x7391faca8059141a045018e6bf5b9c3d9e471b5 0x70483f8dfaf875e2771b5d5c41c2f5a08daac07c,
     Sq 0x56199f5a2348b92e0247ea8614dfb0db297905d6 0x635ef41275f547c6cff1a275476769946120798a,
     Mu 0x5a3bafb304ba18a48cd58685c02d8e80c25e3134 0x1f13f69411b88372f7534f4676e60d2ba4e9c740,
     Sq 0x69899fe4c316ecbf674ac68a008d581e8ab993e 0x5be7ee36c10b7c4530f9e6562c3af9f046e416d2,
     Mu 0x537464c720082cb1412309f7fded9c1875948880 0x749a0c98ecfbbf2c692e17d8cbe57473d9bdf024,
     Sq 0x5cda24036ce06b76518921302e20843f5a2f6897 0x25a1b534cc520de2dd76efd1ae6f152df54974c1,
     Sq 0x9abdfd21487d480c5d980ad2e752850d3101ee8 0x433e5d60a011ed047d59f5b048abff8e8a2f5b59,
     Mu 0x3d0f6618c37f728b241e6c922f3d63f661a1ee4b 0x27d7d500a81bff0dcdf4105012396383e4f4fe8f,
     Sq 0xad769d86939d961a5eca7e003884698788299d0 0xbcf0cb0af1aa9d6f7695ac2d22ddff69c729b91,
     Sq 0xf3cc95121ba4b8547b690b2cd6ac5720d9a172 0x3b89ffe2134df1c5fa1ee4c37d6a59081e6de11f,
     Mu 0x361067959a4ff3441b3460ab8ba21e1f5f7ed5c3 0x35a484198144c5f52614610266ddcda1bffc53e3,
     Sq 0x13a6db1bedd9ad7b74c82078c93fe06b7e6d3054 0x93554632a72a15c586ddb55c20502a5bcb36455,
     Sq 0x943eea28236e38fb320f294c9c1d10735f2e57 0x58fb11f8740b19b623b544aa27a023915e67c02a,
     Mu 0x50cc654724eec5c3b6f717637d86437acf3389e3 0x99e37b24122fd35adc1752ce79446601e50b59,
     Sq 0xa1bb40c42ad6ab8e511608fa52fb8b4d9c43 0x2be0c2ebe1ee77c6151cd385aab65f79e72fc796,
     Sq 0xd260133fa24396a30b3859580f77738abc33b58 0x1ba954278d3459e7e5818ac0cb1cb96670bb3dcc,
     Mu 0x191e2845f42d6d2c97ac21f8df5dc3159b773f00 0x3dd0e0023af003206819acc3ab3c53e66376ae98,
     Sq 0x1a18b436cd4a83859a24299a1414d3260ea36598 0x1cbbee3f3f7ec0a1195fca1871273ec6dea6efe8,
     Mu 0x1a178206ea27c9e7098f5a729d0ef3382e563374 0x3e54a23f06ad5e6698eed095e17bf12d6c7cf8bc,
     Sq 0x1a886a3512ff5acf00565ac322283ccc38bd7ce0 0x868d3a8f713c5ef2da912b7163d15a8a0f850630,
     Sq 0x7ba3e69997df113d84083f446f4cec958709e0c2 0x30dde5638507a052d7ab803f4a04ac164253782e,
     Sq 0x104eedb7d30aa5b5c7dcf52bdf86c693e17e86c3 0x9df401b39ddc2c183be935033e353a43e3f6c69,
     Mu 0x8f6dab40c162790228fb8c1aa11bcb2591c15a4 0x62deed42c42f9332dce46eee14c9dd7664e3a98e,
     Sq 0x42c29dfba759729a7943c97bedcd83f4ce538041 0x76f15929768f950638c673725b704aeb5bd6f37b,
     Mu 0x6c0158454f603b544d5bc86c6242990ea4dd0fbe 0x924a7806dc0cdd10a6496c0f4993af033943b9c8,
     Sq 0x9227e5c43eeed00cf413f266497987f9dab6b78a 0x8ac6af38e4b788a8b17ba3e658061d05b8b5e666,
     Sq 0x83869c99a64c5a08fc3ced37a1720e67da7d2280 0x76ba1c05baaf556b0687764902bb901f34dcba24,
     Mu 0x6bcf2f7ecaa26d394cc6bc7843e80e945fc06e1d 0x82e43bf9bad338697cfaca3c4e1d75a460461243,
     Sq 0x75014dd951fbe23a1339b48b6b6d4bd34b501dd0 0x1e7d0850f8770f1d7ca385fbf35c9d9dcb9e6139,
     Mu 0x1baf4fe57c9a42056c8eff336fdcead1185f2da4 0x3698856517d819f3c4696517c8c53c5494b6132e,
     Sq 0x145b39933095a34983ae805cff8044aacc987537 0x2ff3e5f998c331b2311879f9f7ddab4930db3a55]
   = Some (0x2ff3e5f998c331b2311879f9f7ddab4930db3a55, 0x456ab36)"
  by (simp only: chain_eval)

lemma prime_r_pow_c_2:
  "run_chain (times_n 0x926d1276e41fae13fdda5f78edb7802a76951509) no_neg 0x84f6174410b13b7c641bfb1c0429a24ea8e8db82 0x2ff3e5f998c331b2311879f9f7ddab4930db3a55 0x456ab36
    [Sq 0xfb43484c692ab196cd036ff938232025076ed8b 0x6bb4bc5a8ffaf9f7c27167025146b1e3d126df56,
     Mu 0x61cd411dc9fc1aa1222deb6dbeabcd66914c46f3 0x9102c1d86ea19c9ec7e237a39f7c3f1da1cc8e21,
     Sq 0x8f9bf1bbf4cbf95a8ec3cd240cbd32d4c2fbe420 0x6afb5d4f70571b685878b54928bc1d364a4efb21,
     Sq 0x4e29c58b7a197396e0dcf2a261b8e1fcde226f0e 0x56caa250a88dd3c28a26ac9bc9771bd558fdacc3,
     Mu 0x4ecf7eb795fb96163f77964ae86cd4151911e05f 0x6482fcad59b482543add58d123cd79f10200ddaf,
     Sq 0x44fe98a17cde2cf6f7327fdc8c0b0d45739390d5 0x32b86b654bd156395e042e25726b1e71d6ed0d24,
     Mu 0x2e0e6c40dbfb6f3fd1d01736da5b6445ed58be13 0x811fb9d9ec1c878963c4b70ba83dfac874793a9d,
     Sq 0x71ddc3ae3d69f5690a46e98f81dfed1dd83bf29e 0x63dec3fe04dbd8970e2832c71c423c682edd06bb,
     Mu 0x5aafbed2b101e94b57faecf8556a529f02e812d5 0x8331b22c010952ca24b949e3ffe0812a6aca4179,
     Sq 0x758bf3998e486e3263bcf151f78cff91314c8b2e 0x517ef1348e143bc13bc27cf74d76d7515ed10093,
     Sq 0x2d5b9e5711a1057fd40c26e07383544bc87d5915 0x2982cff87dc61b9b8a243f8da3afaa81081679ac,
     Sq 0xbc4a49df85fd9a8719de39d238960b141c57e0b 0x43534262f095a12f940694f60f200a71f1b4b62d,
     Mu 0x3d225f3b52f92aaaa5247dd3b2fa9d948bd4cdf6 0x21d2ed2f8d03d83b8baf5624dc3e68d252d69634,
     Sq 0x7d02ee07b4f29d85362d0df6c1712110b3f4985 0x123eab7e9fa8b5e85f728a494179895818667be3,
     Sq 0x245f81d4a7a4523f07dc37c6980cef41464c601 0x1eb55fe4917d64f80180ff3c6cbfe7fad479e040,
     Sq 0x670b046bbae0c77266d46791c0c5f3403f88656 0x2e8897e00232ec27228a43cb4dd30d9a662048fa,
     Sq 0xec9c53bf28bcd8917a1319a3164b91dd105bec4 0x821bc9d182c6ae8a990fabae863e6061595fcb40,
     Sq 0x739c03e5192f9cba085ed20abdb0ede38558fe19 0x6d6a9d0dab22a98f5ba36a157916ecb59358941f,
     Sq 0x51c2d9ea4ac8ec1d822ff74d7111d562aaadfb14 0x481fcd9ffc6482d6bcf4b456a9e121d924a9640d,
     Sq 0x23869b98f06cfd05f992845845d0c38fcd565460 0x53d4e43a4917587194d8aca9265d3a793f6f5149,
     Mu 0x4c1f6e778e6b21e69ff6acea0acdb034c64c7c7b 0x29efbf7633ad2192d398024ff566cd1b9ebb42bf,
     Sq 0xc02b990057a18e1551b88c9f39ee2955505c478 0x7ccf231b8662da7af35ac9dec811d438474a49,
     Sq 0x6a622dd387516156e7fcf8c83fe03f5a4ed1 0x3bc3cc1695ebd61ac5e96c0250bf6cff61c35e78,
     Mu 0x3644e33027ba9ea479349e220f64b47d08f5e578 0x45820cc6debc8148709c241a87778b38c876b7b8,
     Sq 0x20fec80d9dc5acbd7761df2d87e9f28af1a33df3 0x21722f501c0812f37cf37f8567a66d796e3777b5,
     Mu 0x1e5ed6f312f3303c7c47d5d4f41ddd02885002c6 0x668c7f8c3c3c29232540a77719a51e52735249f4,
     Sq 0x47d1d11072e09091cb58df41185b1f79fc5a1f4f 0x59c7b9904edf1d2712fe97c7e836e5ec6f57bc9,
     Sq 0x370c51c2d4a13535d157eefac38f89eda18c96 0xd6d08895f7472e1040c5c871e8217b58410848b,
     Mu 0xc30fa2633ca34666daac04be422c4e6366546bf 0x1fc099957732a7cec78afd32eeb7ef0218360fdf,
     Sq 0x6e2adbd0f8e9981453f4e7ac6889d377878ddf5 0x75c146ae0b75330c9d92297cb920fd313f01fda4,
     Sq 0x5eb2a7ad3d97b44d0606430d442339144c7f8a6a 0xa1e02c9acbc62a4871d6b874bb48a391c0d0156,
     Mu 0x92fd7f48e5e446459c6fba7194bf83fb55c2c1d 0x59e934f920642790ed3a8e67c50d190209f251a7,
     Sq 0x3735686c6c198df150f2f0c6e1e089792ed9cd68 0x73a57dff9348cf75dd956d21de00b11b36bd5a49,
     Sq 0x5b563ee77a27617e5b41656fa54bf1b6bf854fcf 0x2f2b2b83982eb38f40b5f8f0509a6b11b2ea9f8a,
     Mu 0x2ad4c8ccb0d7aa92167451f993f41803fc7f5a66 0x589401711ddf683e3815bd7a2dbee609c26d867e,
     Sq 0x35957e52da56a7d30dbee9816e9849c4ad9d6431 0x7f23a7f27c8b12a9425151dd936c892dbae9b4b,
     Mu 0x7372b34a5b4ce2486d20a242d7f0487e806708f 0x4970ae5df68c4f0bf076d67059b2a59ac4cb550f,
     Sq 0x24d580d70d8f1f40ea30d65b455694bbb940ab2a 0x3473efcbdcc3886f0de3c1a0944f50922d4a8067,
     Mu 0x2fa127ebc3a2c6c9a0f1d2d6e4b2187f534fc948 0x571ecd38f19e6b29a7063ea387de9bcce0cc55c6,
     Sq 0x33d5ae6b1b3de6914c7ac4502ef35ae81c9eeac1 0x7ad7c6eff20a3d6efecb122cea9d87e3ad1fff5b]
   = Some (0x7ad7c6eff20a3d6efecb122cea9d87e3ad1fff5b, 0x22b559b5c816ae)"
  by (simp only: chain_eval)

lemma prime_r_pow_c_3:
  "run_chain (times_n 0x926d1276e41fae13fdda5f78edb7802a76951509) no_neg 0x84f6174410b13b7c641bfb1c0429a24ea8e8db82 0x7ad7c6eff20a3d6efecb122cea9d87e3ad1fff5b 0x22b559b5c816ae
    [Sq 0x670ed73475ca40c3c1717611347e6d56dd2a728e 0x6e8983be6f8b691246a4c9be0c190a827236bd5b,
     Sq 0x5371d1b7e506ba60b652108f5d4df480a230dd9c 0x22eef4c066fb6b3517fbe6bad55acac2e0c1e7dd,
     Sq 0x8558e148ee4fb3d866cce6a30ad632ba9aa8c85 0x3cba5b66f66b3f793bba23a8be5a1b47214bbb1c,
     Sq 0x192f9cc89bef35484ebff63116198fae709168bd 0x7f98602edacaacec3cf8b479a90fb7e36c74bb6b,
     Sq 0x6f2fa2c39c376aad3ac21a6c00684ade0a1cf652 0x3ba8b862270209b191ac11ab05388ea2c53a1bd7,
     Sq 0x184ea2fbb4b918ba5d13d4cce10267d51ab866f8 0x222963d76eda0ad9ae493863b277a8fc372d17d9,
     Sq 0x7f853ff0099c6d5b6496c66e96cde2c4d4149e5 0x5119851e343c6ed40eb034f7c7e80ae1ffde53e4,
     Sq 0x2ceaff193861899320ed0b9b0a4d53590f4b4e0f 0x23932473d60d24c7d2fd94c28acdcb55c325a989,
     Sq 0x8a49d8196a7bd40632ad29980abed2badd31ed6 0xd54a333482fd759f8222ac415fac9cc235e87cb,
     Mu 0xc1ad31c17c5a43c1db5920c45402757fc7b345b 0x49341f226084557c8b6055ab36ed99fab58c4fe3,
     Sq 0x2498da8ed89e69178621080c97e400577a4f64f2 0x202a08ddbac28c1061e5c65ff5c38aad5a497cc7,
     Mu 0x1d34dd688c2f9e16d3c2edd9948421e8f4b0287f 0xfdf52541623ee92d39c7dbfb4c5a81739f8c297,
     Sq 0x1b87520e00b84c791279e8fd467e5c966dabd19 0x8768f1f2b5f183fbbac01f87aa2f0f6ab1b88230,
     Mu 0x7af54ab0f5ed90393e5881ffbf5378411e71172d 0x8c772e921106c12291b55a0ed4a791cffe7faacb,
     Sq 0x86bf67d064ed6f49573b16888a5dd471aeb9544b 0x640df61cb667c24dc34e48f9a338284c1471f56,
     Mu 0x5ada99eb10684b4e766611f5ad9e6968cfd4b07 0x4d9c8fa695b7224f4c72988c77f891f732ba456d,
     Sq 0x29231e3be29717a048b4a2b8056094f11d1aabf1 0x5dc5bb5a29b84a2b4826ceb9b657c7cf29e81ff0,
     Sq 0x3c0d751b846d21520162bb2225a4eafdcb13f594 0x5a7485917d3938f93bf03c172ac52e27d8ff3acc,
     Sq 0x37e103b5110ade7ada76138a1511771325e3fe42 0x67dc5e7becf937278457fbec9d184e54fe9fb83e,
     Mu 0x5e4f67fd469f6db9f564bd5fab321c00dc428e90 0x4e2ea65a06f2e8bb73c9ee6f00701b5b0a0fc66c,
     Sq 0x29be8d8c4b5680d11a31fb0c261fe22a3ac43a6d 0x3d249dc0e7ab781136993d49d4cedece1513ebb,
     Sq 0x19880d686938cdfb532839218ac5b304f0b485 0x43261df785b8e84b3af7aa3fc3e53d022d06daec,
     Sq 0x1ecb2433ae3893943c1b934f5af29b5dff166743 0xa3700254bc2302023b0ee5b72cfe3fa2c05a935,
     Sq 0xb66ce4bdac1898eea16334b0f41638fae96581 0x31c55ea18bac6d9fbd2d5c5199ef316cc24bde70,
     Mu 0x2d31b91161e14bc7fca71335ce712a39ffd734c7 0x9078e5ccc9ecd85483f472b9278e270a8f9896e1,
     Sq 0x8e8b65ac6dc156fe6146fa89c493e5f182d47813 0xc6498707681bbf3f411bc9aa3a2fdbd35bbaa16,
     Mu 0xb40db1f130167b2d215f43cc0334eb41e2d5fad 0x8118fed6ae80bb618d8c65ba5ff317be319aa317,
     Sq 0x71d1e5283a8a1beba9b3afaf515df685aa3cc4c9 0x6d50d8d30f5abc9b6adc843469484544464de400,
     Sq 0x519c5c6c36d04f06cd6f3020422da66334fa8fdc 0x244f1f39e8c3d6125e9f3af089dfe5506567e544,
     Mu 0x20f860f67962988223d35ab1a79290df49f94ca6 0x5f4943b9999a2e44121b782322eb3d5297d848b2,
     Sq 0x3e01d26216ff8f7b6e9297b754fc4b202465097c 0x3235b81a51e39d79c8ebe7962796abe17e841a68,
     Mu 0x2d97bdbf2a97df74dc4caf20a7a21b758b4ac3fe 0x5a45ef4b7370c26d8053bd60e72518634161a6e2,
     Sq 0x37a7838b05bc956a76adcc37675465dd084e884b 0x3912d15f2d54940afabd6640d36693810675ede1,
     Mu 0x33d343924e7a0cf71f721dbbd2f6e8eab98d71d7 0x88cabdeb487eb941bb2c0297a5319309e9d7a3b3,
     Sq 0x7fcaaf0e3c97a576edfb9e4accddf363ef31ff46 0x413d430af9caa7337699bbfdac386bd3dae6b7b3,
     Mu 0x3b3d7a985f293075f1b49c31ee8bff98d3867573 0xf5720145afe145e803d074cf36ca409a53bd9db,
     Sq 0x19b6ceb3af7a777fb1ec870e4a85480c76815f5 0xdb7ae4158583a120c056020a1db7170304822bc,
     Sq 0x148fb4e079793b4c3327e0fe6787cb7dfb3ce80 0x8624c5686a04ec5c792fc617cfb2103340b3b790,
     Sq 0x7ae437f2d1a1c2a78717ab16d94569d7f12154b3 0x69e11d0dad988cae6957c20b7d6cf32432b187b5,
     Sq 0x4c8f75cc481f2b6d6a07d7c9b6db95e9489b14cd 0xfa29ec48ce3f5cec7538f7241ab8d63c4c0d9c4]
   = Some (0xfa29ec48ce3f5cec7538f7241ab8d63c4c0d9c4, 0x456ab36b902d5c01e46f0)"
  by (simp only: chain_eval)

lemma prime_r_pow_c_4:
  "run_chain (times_n 0x926d1276e41fae13fdda5f78edb7802a76951509) no_neg 0x84f6174410b13b7c641bfb1c0429a24ea8e8db82 0xfa29ec48ce3f5cec7538f7241ab8d63c4c0d9c4 0x456ab36b902d5c01e46f0
    [Mu 0xe328e08dd6dc0df61195033750a8b192a7635dd 0x24745635b5bf15f57251ef1aed40e71f75a53bc3,
     Sq 0x913644d425d6567469ac58e1941146cc45e51c4 0xd724f5156e1050383e101ac4e2f03d3c23782a5,
     Mu 0xc35c4b7c02941d8191b36052d44f1a371a3a1b4 0x297dd81f6b487668f8fc08d13e65c19f49b30b76,
     Sq 0xbc1d3a96c204bafa818f68c0451a72b65f57827 0x59de5af47b1ac740455c2bcb2ff29ecbb257ee05,
     Mu 0x519ac7cc3e1eaa22e03377b832579be055bacc59 0x4b1912cc7ab91bf64af11d01a581fffb79aba969,
     Sq 0x2684045a3defcb6e658e75423ebf6185418c9848 0x654ddc4f25cc539ad3baedf03a95ce415c0a8a89,
     Sq 0x4616365dbe6c8d8f359da26ace6916a22c099b28 0x86e4ea559671a2e86ebecb9166e3cc97815340e9,
     Sq 0x7c4541dd508773363fbf909f3d263efb6bb32c03 0x265ea01336e221626fd28adaf62c189f7de388f6,
     Sq 0xa0dee305e4a788279cc6b73be794981a4c5e6df 0x1d04d7e4e627a177ac8971d07cc6874d38d9e38d,
     Sq 0x5c042284255cf43c3d44abea1888b46de75131c 0x2cfbfddca7f6314adb708ae16a035c8acb5263ad,
     Mu 0x28d906a1c8d2c79c036437e8e750c0acf89cd7e3 0x6642f1f2223983a2ad2aa984191d06b0b38b66df,
     Sq 0x476aef8f9f505dd6709b675889714a3a0f590ceb 0x1ca5ec34f1d91c203b232f83d5f32bc10a88bafe,
     Mu 0x1a03861237ad6d63b1b0056b3cd17d23ec613c7c 0x1890e284edc28c2d4f2f6310821cac95d208f2a0,
     Sq 0x41f16aef64b9521fbd2625295508ca3f9a52562 0x7c2dfeed4a5543fbe001361a7d0c28f24f09898e,
     Sq 0x69502af31f7c081d420b1856088c4f1e3d37be88 0x4ac2800caaa56d90f29c60b340dc7b0e4b266ffc,
     Sq 0x262b6a323d67528de2076f328869fe8de8227dcc 0x1a826642686e354c15e728648a69b663da8857e4,
     Sq 0x4cca0d3228c1cf612a611a785c15fe074e37c89 0x29437c25e0fd538fbea1a065eb4c0de26979253f,
     Mu 0x25781ba700a965b21e1774358b542a082f6d432c 0x8642f4d4880a1e936c69b30a4279e7ad4983d672,
     Sq 0x7b1b8ca4380102d9e213788f0354a6e07c621b55 0x161b2594ca98475ec646314983e42488ae24dbc7,
     Mu 0x1412c0f298aff8becfcc938b2a46c53d8e6a2df4 0x1139f245c78773da71443f3efb7a05c9cc8e367a,
     Sq 0x206cf5687deb98f159d0133271124fc4494a3d9 0x696c0d3b5e2d8de4c84ebb2963ab7744ecf82283,
     Sq 0x4be68877c39618f479f154c0a51b34695a1bcefc 0x2d3ab24664b5c0d33b26b0bccff6dab456d61c2d,
     Mu 0x2911f6ed7898e9311cc4415fb63e888abdecdf4e 0x58482f77c94d9329f13c74951a2d0f0d4b918e1c,
     Sq 0x3539ea10e559333863654f30e97e72ff9a8a428d 0x55ada54732b9bb589f7ed9f48af437ed32382b1b,
     Mu 0x4dccb68670dd9ca127c8fe2c8d9804259e94450c 0x8e278a347fc1c6555055512e2d63b467e101934a,
     Sq 0x8a01e89cb54db88d86b05d919255f969866f7b2c 0x44ec88c128a28eb8f74d8028663216d8b7b020d8,
     Mu 0x3e9602f4fa4a973164ee29d224e4e65322e241e3 0x41bd6250464be1c6ded733ea2d39ec16b2ce85b5,
     Sq 0x1d83c246d0e66d0e2eea36462a46ae78ed17ce55 0x3af3440e3f7c801337a5eaca9c362c0b99e557fc,
     Mu 0x35878824acf5f2c79ebf20798145aaf324dbff68 0x5674e05f7ba6e986c2d0f41a837dd38085e3bf50,
     Sq 0x330c3f7f64af8c0ec8ae4170c316cc958be561f2 0x903f0549ef10b70473c84994dc8ef04eace52d7e,
     Mu 0x82fb5b0c2eef04b784ca8ab57c6e396fc94facfb 0x3425d3afd34e2b1e7855fb20634a0d10c7673829,
     Sq 0x12925e8e3ff6a5c7838be15585687255c5eb2257 0x1f65e8c3862098ee592f5794b97d0dd8a5979e82,
     Sq 0x6bb90d22e10f4c21ede9d82ecac7bd0af6f6647 0x7ae656ce479a7958c5f52e98e34e462463df4e85,
     Sq 0x6727479444a61f90b2dbc4549bb5b3657744832e 0x100122f65c54650b8834349954e824af63d9ee7b,
     Mu 0xe88613dcb2b9e4d27b052f20ed92b4353334bd2 0x3684d48d5c8de9512d41b4a60a981f83ebe66f14,
     Sq 0x144c8d35a19afcdf7642ad63deef62a174d582c7 0x24ac14510c3c5cf54e78e6e49cdc505d09136d91,
     Mu 0x214cc9c3f2b9faf2e60941641293851c5b285ca9 0x575e6efe6475727871c4d01bc0fc254b559e8fb1,
     Sq 0x34218230686e87076d920dd9d8f3f3442930c040 0x4acae5682ef4faf236e0b0c70c7be81361673621,
     Mu 0x43ea38dd08f8512032e58ab242b0915d8112e409 0xfb41bf36754fa2a3cebd9a80d5348d28203f671,
     Sq 0x1af2397d44963a4937e12b8302c50801a9219b9 0x229f02d84f1d9e32883d5e8bc66209d14df74960]
   = Some (0x229f02d84f1d9e32883d5e8bc66209d14df74960, 0x8ad566d7205ab803c8de38637ce)"
  by (simp only: chain_eval)

lemma prime_r_pow_c_5:
  "run_chain (times_n 0x926d1276e41fae13fdda5f78edb7802a76951509) no_neg 0x84f6174410b13b7c641bfb1c0429a24ea8e8db82 0x229f02d84f1d9e32883d5e8bc66209d14df74960 0x8ad566d7205ab803c8de38637ce
    [Sq 0x82f947855a3ecac01c8af210924a2b76ccbf587 0x6d587af760960456b4a583938ee75d5abc652f41,
     Sq 0x51a7c2968b6c33c5070a39f8f284b2e3d0d1c959 0x7e4b05a6f84682f6da1e2781e486797306518d60,
     Sq 0x6ceda236e5a7186732b98a31de375f910397756e 0x895799fb52ffe8e25fa3e635da874422aad7bd22,
     Mu 0x7cb67622e2226874683449ab0482c70d072c33c9 0x175c855187c468982d05a0c275bb31205c5fd233,
     Sq 0x3ba28168a4fbf628b8f2076d48324d2bb12b029 0x3aff8512e887a379fc7f062fe54b9b23cc7927b8,
     Mu 0x3592a8b188ae9359e29ffee2b9a0eff9263521c1 0x4189f9ab02a482b112b62c1887bb1dfbea488ea7,
     Sq 0x1d55ab0ef6f49d59050b17586e0b490d73357f64 0x18d45a1731129f65ba1440806cb501a42be5026d,
     Sq 0x435d915f0768e390d8b41cbee048ef67c9b6d04 0x514e37c031f5040e393efd9d1a716514884bb945,
     Sq 0x2d2571ef6678801ce71f1b60a9231fed6c7c8510 0x5d4252bae27cb4ff9667ecfb110df8598ae7cf09,
     Sq 0x3b659b9b49594bea2f7570bd836d7cd68e88cbf1 0x4c0968a3156ca3091bfe4965633c2af8f8de9dd8,
     Mu 0x450b72103ee944d674eb84c540039923335bd500 0x112691762a072bccdfa9630a0c28c8654e2072b0,
     Sq 0x20242ab5923f4a4bd95db4ce65983cff9fd9cfb 0x74d6708a2478355196b1ccf358e1eee8777f1d2d,
     Sq 0x5d3a6afd81c8167b796e203d82056bc90f886635 0x1a1d1540256150bb35a717d413f0834424f2490c,
     Mu 0x17b6594bbe519c84bd5ada72031f909e608ba36f 0x5376551079549132421e9a8de5c55711f77a8231,
     Sq 0x2f92b807cb21ae7ace3a85762a5e7f27285cdc76 0x8169190373e0e7b8c684a646eb7314a628e25f3b,
     Sq 0x725f4fd2c421b81bdd81d06beca2b2974d15ab3c 0x2a55bb6ccb381a00564cc3fe82f79b6be8dde67d,
     Mu 0x267122f10ca228da3ba49bbb2c4bbd3f7478911b 0x42c1f61134c7a16736e4655ef35ab22d1b48a987,
     Sq 0x1e6f8c87069afdd596f11bb35f45fdb824fc2de8 0x6612916104a493450a084aedbd746b56a189e009,
     Sq 0x47276d327083c09f9fb1bce278e19d8968a9c643 0x45a2fb0b7982a884c9039dc4e90cbf7cfd7748f6,
     Sq 0x211e131abbcf3bb6672653cf9c51bef01e9c2d52 0x2961fbd297ad3d84fa6aef7ab92519e9158ffa82,
     Sq 0xbb20eeae106b9b2b93e5dcf78f891eadd268295 0x53802be4b224866dfba1437f06f18b44889459c7,
     Sq 0x2f9df022a2d8700a3d46d8bbbdccc1c3b19eb980 0x3ca9352df8b5a46a909ef7dd3fb1e9bd2247f331,
     Sq 0x1921653ccfd4b232b4fe8b03d820af4696d87c24 0xc92189a6a0ffe69c64b2cb01ece922fe774be1d,
     Mu 0xb6a2c2a5c53cb40c74d322c46a3ce23d5415355 0x6fd948ba6c1c16b15d1e89ee3fd14598309872bd,
     Sq 0x556fc5ae2d23a40462809b5f38e11d44334fa656 0x5c4e9399ada21e5fd1df0edf97562a80895cf883,
     Sq 0x3a30b5139c564081a35f583753e0cc9cd90fa39a 0x51f456615810c05070f22065efc0b0a6a6cbb09f,
     Sq 0x2ddea9a6e597677fef4891dc99c4daa023fbc4a4 0x80aa95639e230fa3df7f7bbd3ae65a9d395a4fd,
     Sq 0x710f87855f604ddc6067d4f45c4537161279a1 0x4789190540db6b7c4a479422c377b8823b81a660,
     Sq 0x22f2bfdc6de0488f8546257a0646d371fc054ba6 0x54432d9baa287068c44311746638abfb81de5d2a,
     Mu 0x4c83939d9e92c3b32155788bd83989e6eab3afce 0x28d848cc37aad6b1c97a538b67ef037be60b2916,
     Sq 0xb64bb35c2c3e0866e25fb9916c6b18b72951185 0x61b2186caab98d7d7be3f51ed8aa987e54658737,
     Mu 0x58b643b23770661e2db277ef6e378bfa8efe42d8 0x200cc452b37ef752204f712cce8ac213fdeea556,
     Sq 0x703ddec1896283359c9bdf2acf2a0ed3efebfde 0x29af21ae71a195d82af39a09a455c463b5c80416,
     Mu 0x25d9db1a3434e1354910ad106b74455b865ea99b 0x6a1f7722bf1424ff76bb746d352614d8e88c37b9,
     Sq 0x4ce9bc6bc5951b03329ed923a74ec2207fe2a040 0x707d2f85d5ffa65fe7b626de4e0b515731c2171,
     Sq 0x566ae24a9bbc3834d1cced3f77d49c8355d855 0x18a0b6af83f9b468fbf29877ea1d3ec61ad9bfe4,
     Mu 0x165cf4eaaaf79eaf2c8b70d74d4c574bd5540f1d 0x5da824ad16c3dbbbf609e2aba59b267ce14894c3,
     Sq 0x3be79552d28ea43b6c4bfb2770f20b7cf4a2fa5f 0xf82a861f844d2eedafd9a7e6a15edab4e927432,
     Mu 0xe158811df4c4eb6c6f5b52c4850527d37ef620a 0x7b4d28fba277d724b0a9071a60ba724506ce830a,
     Sq 0x67d429c1df22b9347d5f72e9c284ebb25c4a3680 0xf8fc99a21adaba3e4a036faaa7517f79196d1e4]
   = Some (0xf8fc99a21adaba3e4a036faaa7517f79196d1e4, 0x115aacdae40b5700791bc70c6f9c62a0876)"
  by (simp only: chain_eval)

lemma prime_r_pow_c_6:
  "run_chain (times_n 0x926d1276e41fae13fdda5f78edb7802a76951509) no_neg 0x84f6174410b13b7c641bfb1c0429a24ea8e8db82 0xf8fc99a21adaba3e4a036faaa7517f79196d1e4 0x115aacdae40b5700791bc70c6f9c62a0876
    [Sq 0x1a76230558e0ae10196b2a81215747aba52041f 0x8172bbafd4a0e34dd18c6cab0ca79a44f40262f9,
     Mu 0x758b6c9fbcdf2e0c085c4ea7bcd308d30945106b 0x1ee7c6bdf5a8d6a5dd470d2240aab53d2f7beaaf,
     Sq 0x685e599945f756abc3f2970863d0cd5e5ff7c35 0x4899866e677c750505e5df32f4868884d949acc4,
     Sq 0x23feea2d17b975da066307f859c33a4f58f515f3 0x2b6122b0fbbab64bfd3b3750176efe8040864185,
     Mu 0x2763f35409bc1ca38f156c9c60d863a5bee27f81 0x34eef8bf46de469c3289a0ee28f5a4445040fc01,
     Sq 0x1322b80d198ccda4badde7cafd037fdba0c3cff1 0xf7dd14ba51f50a3c0bc351c88ee243c45be388,
     Sq 0x1a3929579e89a53cf41d932e3b84561901908 0x79666ca0c26e5dfb3ed0d1c578f8936a4b23eef8,
     Mu 0x6e3c92ce8addf3b35788b47e9a5ccf02d8422a76 0x5e717b4ee5578dc772c5014336d95eed13f055ca,
     Sq 0x3cea3967270adbae08685cdb4e0ee79de73ea89f 0x84bd0699a4bf8322f66dc60f83bc02943febcacd,
     Mu 0x788843537d7502e9e8f3079413c91bb96e7cc1cf 0x66892f91b32341966dc147a93e7205b6283e8fd3,
     Sq 0x47cd2d621dd34f75936a9c221f9050a1e8babfa7 0x159d61711fa013eda85b461250c7c208e484f80a,
     Sq 0x330d02d034e29c4a4f73583a04c11569ca90f1d 0xa6e63c376fd96029af2accbb609fa7e0093775f,
     Sq 0xbe3c37c09468036a8eac05125d8b213d85bd1f 0x8ac1e222fa0b0bafb5395e3695ebc925cf81442a,
     Mu 0x7dff6de65df0f723ea0a7327a81e0f6c3b5d6afa 0x35ce0d92b6feb12125acbf9def4b23050b73468a,
     Sq 0x13c555f55f95c89c8a67ec45cfe15111ad07bede 0x8601711f4e2bbf9f9be50a04a025b4a32c47d696,
     Sq 0x7aa385324c7f8e2f069a9e84469101717ebe58cc 0x8eef6dd48b2e41279e846c91231c895d825d44b8,
     Mu 0x81ca9fac13b6a6d6fa25d0b317510f07265b61b4 0x22eb4c53c092d37cd912820dbd3ae28a55e81a1c,
     Sq 0x853cf5be90b4de5dcac2441c5d760a3cd845b58 0x70f1ca7e9208fe94e8a37f7eacfd17c41e0c44f8,
     Mu 0x668efdcb24f0e8e869935cb309c8a5ac9b2a76b2 0x6a22a91106d82924f6bf7d635238bbcff02667ae,
     Sq 0x4cee5e169c5cdc752c46ba90a228611809f23440 0x56fd4787d4d2aabec7f47793e69845610986404,
     Mu 0x4efd7bb3b1731d1498f5d614acc9b5ee6f3468f 1]
   = Some (1, 0x22b559b5c816ae00f2378e18df38c5410ed597)"
  by (simp only: chain_eval)

lemma prime_r: "is_prime 0x926d1276e41fae13fdda5f78edb7802a76951509"
proof -
  have c: "(2::nat) ^ 0x438 mod 0x926d1276e41fae13fdda5f78edb7802a76951509 = 0x84f6174410b13b7c641bfb1c0429a24ea8e8db82"
  proof -
    note s1 = chain_step [OF times_n_pos prime_r_pow_a chain_start]
    have "(0x84f6174410b13b7c641bfb1c0429a24ea8e8db82::nat) mod 0x926d1276e41fae13fdda5f78edb7802a76951509 = 0x84f6174410b13b7c641bfb1c0429a24ea8e8db82" by (rule mod_less) (simp only: chain_eval)
    with s1 show ?thesis by (simp only:)
  qed
  have one: "(0x84f6174410b13b7c641bfb1c0429a24ea8e8db82::nat) ^ 0x22b559b5c816ae00f2378e18df38c5410ed597 mod 0x926d1276e41fae13fdda5f78edb7802a76951509 = 1"
  proof -
    note s1 = chain_step [OF times_n_pos prime_r_pow_c_1 chain_start]
    note s2 = chain_step [OF times_n_pos prime_r_pow_c_2 s1]
    note s3 = chain_step [OF times_n_pos prime_r_pow_c_3 s2]
    note s4 = chain_step [OF times_n_pos prime_r_pow_c_4 s3]
    note s5 = chain_step [OF times_n_pos prime_r_pow_c_5 s4]
    note s6 = chain_step [OF times_n_pos prime_r_pow_c_6 s5]
    have "(1::nat) mod 0x926d1276e41fae13fdda5f78edb7802a76951509 = 1" by (rule mod_less) (simp only: chain_eval)
    with s6 show ?thesis by (simp only:)
  qed
  show ?thesis
  proof (rule pocklington_one [where q = "0x22b559b5c816ae00f2378e18df38c5410ed597" and m = "0x438" and a = "2" and c = "0x84f6174410b13b7c641bfb1c0429a24ea8e8db82"
        and u = "0x915a3c97e1f064769fa3c1c13714e947fde75b95" and v = "0x83fc873b067687e40e33c93e9edf628ae4e9ad74"])
    show "is_prime 0x22b559b5c816ae00f2378e18df38c5410ed597" by (rule prime_s)
    show "(0x926d1276e41fae13fdda5f78edb7802a76951509::nat) = 0x22b559b5c816ae00f2378e18df38c5410ed597 * 0x438 + 1" by (simp only: chain_eval)
    show "(0x926d1276e41fae13fdda5f78edb7802a76951509::nat) < (0x22b559b5c816ae00f2378e18df38c5410ed597 + 1) * (0x22b559b5c816ae00f2378e18df38c5410ed597 + 1)" by (simp only: chain_eval)
    show "(0x915a3c97e1f064769fa3c1c13714e947fde75b95::nat) * (0x84f6174410b13b7c641bfb1c0429a24ea8e8db82 - 1) = 0x83fc873b067687e40e33c93e9edf628ae4e9ad74 * 0x926d1276e41fae13fdda5f78edb7802a76951509 + 1" by (simp only: chain_eval)
  qed (rule c one)+
qed

lemma prime_p256_pow_a_1:
  "run_chain p256_pos p256_neg 2 1 0
    [Mu 0 2,
     Sq 0 4,
     Mu 0 8,
     Sq 0 0x40,
     Sq 0 0x1000,
     Mu 0 0x2000,
     Sq 0 0x4000000,
     Mu 0 0x8000000,
     Sq 0 0x40000000000000,
     Mu 0 0x80000000000000,
     Sq 0 0x4000000000000000000000000000,
     Mu 0 0x8000000000000000000000000000,
     Sq 0 0x40000000000000000000000000000000000000000000000000000000,
     Mu 0 0x80000000000000000000000000000000000000000000000000000000,
     Sq 0x400000003fffffffffffffffbfffffffbfffffffbfffffff 0xbfffffff40000001800000008000000040000000bfffffffbfffffffbfffffff,
     Mu 1 0x7fffffff800000020000000100000000800000007fffffff7fffffff7fffffff,
     Sq 0x3fffffffc0000001c000000100000002c00000058000000500000000bffffff9 0xbffffff3bffffffdfffffff900000000c000000c0000000640000001bffffffa,
     Mu 1 0x7fffffe87ffffffafffffff200000001800000170000000c800000037ffffff5,
     Sq 0x3fffffe8c000020bc0000300000003a0c00000fcfffff9fbfffff39b3ffff2f1 0x3ffffc66c000106040000c8180001121c0000c697ffff8f53ffff34e3ffff36a,
     Sq 0xffffe33700cf9a10f9724f1c03c5e05e1c3894133fb5395e5a07db3a3deab4b 0x9db5c6a40739d31937ff415f77e319378d5f37c1d54dbb99f6e00800a47d132f,
     Sq 0x612876b81019bfafd41f3fa2f69a7dd0eb59ce74f459cb55449eb2e039f2d4cf 0xe831fe832ba79ce80fa0985644a50618aac7023049a7a98b65c220902f48d770,
     Mu 1 0xd063fd07574f39cf1f4130ac894a0c31558e045f934f5316cb8441205e91aee1,
     Sq 0xa9a2a23a45486a396101626d322aa8e52f35ddc0ff046239a1a38d7e8953162a 0xd8d04dc9a7cee672ed1c72d66f6ead8c6c79d49c405c9891d4d71357abb7eb,
     Sq 0xb7a02cc38220efa69ce8ade4a8cc57fc551f8a28bf1d214646d8f792783a 0xda851d2b0fcfe8bebd5b6f61ba1988d0b5e3d8b445cf47a684ee77ebe9a649f3,
     Sq 0xba86fae563864a24c53d370e746a8db288ea2e992f43f9fe690cb24733539916 0xf7fdfde9a90f484e6a1eea304b1bc62553714d5f80b1c535e62c7f0985d415bf,
     Mu 1 0xeffbfbd4521e909bd43dd46096378c4aa6e29abe01638a6bcc58fe130ba82b7f,
     Sq 0xe0f8783f1c609b50cfce736f505a4fb4a0460ffb6166998e5e0b893611a0942c 0x68a62970084e6a7ec3edec680804b410c1180d1714efb7351f29e44619b47d2d,
     Sq 0x2ac76d84f586fd6e4955c0e714f0a6417fd82621437b1ef431e726b03838a696 0xae9f3fd923dbdfaee50028bce2d140728b9cac1c996e2cb2c09282ff46b5a07f,
     Sq 0x771cdddc0382e4e12ed1dbd123e33630f6d66a4e41695d7b67977db5dfb95770 0x1b255669faeb1222b113030bcb41cf9892d2b8395891905f60d20b59abee5671,
     Sq 0x2e0e5ac759c63e8bd10d713bc34a2acf446f4ccb57d8d86e5baf4dcc88e4f01 0xaf750f5e9113f2ec92c36123f1c87ae7dc91b65cee347d6ef1bd0ace95da6ce2,
     Sq 0x7841408acff75ad507f1195cc825a1af98964940feddc34225ac071438cdd25d 0xcd0fc93d7d9a4ebcf8e67c063e676da531739656745b596b0320e7e8ec0549e1,
     Mu 1 0x9a1f927bfb349d78f1ccf80c7ccedb4a62e72cabe8b6b2d60641cfd1d80a93c3,
     Sq 0x5cca002254ddcae8fcf6727b6b54174328e30ec935c90cfa5685044a606300dc 0x9da7a0baaa4e852541fdfd622b9e6468d0774137ad9c7eae16177c7950e88765,
     Sq 0x611708e86e6f67a788ba6e765f4867169e244f577c02e2f1305c14cdd65e4380 0xa26804a6f12f204d664f2a25d893e6be73e911bc56b49d29b90e121ca509f159,
     Sq 0x6707d02778010fba6ab2a44edaa8a409af2457e494bd96a8297f806159894f0d 0xf5304ca26307271d18269e8b0c8f66e1dee6041380e857d1bbea158ef53fffe,
     Mu 0 0x1ea609944c60e4e3a304d3d16191ecdc3bdcc082701d0afa377d42b1dea7fffc,
     Sq 0x3ab55ef3240dc8496ec67bb9fb9511d327736abd6c289e811b5d456fab5887d 0x8da0ca7749d7f35fa38260203d856ee9707e54e9f6ba048a9bc38d080575888d,
     Sq 0x4e5a84056aef2c2b3662b8ec77b162bcef0938bb35b7e4c6f9071300c2f6e5b5 0x152a425ee71f012195e1b63638830ae1cc95ebe30c1dff778db6bb1c5eaf035e,
     Sq 0x1bff5dd6c03f493d3e352696d4618a7035f045a6b1ddb40c59ba8e5337925a1 0x81e84cb5ac50c2c550bab3403e976352ea458cf1833a20aba37cb793d6087c25,
     Mu 1 0x3d0996c58a18589a17566807d2ec6a5d48b19e20674415746f96f27ac10f84b]
   = Some (0x3d0996c58a18589a17566807d2ec6a5d48b19e20674415746f96f27ac10f84b, 0x6fe4849)"
  by (simp only: chain_eval)

lemma prime_p256_pow_a_2:
  "run_chain p256_pos p256_neg 2 0x3d0996c58a18589a17566807d2ec6a5d48b19e20674415746f96f27ac10f84b 0x6fe4849
    [Sq 0xe8d9236250cf8681c3f6a310be10d77f9d00729be663af10584dc23a2c029 0x67fc5f6cda175f6ec2093cd99836db3edfebe37960dead5d8f0f047ae5d42622,
     Mu 0 0xcff8bed9b42ebedd841279b3306db67dbfd7c6f2c1bd5abb1e1e08f5cba84c44,
     Sq 0xa8f436570e6cca2ac7a080f5484e47a6d6a1509b7c6cfd5fb87c05bbea4e54b5 0xa94ec384e8cacca6582cad3ea5c7a65bd86fcddf33fbaec37f56977bf246c6c5,
     Mu 1 0x529d870ad195994bb0595a7d4b8f4cb7b0df9bbd67f75d86fead2ef7e48d8d8b,
     Sq 0x1aa94b71f36e9ca52f884665e67419150edf750a31b36b806c9ebbed0102751a 0x750d7bc2f3298694b2adce2289dec61e337ea829b8266963428e448bd262de93,
     Sq 0x358553d6356ae530ef8d4eb9bcc2da8431a39604ec498de05fca29678c682f51 0x54a180f681c0bf53acc9fd9258eb0e580f3d983958ed3e27c1605061e27777ba,
     Sq 0x1bfa6285582783a32c583922c30934781ea951eaba78e4b69b8208c016a8cb16 0x6e6740d24d28e5deb3bb58a576b5482df4e70212160c67aecb62ad905933e3a,
     Sq 0x2f9ce55a238ff52570e6ccc7fc4f5f84252f02bee8759948cc97fe6382462b 0x8ea6bb265a8d86bd7a9ea9690192b81cb760c45f8908d2c7776e33712d3e6b4f,
     Mu 1 0x1d4d764db51b0d79f53d52d2032570396ec188be1211a58eeedc66e25a7cd69f,
     Sq 0x35aa43dffcd721d1c3206e2dfe671031b6300d4cb77975f54d17d1907579126 0xb68470a70dcbb209aab108a8bb9adefabfeaff44d66173a33987259d714dc7e7,
     Mu 1 0x6d08e14f1b976412556211517735bdf57fd5fe88acc2e746730e4b3ae29b8fcf,
     Sq 0x2e70902c672d5bcc3ee8ea8a7410670d877ccdfe3d63498280285a62a7163f64 0x65f673a7383c77aa630b2c339d54fa73188fdd1a3ddd9b40d223d69f988928c5,
     Mu 0 0xcbece74e7078ef54c61658673aa9f4e6311fba347bbb3681a447ad3f3112518a,
     Sq 0xa2719212526f639e61795aa33a1c7dc96f9bbb7b2a0959fa021a463cf59ae712 0x78903fa927d7f3815a048848cc62ba4ca592f40499ace79bff46f0af5afb8576,
     Mu 0 0xf1207f524fafe702b409109198c574994b25e8093359cf37fe8de15eb5f70aec,
     Sq 0xe31e33d9f10e164d9248abb78cc93cb7b68003a407b3d352fa0d93e272f5cc10 0x3067cc6aa5ee8771839d097cc3b0939083d38b1d556e776fb5fbb50a3ed515a0,
     Mu 0 0x60cf98d54bdd0ee3073a12f98761272107a7163aaadceedf6bf76a147daa2b40,
     Sq 0x249c5af8a1b0d16eaba95896974a571fc256dbadffdda7e699103b0202ba7ad4 0x4daa7fefc2c03b6d16b053a5a603f5c0b796a2ebad4bb9a25aa79c5bfb090ad4,
     Mu 0 0x9b54ffdf858076da2d60a74b4c07eb816f2d45d75a977344b54f38b7f61215a8,
     Sq 0x5e400a11f458456b906d7fd3f3bdd7b1dd07ff6532276f1e908814ddefb80b09 0x2d8d92cac6406473fd3af8fdba870b988dea6ca30778520122134df3dd2d0949,
     Mu 0 0x5b1b25958c80c8e7fa75f1fb750e17311bd4d9460ef0a40244269be7ba5a1292,
     Sq 0x206c4f9965601392a70c7bd9f6c43c74b672c84c8fa6c9a4b45e067d42fd8e9e 0x80d942127c42f1836190cb46437e3863e36207796d57bdf2b06758a67afe69e2,
     Mu 1 0x1b28425f885e305c321968c86fc70c7c6c40ef1daaf7be560ceb14cf5fcd3c5,
     Sq 0x2e18454f8b565ee94b089f06d27ab3913ac110dba4c8284d5e1679113b6b1 0xa75de9dfe7099d341d9a7e5cef277c2be5c7f68bae077df7ad33ef683e1a0c4a,
     Mu 1 0x4ebbd3c0ce133a673b34fcb9de4ef857cb8fed165c0efbef5a67ded07c341895,
     Sq 0x1836fed8a09f2b70384dafe416b5e7792cc3b2bbbb818c1ab8ff15645f9198b8 0x4cb438ee4bb760840cb76bc41cf1b0ec34ff4ca33a4e74b9b071f5eeb675df71,
     Mu 0 0x996871dc976ec108196ed78839e361d869fe9946749ce97360e3ebdd6cebbee2,
     Sq 0x5bee02b6becfeb334e35d42e1693460bd9e2d0317d859936a10597814a4d2630 0xea196557a400f40e42f802ca17741d7f4c814aee23eabafeb3a3d7dbfb8d65b4,
     Mu 1 0xd432cab04801e81b85f005942ee83afe990295db47d575fd6747afb7f71acb69,
     Sq 0xafe429c8747e1dfa1e5b76fb5645c7f0e3914dd1f8c1ff7608817f6440071f8b 0xfab19d77bf79d43a3a691ff1e356adc92faba4d95dfaf9533ac94d4d0fad09c,
     Mu 0 0x1f5633aef7ef3a87474d23fe3c6ad5b925f5749b2bbf5f2a675929a9a1f5a138,
     Sq 0x3d5fd8b27dfb0d284d742a0292dd44dcf21d4451f150808eca90b17e16c4ada 0xcd69b384e97b3efd9a0a521ff0c8d5dcd3e0245c71f389360002b77e4c23c71a,
     Mu 1 0x9ad3670ad2f67dfa3414a43fe191abb9a7c048b7e3e7126c00056efc98478e35,
     Sq 0x5da3068c68c50ea83eb73938f8b7c05867974a357d56c2e5496e25a77b1e12d5 0xae67ab37e38e17d14eaa529288c38526625f3923315832827d2ab6de9b82e9ce,
     Mu 1 0x5ccf5670c71c2fa19d54a52511870a4cc4be724562b06504fa556dbd3705d39d,
     Sq 0x21a5ae0e1853e754eaa69722c8b440dddfd95a5f3ab89dac68103a3f6e684a56 0x3e2a60f0bf812b83bf69171c117ec0a1c272c6de55e9b476d2f3e320d776789f,
     Mu 0 0x7c54c1e17f0257077ed22e3822fd814384e58dbcabd368eda5e7c641aeecf13e,
     Sq 0x3c6237e27e3d9ddca9fbd773a329462c6a1460de698e0c330fcdccd8ee74313e 0x26c77d4fd19faa14fd9a1f23442a25f66e02beb5600be3052ab72992e419fc42,
     Mu 0 0x4d8efa9fa33f5429fb343e4688544becdc057d6ac017c60a556e5325c833f884,
     Sq 0x177f529f1e28b3e5877fbc520059d8405b66986f4c09161f84083cbddd466d51 0x2bb93a6b39ed2fc4e9fd41fac1b8dff6adda31f1a2a8c585ec34e9c1131e7161]
   = Some (0x2bb93a6b39ed2fc4e9fd41fac1b8dff6adda31f1a2a8c585ec34e9c1131e7161, 0x1bf921271fffe)"
  by (simp only: chain_eval)

lemma prime_p256_pow_a_3:
  "run_chain p256_pos p256_neg 2 0x2bb93a6b39ed2fc4e9fd41fac1b8dff6adda31f1a2a8c585ec34e9c1131e7161 0x1bf921271fffe
    [Mu 0 0x577274d673da5f89d3fa83f58371bfed5bb463e345518b0bd869d382263ce2c2,
     Sq 0x1ddefe9624efa6a698004784f653cef74bfe3b1c667cd116628015e3ea8e7a43 0xdaf2b9bd0c63988f20e50203d57be0a524f3909b0c4e38efefc50b896599547,
     Mu 0 0x1b5e5737a18c7311e41ca0407aaf7c14a49e72136189c71dfdf8a1712cb32a8e,
     Sq 0x2ed0929e992287874683ea7dd8077651099035d69f8d90ac0bcef3813f8c32b 0xbc3eb5b9e20f484c463af08e0f391f7848b08eff22258ab7b95d30996d9fa9ef,
     Mu 1 0x787d6b74c41e90978c75e11c1e723ef091611dfd444b156f72ba6132db3f53df,
     Sq 0x38b5d22fcdb4d0cabb7d3693390f035a03875e5815b968be173c9727cbd6f245 0x68999f5977b2d9eaf002cd42e528efb3561dfcd7e5234d18f159c16db9134e86,
     Mu 0 0xd1333eb2ef65b3d5e0059a85ca51df66ac3bf9afca469a31e2b382db72269d0c,
     Sq 0xaaf4b6a2e07f51d220f3bfd842226e5fec2c3028c390ee38d456db9069bd75a4 0xf1766e333ed1e471b4e544b5be35406f9f53b425752ce8255b9627ca19a52e34,
     Mu 1 0xe2ecdc677da3c8e269ca896b7c6a80df3ea76849ea59d04ab72c4f94334a5c69,
     Sq 0xc927104e9f8deebfd35dad7c201990a2a0952de42fadbbc0c3a2994d07c8b63a 0x1e8e26d3a345f6e962d9302e7bcb8ffd5e174ca836da8795e304f7206bd8594b,
     Mu 0 0x3d1c4da7468bedd2c5b2605cf7971ffabc2e99506db50f2bc609ee40d7b0b296,
     Sq 0xe968022da5aabd28f285317b7c3a7ca49a505710726de5a367b60156a7e3185 0xd3a75174209390959842050def218470cac8359a617d90e3e729d90369532169,
     Mu 1 0xa74ea2e94127212a30840a1bde4308e195906b33c2fb21c7ce53b206d2a642d3,
     Sq 0x6d57b0b46e287cce719b4ac681591d427217198dc159ed91cc47519aa9dd96e5 0x5407f0c5b5f2cfffdf118ad4cbfa2b46eea8ead3da0fe0147727111b90f310ce,
     Mu 0 0xa80fe18b6be59fffbe2315a997f4568ddd51d5a7b41fc028ee4e223721e6219c,
     Sq 0x6e54d903a0ff3f839845c8b4ab3fd9406006ccb8f5ce363febf5b7279b532af0 0x8e6da60505ca07c6c5e790e83e5026faea31abdba51df69b2d52bbba3c0cc200,
     Mu 1 0x1cdb4c0b0b940f8c8bcf21d07ca04df5d46357b64a3bed365aa5777478198401,
     Sq 0x340b47d9f457690dd8c1debc396de8a73ce680253a1f32218eb681432a4db61 0x7b676cc0d6f52fb8e3ab934022e404af4022d693c197bbe7be65e5482ee7e362,
     Mu 0 0xf6ced981adea5f71c757268045c8095e8045ad27832f77cf7ccbca905dcfc6c4,
     Sq 0xedf23128edb1a05058216d96f318aaaac69af79a702fca346faabfb2889fae10 0xcabaab0961fc2bb4fc41b386d3b9ccc97155b41fa113a8b51c504b3ffbeb7420,
     Mu 1 0x95755613c3f85768f883670da7739992e2ab683e4227516a38a0967ff7d6e841,
     Sq 0x5741cbfb24634bec6bf964a3ef8e633a09a79ca95c59398131bb73bf843351e2 0x26cc3fed856a3533e26ef7c95f096896a0a030e355f6b9fba25278d411953263,
     Mu 0 0x4d987fdb0ad46a67c4ddef92be12d12d414061c6abed73f744a4f1a8232a64c6,
     Sq 0x178517c1f000cc2ce999498549168291ec7d66bc6b6c6d2cffa77f7a2fdc961c 0x51d406120224ca9bda1ccf2398ff9e8efbadeabb4e9a5bbf4b8d2ded8c7fdf40,
     Mu 0 0xa3a80c2404499537b4399e4731ff3d1df75bd5769d34b77e971a5bdb18ffbe80,
     Sq 0x689f6dc635ee27d6b0ae379f2748610b547e373789cf445704773f4b8de00529 0x15272735e00a0d1df4bd5a4fc5fdc9c1a8846c1a6cde104e4fe721809ea24529,
     Mu 0 0x2a4e4e6bc0141a3be97ab49f8bfb93835108d834d9bc209c9fce43013d448a52,
     Sq 0x6fdc9af43b344f142bc9e96571a2d944c42aaa2e146c4d80a579aa398357730 0x10e6f3d76d3a2d82efd817f96762bee30603ca2c4d773cfbebe9578c7281f974,
     Mu 0 0x21cde7aeda745b05dfb02ff2cec57dc60c0794589aee79f7d7d2af18e503f2e8,
     Sq 0x476bb57f87f9ed4ebf7459b00570f36cebc0d62fdfa64f5b563cfa7e5797d9e 0xb0236aeab357cd2637f50f33b8129db4d35f5ce2fbdfd8a90dba9bca8d64efde,
     Mu 1 0x6046d5d666af9a4b6fea1e6770253b69a6beb9c4f7bfb1521b7537951ac9dfbd,
     Sq 0x243533fa95178a2b739b06ca32841e485c54957cb7b6759a06130cd4aad20d1d 0x288250328631884da9ac0b431a05b5d00fa18cb7e8759ec156c4557a2926dea6,
     Sq 0x668fb655cc85e23b12725a74ed30017e293e28ee1778bbd30ae4def0883642b 0x6b8d01bc587fbdc4fb818851e9bbc20f8b289dcb5fe3a4c4b662395f0f6fb7cf,
     Sq 0x2d2f2d1e88a675bb2a64f2bef1b4d16038bc344f4d8a7625d6cc71c4c91d7448 0x11a151146892cc5a217a735213e259af1ad3e776d2cd462d1afb53b1f4990da9,
     Mu 0 0x2342a228d12598b442f4e6a427c4b35e35a7ceeda59a8c5a35f6a763e9321b52,
     Sq 0x4db49af31cf1808d01791a022c26384b292cb5baac86ed3a828b10d3d33ea8f 0xe7258e0e9a60ed59e160a79cb535d3016bcb9e658293c155ae930e03302650d3,
     Sq 0xd0b4cbe18a5c8c565161c300ec7dc633638bb37d8802fc7a885f847880d8e264 0x20436c1c87629535fb148ee68b5e3cad31b999ebd38689c6897ce175b901704d,
     Sq 0x410ecc8ea808519928577cadfb70952c6b45ab6237f1781910582d640fcb567 0x2ddef333daa9daaec018c0f28831e06a666b91a68b26218bee0897899cda2c90,
     Sq 0x83823aaf81294c2f612eb4f836144e3cc5877b493ffc2cbaaf55c9c09023aac 0x89027dd50baf00a86dc9db404d779289540ca8e0751c60acd6258efb76040bac,
     Sq 0x4953aab48502e6d9dc371525c8d8e54a71681a0814b4d723288b627a8b853f50 0x4bc2ba664ac8a1fda28412f1a0536e1b7622163e866054df378cd095796d7ae0]
   = Some (0x4bc2ba664ac8a1fda28412f1a0536e1b7622163e866054df378cd095796d7ae0, 0xdfc90938ffffffff20)"
  by (simp only: chain_eval)

lemma prime_p256_pow_a_4:
  "run_chain p256_pos p256_neg 2 0x4bc2ba664ac8a1fda28412f1a0536e1b7622163e866054df378cd095796d7ae0 0xdfc90938ffffffff20
    [Sq 0x166bad5710ff61e25555a8fb2007a89acc4c313eb4edcf1be621bada179c95b0 0x52bfb5e8cc2dd3aeeec3c68c5b3e93b0a1d299fbc9e9f87f05d77093b556d9b0,
     Sq 0x1abf601a30306c8388acdc02090ccf4b90c17aa5477adbcf3b1e631b323b655d 0xcf111c7a06b001081dd480fa9a93a2f616dcff12a7d68b7816a50850d973e5d,
     Sq 0xa77cad32c9ad1dde45a98aca9a9181783484dd3633d00fcf29ec5e0cc4232b 0x82acb6e94ec2f0af79710b90448386c4217ca386d121a4c4d5078eb01fab50f4,
     Mu 1 0x5596dd39d85e15df2e2172089070d8842f9470ca2434989aa0f1d603f56a1e9,
     Sq 0x1c9d87d085427d3cc15934dc876f2df985fd8f30ac1b322d71104f072568e9 0x46de8bc59cb74712a7c1db87ec5608b5500235cd5077b64dcc130a10e4184efa,
     Mu 0 0x8dbd178b396e8e254f83b70fd8ac116aa0046b9aa0ef6c9b98261421c8309df4,
     Sq 0x4e79d79b717abd77682ae1d8d117a8235e93df38a38acb229be20bc24b232421 0x3f6d7cf11bdddd6e265ae42aa70ba69a0c6f6c431a9e66581214e4b3281854b1,
     Sq 0xfb712525dba76517df6f53bfabe27a4d6173f0111be87cef0f1dff48f7fad89 0x93d61b4fa3e848efdd0e4359a270823d9b749e573e631a017fc33441dcb44fea,
     Mu 1 0x27ac36a047d091deba1c86b344e1047b36e93cad7cc63402ff866883b9689fd5,
     Sq 0x625ec7e4f0ffbd9ff4e7e7ee4e3f33371eecbca31622dba18fef6685ffb34ce 0xf5b656d095544b9342f50241ed3c914c60fdcdb52d5f076c0b33fc2a7ad57c07,
     Mu 1 0xeb6cada22aa8972585ea0483da792298c1fb9b695abe0ed81667f854f5aaf80f,
     Sq 0xd880b4eb896acd0afd327cf826d82dea4683e2e03f4099ffebd3fd69c3707744 0xe5300fbc69c7f442e3cdd6cebc819291a88a5542a4a4a1b38076883cddb98825,
     Sq 0xcd2f052dca0e0a393986f00717abb84da826b670a294021d815944f3cc88eb86 0xedce86dcc2cae69435f9bc73803d679433c2f44a7059917d31e41d1bc6a40df,
     Mu 0 0x1db9d0db98595cd286bf378e7007acf286785e894e0b322fa63c83a378d481be,
     Sq 0x373a0314bbfa4505d7f3fa8947c8847d4cc2f6147a67098da70af8fa7de32ca 0x769e420a2536b0029228351c5ef8f3e9210cfd858fb53e48a7ee458cec4f3bce,
     Mu 0 0xed3c84144a6d600524506a38bdf1e7d24219fb0b1f6a7c914fdc8b19d89e779c,
     Sq 0xdbd91adc9b4f7046c8dbf8478355da99da610c2b351086b73222d96a93459f71 0xf82afe59dcbd226a17e39679a78410eb1b1bd94f455657772a6569d1afb80681,
     Mu 1 0xf055fcb4b97a44d32fc72cf34f0821d63637b29d8aacaeee54cad3a35f700d03,
     Sq 0xe1a156b586de0fb064e26871233495c01d891a5cb46689c52c2db6baf9d3607b 0x89658c8fd4ae5f25117d4ce77aa9eaa4e3de3d4015e1ac4d0ea19540971cae84,
     Mu 1 0x12cb1920a95cbe4922fa99cef553d549c7bc7a7f2bc3589a1d432a812e395d09,
     Sq 0x16130a9757639c06963301b8f875af83e86a2ae6372745dbac2e56604562465 0xb9f52f977d9828c1bbeb9a73642a5352f2b34e4fbd4868a6e82846c1d027aeb6,
     Sq 0x8714499d9b6993865ed6a9e2fbc6e8a84d4ff785cbad04f262809130084a7880 0x7f075991235387d7dbccfcb1e1b844e9f1202cb478df029c140209aa7afa61e4,
     Mu 0 0xfe0eb32246a70fafb799f963c37089d3e2405968f1be053828041354f5f4c3c8,
     Sq 0xfc212c51156d5d1af8a97f8aca40657526d2efb6418ec2b4394e8e5917296754 0xb6e5ca222b5cbbe6e9cfefc07b46df3b74a8a7b5c2241fbd818d225bb223b394,
     Mu 1 0x6dcb944556b977ccd39fdf80f68dbe76e9514f6a84483f7b031a44b764476729,
     Sq 0x2f16fe27b6c8b75e42a0090dbf37fb21e211fe64465a1bf7c72aadefef398b02 0x38b7c3100eaf5a66e424a2438f0f65ffa94325c66ad966f025a9cf1059898f93,
     Sq 0xc90e93f889416e0b969136b0955e32aeb6bc500b898e19a43efbb4eca007b6b 0xad4173d8c8cb81a6ff924d029af86a182b7561942118a63218b8576dfbdc09d4,
     Mu 1 0x5a82e7b29197034cff249a0535f0d43056eac32742314c643170aedbf7b813a9,
     Sq 0x20004dd9d16e18d87fc89ecfc0559323517a90f49941a003315c5d6608cee940 0xd7a08fae50c50800acad23ab595e151c9b006545c42c4e63169c76d86b416ed1,
     Mu 1 0xaf411f5da18a1000595a4756b2bc2a393600ca8a88589cc62d38edb0d682dda3,
     Sq 0x77fa19736c38b2cdc2b40f359382243247053ab36fec2a97f2138a7a4ac577ee 0x43707b63f214b59cc846323c371f07333656bb2b56026d3e2d73260ca8344db7,
     Sq 0x11c412029567ecd6851c1f4b0fca7813bfbd7a010bb5bbf9b580fee4ea50ea0c 0xc8b62c05f013b16de9a586bf8ee12e5ef0af00e23e7b7d98694cbcc44082dd,
     Sq 0x9d5d266c847f5251f364aa9a44adad0471f2e873818f7e0e4c2498b9f58d 0xad2671ab5b4d61991792e44c536a93e6c8d524115725e36a6a3e9160b21f2856,
     Sq 0x751cfb67ffdb6596d8279675a58b5c1a4245324b31dbcae566073be757992fa6 0x2a8bedbda0503b4e4772625bd4761817b201f822e2f478e986ae4049bac82c8a,
     Mu 0 0x5517db7b40a0769c8ee4c4b7a8ec302f6403f045c5e8f1d30d5c809375905914,
     Sq 0x1c48d9f92185217c01b4560fa9dd5e4f4c73e6ba285e4227d38c5ed1095986e5 0x5c6ba821c59f61509f79c96081602a6f2fe140409cc9b46c74c3ee99a6d87075,
     Mu 0 0xb8d750438b3ec2a13ef392c102c054de5fc28081399368d8e987dd334db0e0ea,
     Sq 0x85763879883e9c85205a229eafe9da398333c46093e6d31ee5191acf7f4f469e 0x853270f6f371950f3564aec5dc74fbbef44b5565486066180469d8e4aa99c82,
     Mu 0 0x10a64e1ede6e32a1e6ac95d8bb8e9f77de896aaca90c0cc3008d3b1c95533904,
     Sq 0x11535cd44c2464f346ba0d2f12ad13471a3a4410645dcc4a8303294de4b3f3e 0x6e2de1e253b630ab90fb6c14c9913e3f79353ced1be9c68ed42e7ee18b96074e]
   = Some (0x6e2de1e253b630ab90fb6c14c9913e3f79353ced1be9c68ed42e7ee18b96074e, 0x1bf921271fffffffe406ded8e)"
  by (simp only: chain_eval)

lemma prime_p256_pow_c_1:
  "run_chain p256_pos p256_neg 0x6e2de1e253b630ab90fb6c14c9913e3f79353ced1be9c68ed42e7ee18b96074e 1 0
    [Mu 0 0x6e2de1e253b630ab90fb6c14c9913e3f79353ced1be9c68ed42e7ee18b96074e,
     Sq 0x2f6b7657e03d15766855d162d1bdc06c7e8890002f3275d2fcbada906a78c38f 0xcddc511f363c3bb8116b46458a69d7a0274a503b440caa7d25c8bd87ae161f53,
     Sq 0xa58a978829c10ad340589b2f0bcdc85a2a8151ab47c48abb8f47d046a6ff34fc 0xf79fde8fbf89aae855a0596c22b0b85f5bcd6d8f9b65645e3aef7c4ee11869e5,
     Sq 0xef85e3508b2f19088d059a9693e05f77a932fb61213d936da095c7a018306358 0xb9fff8a3207a46dfb0d53346f1588a3844976383743c1d88b58e13a4a8ee0a31,
     Mu 0x500d52f38701cf683bf0692edc452fe1fd772d14e4a85dc5fcc67f8fa13c331f 0x2424054e17717adb6c1cdaedeb038be8a41730d82100f79025d74a6d2fc0a50d,
     Sq 0x51a268f79c4cdc472e23335965bb1e0f2a45268eb22d8bd8b12855b2f6333d7 0x879bb72ae39322e9f2c313257d2b5fb5164c8c9c6532d0d59b48e3fff34cf680,
     Sq 0x47d599e6d4d8b57164d90447d8c13bd2833321b7d7f521b6535896987e9fb5e3 0xdc4c84ad702a12f7d6776a29a083b34a51ee48870c3f49e1130ddcb2c7f9f5e3,
     Sq 0xbd939ae9e219d5aa8ddcdfc5599fc46b5abe89e87e243ac22bd3b6a1df833417 0xe8bd22ca9a7a6b714b7cd405ae19ceb3a1a52f229197183b29505ea509457b60,
     Mu 0x642afb8e8ed07add914b8a281905217eea7aa264be2b19d629fb7425b19eb7de 0xcca2c3e3e84998a223ab8395c3faa652766f97b865db3ffe07d5a5c2d569ef1e,
     Sq 0xa393cfb0602016dd366bf1a6e4f1089e58763a3ec46ce9c4b1e6859aaca977a5 0x4946130ffc61cddf804f4e56aec674a27bb4d0ae18dfd60af2870ed09e9e7f29,
     Sq 0x14f90a0da1123769aa569352ccd040035a2c19d7f36ac863b455aa1ee9508f8a 0x995ff5dd604f3f3d47db2b4b08b5583a68e2a6c39a99b286cf52cfd6bb16441b,
     Sq 0x5be3d7db5f71860a4f06ffe6604b03e7b2bb28f3d82262d711fb991ddf3ae954 0x208e0f34995d95423846c2f121518fc58acca72d9f480e2db15ea9b117fd442d,
     Mu 0xe02e03af793ed28907c9772fe390fb2c0a439ef5329d838c50e087fd2ea1b9d 0xdc738799e5a80a6e1026d7c1de48f0f1108146a39029b6fb3d91381470501c53,
     Sq 0xbdd6c5345ca798d5b558b6eb46b00979f0fc474bd2d4ca9cc61eb59a43438479 0x46eb558697c152de4da7a455b7f55d96a915e0ebbbbeb4633453a46c9a45c762,
     Mu 0x1e85d4b18581250078367f58c5c723f2e13e0ba387242990561641202e5c3a0c 0x4a77d791d7232e39b7d138dd4a507a02a39eea337e8ac6e6cb8a13b6217ea7e8,
     Sq 0x15a980ba8526249b49b5e9e1d8a9fbeeaf07d77e9e94f02e4fa449e8dc0fb7f7 0xc756eca9e9297003f1c395e1dc4812cbe6855c9d3b050a71b7295dbc62903a37,
     Sq 0x9b384174a0a90c1b7d8eeca6c60f2ba07b13f3c45baf9f63a3c1e7bc800609d0 0xebfd0a4a0d0ec47f95aea735206a9322caa0d096c1497f9c9f741c58272301a1,
     Mu 0x659106210ecad21a7430b159789f9b596358aa982ea45df2570d80850a505237 0xa2af4fd7330a952d6c745ae4208e4c44776cb1ad8856c122d19b29594b5c3845,
     Sq 0x6762591b051a0cc75d1b10e56853d4143983188bf20e93e5da37c6d83596b773 0x2e5da62d398e98793b7975551b28cddff9d6cd02079d1f0fae1a2b03218cfa0c,
     Mu 0x13f48cc70586c0246a1dd91c5f86914fe360693a30ca3ff74265ecdd5c69498c 0xacead5859071a32c4d5df713641d54fa2b7e5fb53c437683aabafea7773bcd34,
     Sq 0x74cc6656f928b164da6b4da1ac2d7fe5737ec8fca63fe7a3cd8ec45981faaeba 0x8e8005e3af3431299cbf16c138022892c11d33650add48727fe054f0146f014a,
     Sq 0x4f52468ec98210a20613bc2eb057dd1399a1baf60b5291ca5d8fa8ba2e1d60c6 0x277d7da423ce6211a92a99f593266875ff1d881a545abcb35ac2bcfdc4b0a2a,
     Mu 0x10feffe3e35bf2242f98876d642ecc8b2b5924d3349c891e3bb645ac3b6e6c8 0x915341fb411034e524984ea48a0dfeeef468d1d04acd46efa44bda1cb2772594,
     Sq 0x527f6bd2cc2185e33ad9afb7f08f1d6648c5006a2c9237bcf8c195f83f412a08 0x89111d07d11cd7e2efead86c984b6ad8d2397c8a99ed6f350ff3c60e045d4798,
     Sq 0x496352378588bcba705ff7dcb39586dd8ac94d78118099b45d451798f0895fb5 0x176c1613fbbbc6718d1d70a477c9310966b694db3ffef5a2dcdb1872c8ff09f5,
     Sq 0x224999a3c242e85acaea9fa39006d927830f37cc99e8503a3b5b0115d29e71a 0x4c8f69c5f11fdeb89dba5979b3d8093bea95b215cdd207b737b5fbe903a30b93,
     Sq 0x16e57724f4e7bdd670c660d69e4524f7341d31b7e97537edde6c8f9408ee5a5e 0xaf2a25f3e42207674cc8996c83fc4f93d556da72c14fc2d8bdd51d4738a650c7,
     Mu 0x4b638146ab216ad3b844f952aafe14b010c78c137d5d92d1d6beb38c6f4f5e59 0xae09b3f24bc8108c473d4b812170461c7804d36bf7583a754aa902029fcb6bfb,
     Sq 0x765130fbfadb36d88310a5b1d636ccbc7a4754ed011519944e505b9ad12f1e75 0xd0b7aaac9dfa38d28c33f25f099ddadf9c4fce0e0060288a0c52494d08cce68e,
     Sq 0xaa2af91e9f7527665353e5cd52e1417adb86173943108ae5a2cc90f348300b37 0xbea97a7bf5cfa9402817ae32191605f7a26d5056f5af5b11ccd1b0c86a2381fb,
     Sq 0x8e00020381252fbbb4422fd399abe2cf63778d2c568bcb5772d0c71fbfa5949e 0x37a736700bee4f9b82ffbd9c48bc23aeb938141d5b4f94a68cdc6be0684680b7,
     Mu 0x17f3d2e3f96fad7f5c678fd66bacc69400f8bafe1200c1209f5bbd7184399d42 0x84408e080654661d5b71a4010d773258e91e0775ef1b23c6a5c652b4ff73d604,
     Sq 0x4452a2bfdda9bd86f509089e831d1c1d92a9caf836e5837139f4a244a107e3f4 0x4f94b3786b8db5a18c1040363dc69878b40e98cd0370964fdf0c20aa938a9404,
     Sq 0x18bd1d246c2c8e2538b561052e50956ceaf7739cddc847389a7fa979d53ab868 0xbc835037487eaa230f7bdc9923697913f8b312002f78ab1860f5afca571f5878,
     Sq 0x8ad1212cef01f5f1681b1ca6df3a4dcce248e17cccf23d3aaef70ab48b8a26b3 0x6401bde0057f26765f42d8aa5a458b229c51409eb6dbab1e7ab90a0ca72cdef3,
     Mu 0x2b0aac22bfe7876cc81b7ba26f4859284088643818e8606d97209002a3d8208d 0x12e5b1dbcbc8b52ed76225e1685307004a8e000cd5cc98d51cccd75b60feb397,
     Sq 0x1651b1a98d9962b29b44eaa261b02826cd77a1c053d5b11886d107b6cb398fc 0x1bb12710fbb9dc04fc59ecf8b0e1c76c186b78514d046f18b49063ef8a541c0d,
     Mu 0xbeb155c64d9c0aeccb9a1849b6499e443046585adac5768818a0306382dc7a2 0x1ad84f481a0014d03f7e84224e99a64d240058618d72ebe8decbc8bb2930ae98,
     Sq 0x2d0a6e08a521f98a35a919c2632b10cd558e6f4b81046bcb41090e67349ee17 0x5dbff9ac4b35894c09b7c765bbc5085378d59af341e085727dadc425135ce857,
     Mu 0x28594abfb086529cf9aab587014aed5c45b157fc8c39d57ae31304573501c745 0x7724127d6951a3970ec0b2c8a78eee01425470f049fcd69788439c3905a4f2c7]
   = Some (0x7724127d6951a3970ec0b2c8a78eee01425470f049fcd69788439c3905a4f2c7, 0x926d127)"
  by (simp only: chain_eval)

lemma prime_p256_pow_c_2:
  "run_chain p256_pos p256_neg 0x6e2de1e253b630ab90fb6c14c9913e3f79353ced1be9c68ed42e7ee18b96074e 0x7724127d6951a3970ec0b2c8a78eee01425470f049fcd69788439c3905a4f2c7 0x926d127
    [Sq 0x37728e4603f7f391bec7c386e893bf768923199d26e4fc4c257b97c56f07852e 0x21a4af4fcf0deab03648f938a648283f195da14ec655d8ed351c18272a3c5bdf,
     Sq 0x46bdf23ae1cf5704260b9506a52d1fc49028814378341bbbe01d0147d97c691 0xd53db63e5c30e0595f27298acdde3de32aea1a78beb945c9635f7a66db1812d2,
     Mu 0x5bc6bc4ff3bc67e20a44c94ec92e8f2fcfdc011c623c99b784aab8450e758e4a 0xca7e627504f29ff3d561851fd5a1326f48f39586baacced4ac7d2c7e855b0846,
     Sq 0xa02bb1c65d09424f45f6e1d05211a0459bf4e49968439e3de95059a8df6f2be3 0xac7150bb7cba0894e2f0c1e60c8ca99c9f4919811ce64490e39845887d779f07,
     Mu 0x4a3798c41725f9cfe59c528fae3a8d804ba208a233ffbbfbc636cb9111ccf353 0x36438d9c8dd2a52f131fa8a00314994af7f4bac63fb6251da846652c8cb29875,
     Sq 0xb809191859d7f7afe132f58b2bbbab9c4cea11bfed00fd367c8ce506f67b8fc 0x158273403d49ef2f1fa172df7d6c7e0694a2faffd0b7f4dfeec95be0c4e6de75,
     Sq 0x1cea961ccfdd0e592c403a6b6af9c9a815f6e50e0b37f1415c6ede364f4977f 0xd0b428dad5914bae87d1207e2294b43772e8c19e844c206a431fbd7b087fb8f8,
     Mu 0x59d2d1606b4222564046d4ead6ea5b40f193b71ab51d99e9a93a9829d1e5dbb6 0xa51ab19a5a81de748c16854c8bc97a1f1e1f01bb58d5bf9cc0a4a71ef02eff46,
     Sq 0x6a7b6bb9f1b805158d5a75fef010231990d2773b28ef744f4e364e0887e2703a 0x55ff48c33a45a85f9be186701acf00a2f02abda9e2a0a1d9dd4f9db48396f75e,
     Mu 0x25031b0538cf129bf29e3962e171f375719aafc9016fdb146c267df452cffdea 0x94de782355901fc6ad2c89bba0d4bfdf585e2390e93f1054b3443af086a6ee8e,
     Sq 0x5691fc3dc72a2c09e5340136bf2c71cbf8d856be40b0f3c948fe1d1a9e8b9dfd 0xf883b636ff47b35f0f68c5b7f34caf64ccc74c321b9a1a42fc58edf184fff4c1,
     Mu 0x6af522ba8d0195498314feaf16ae63bc7cd0ffe20a8c2631c4432f087b1270f5 0x80334f77ab904f3f6b597eb98a469e87cec4aee39b3c074652b34cc134d64ac3,
     Sq 0x403359c0ae1d18537094ef63cd60698327e8785de3fd37490940a9767201fe0c 0xb05023910c224ab5413888d39192a77719ac4c6be1b938ae745aed3cbddb4e95,
     Sq 0x796e49fe29b601a5bb17a3e2414b07841d5e96498c5f5d521ae0f8eeefc27369 0x37e823a2e574044019fd1a9abd92a2e09b9dcb74c8d72339febf3eae7ccf9622,
     Sq 0xc3591d0a7034050c7cf371978fcfe104eaee23a76cf25ff903f7ab280850b92 0x7e46d6e51ab6d55c47cbd0aba6fee55319ff7fd0f2cc743382bdcaaf938ce816,
     Mu 0x3659123654cd3cce851f768094dfe00219b8a104a07e894a37574a6c065b370f 0x207db5725ffc0e7944f7a9b0f3f5810f452fe454c62184794aba9eddc48687c3,
     Sq 0x41fab174e6b59afcae85d52939110bdd6b78d888c07a5b3b01280c573ed039e 0x647682e233756a0af1116b35ef90356423bd0ac525f0ecb6aa27e20874104227,
     Sq 0x276ccd1dcb127c56176bdd4b0ed950e37e69561f229c3795725fbcd24dd3eee6 0xe2f8935d905b8ee0c26ec9cd043a2e39a508d47531e110d90b1783dfbcc10d7,
     Sq 0xc93bd58fd639c53411c552ad72bf847275587a0b42519a6b41cff921d20f16 0x3e3fdfe8914536239fee579f8aa891e2ee55616f4e1283a2db43321f9395a3a7,
     Sq 0xf230064adcf070cb9dfdba6263ac123c8503c3e22e240aa2a91465254e1bad7 0xb46526c4e2493976800f1af7fe491a8f52a0b5652617e9e5153b562e07e5d1c8,
     Sq 0x7f1e667cfa8ef7ab7c3b64e626aa7b9a85f200e4d283fea533077f2871dc13b0 0x32a0c030fdc68d4374332c68b78266edcb7aad36c101ac63f4ffa2d25d943ff0,
     Sq 0xa033003faab7d6cd849bf87c3f8948ef6db0505f1eec3d32f811ab1564b1158 0x14cd8cb0c6d84d136bf7d1e13ec443ea6bfe7a98b16aa9f959faccbfb3c31258,
     Mu 0x8f40cf0c662f79c1a8b2a0a63ad70a765062077f63a373760792f7a0a40cc3f 0x7f2a2cbe2d4643ea18cbc4862f6823c46b3657c58d561ccbe2b57e67acc0cb0f,
     Sq 0x3f2adf57a64f5e9f5835de4dadbeca63c511841ab0d24196fc31eeaffa313f7f 0x9454d787a0950c520fc0726aa7d46de3142786f9d51c7a90db01bacf59c20a60,
     Mu 0x3fd70a681e83dc2a93da91bf78a08f3dbc13d12fec1a1958dff08764dcb957f6 0xd9e21da083f8b4c4272f7a9c7dfa4d5f283d38b2701bc0b73b46fbab8612136,
     Sq 0xb9711df32c038611bb34f68191fdde9476ad957111edd93aaf88526f865423 0x6c395732953106aeebae2974e6d14367df7eb60b99c18ff1f5c63623ec14b87,
     Mu 0x2e94090a52395febf217799d838ca5c74ec4ef64ed012b940962bec268efccb 0x930c1a0f4bb0082ec7dd8fa41c29ef9c24db0e39d7d090ce9269b07e1c9eb0ed,
     Sq 0x5476e680597944b03998a1d6e6afed103a6f7fbfbb2f523369a71b0f6becf195 0x71db2f36231edcfbc4dc8595fe697301c368f6dd0284d11542c03d6e22bfacfe,
     Mu 0x310096470dd5601889c34a227617fdb23bfe5138a9515cc336faf8cec2be9954 0x1524a9e613146e82eb1314ad7561ccbd7e37c66b6843b98de9e231cbddb440b8,
     Sq 0x1bf091ffa5754f7cc070240925f3e1075efed4ba9dfc19ff5d658aaf770a43d 0xcbdb791efcd38f64cd0392bdec08032cb0038b4fd77e3999875c2323ba8d287d,
     Mu 0x57bcd78012b096ed515338ab474108aa93d3e25c308e407891f3b94ee97de229 0xaaf06cb1fc86aac9a57feaca9518a476bc83d471519c5d778caa77da34d9a33f,
     Sq 0x72243228d167324d3492e960b0e320705776ddf0adf122a1dcce01b8b7a67a2b 0xe8a1dbdf5dc41f05ebff118bb678ad1a6f09d7cdd3637fedf7d1be5c788dc3ac,
     Mu 0x641f3e31f1e2752fb0e767e0297233db400f54b806688f7bb3a9bccffcbef579 0x9d69874fb5ccca2ccc1bd3d720731083b928ac63e539968d053982c3a31247e1,
     Sq 0x60ca9b786cb0180089ba4dd34398f951c2d2ab6dca3a3ce4be0157faf4139ac0 0x38942b114fc94eeed19bd538272381038b58ee128713b2d1f0eda597a9e62e81,
     Sq 0xc81289972ac4dde782041e2c08da6f0fb2f9bf6b4210c7442064ecf612104cb 0x16192940782bee1c8a7e88943a538645d656b78690476556d31f2d5b4b5fa1cc,
     Mu 0x982c5a5a42cbcae2e1a261ce08c8af598473d2a4761fc347c570da19fd9bf77 0xea069b51b6b676a169b72877fc64ca3a8c3901c9ead1eefe22d711b0c5f19f9f,
     Sq 0xd5f0141dde0642dfc27074363b272085e349c9ca47ff07a2f959ac35b84597d0 0xbe431b8e50607ed14ba7516e4e41de40f968a435529b09c22ee8088e5b2a7c91,
     Sq 0x8d67ae7f3c2c51515ba7e30ddf41eaf757230ba4ac573c53968f2262c1124045 0x66c4d94ba1a861ff00e8d5eefb3be2b90cbaf4373c25f0b964c19edaf3430a66,
     Mu 0x2c3b00a6bc5b0924dabc6232bd68849b52534f82acf6ebae1bb916446c607635 0x155960672ea75a156f8a5c896fe554e2e60259bb79a9c60733cdc134d9da6b49,
     Sq 0x1c7c9051b7b3abd57a2d5c90290e6f0da865c90d057ea94dc3dc53aee82eeac 0x8ea6b187767641e2b12bf621f9db641e1d2afa934fe35e86550b711f95cd097d]
   = Some (0x8ea6b187767641e2b12bf621f9db641e1d2afa934fe35e86550b711f95cd097d, 0x249b449db907ea)"
  by (simp only: chain_eval)

lemma prime_p256_pow_c_3:
  "run_chain p256_pos p256_neg 0x6e2de1e253b630ab90fb6c14c9913e3f79353ced1be9c68ed42e7ee18b96074e 0x8ea6b187767641e2b12bf621f9db641e1d2afa934fe35e86550b711f95cd097d 0x249b449db907ea
    [Mu 0x3d65317446f22e7187f7d5f9f9223877e1997f0768de008c77262a09fd431558 0xe0f72ba0f84ab2b434915a85a13fcc3f36363aaea5eb2574ebe975e9ab3c646e,
     Sq 0xc5b17affb042cc7f8485db59d93103f96aa28b41a2d81958a054fa915185f7eb 0xefa183501ee1288181e3049cdaa3bcd6d5ea05da4e98e927bed61337807c172f,
     Mu 0x67225941b8d7c61173d946182cca43056566b5ce1edc34f3f5a0938f0a7e877c 0x26067a24fd12823013ad5ae5aa425368dd02297a4141a7bc71951e96af79e0ce,
     Sq 0x5a5ec6cf4ca8e7f1ab50c1ef27ae76c2a1dd5f9ee5b216f1487ed3b026d7deb 0x766508d308aa8b1c609fbe03f37e9b9a42081a94173f9a274c1f8202ee92a3af,
     Sq 0x36c14c02b991395462659fa952f0dd8495ca50837fa33e32ad653200eec14bac 0x55322f7295f5a7afb65ce67cf45463f675bd75c51bc57c8dc0a479156f059d4d,
     Sq 0x1c5a5d58c57d5902f313a764a676dd61aaeecfe0c0dd55dce6c489a4b579c6dc 0x5b1b8cd13c461e47e54b37218306040d976cd5ce57352492a73100cf01235005,
     Sq 0x206c9913e2deae556c6cf1e5ed446ea60360d8be0562fec21522bb2879d7cc67 0xa7e5c9a7391a2a54de64697746407b1b7d8abc442af8d5c414296ebd7e38ec80,
     Sq 0x6e1d9b5afea1ec4ba9da5ba93828fdbec3efaa78770024356d17f71f40f0edce 0x86d9bb3dcdea0ab15b2b201e9593445ab67702c4f40a0021b79f4195936d2dce,
     Mu 0x3a09b9b74842ab20fb33a9fa8f7ab3849b354acfbb0dc243a6e82ca3314f7a02 0x82802805119348987a5f9f7c23c9016e99538142cd41af52bb6e8f23c98810c6,
     Sq 0x428668cd73b327685d959cc7d7e4c6846e02350f7cfd9616b74ee7dc9b0fad1d 0xe7b476ebd980d21b0c72ed1286337d082f185152dada0285220fa4a95a890641,
     Sq 0xd1b72dd5e725cbf528edd9bb8229b1ab735beab15135b4c2c531eac9f60c57c4 0xc83ec017dad27096805096708f889790c3382caa9431a60cfdc216595bc57445,
     Sq 0x9ca21b877e3cb3d548bbbaa7b465a6845c38393d696c5af694388d0afa0dd9f3 0x48bf9d0e3928795ce8b7c59d953b10bb7b9921abe1e9977a0ef939fa2f0e748c,
     Mu 0x1f4f5f5b915adc63af0db9136f57bfa8c25b0f524eafeeb349f6b1a7785a79ec 0x8fffa6867af8f8c0fc4276ef7cc2e39a7d95c2bc1bbcf7a0d4d9f5f781f9d094,
     Sq 0x50ff9b57ba9d6b5e6e378db851f815c41aa7777343746ccf079daf28e00986b9 0x6b762ab9f567b245be3c62b1c3bdd178e8f2fe2b36ca86dbfdcf2cbd71e25c49,
     Mu 0x2e4008f37565aded35f336c74a2654ff17eda27edb102625ae1895e3ed728c4e 0x1a3401e2c8490ff858d11ad75f211edb3ee42bcd760197f24bc512a086b6a98c,
     Sq 0x2ae9af2d7825e569394b2c6fdb533b23d4244e4dc7c15fc76cab0210a8e924e 0xad6a8a6e58841020b62444bfd6459a5c16035d9328491ebfcb520af51de8b6de,
     Mu 0x4aa2dc39fe7f512d321e31cb2ca662a83ec3969875fa578b581d2a2410638093 0x2f1a6114f5dc8ded73082c4672be9c5f8aca94ab5bc3231c93b413683a5f4a37,
     Sq 0x8aab25d980483500df632d03a3211598731442dbf59ad143463c6086e561474 0xf689f0c63e9928a15432759ffc6790f938f7a4d9bb5b1b715b7b8dd184abec45,
     Mu 0x6a1b753e1edd3fa7955bd13c14f8a6c1c5267d313b70e9ec590d3409d0bda383 0xa0bc6a67eac99307424545eb465f9ddb571e73d586db77a2472ad92bd8038389,
     Sq 0x64ec0faebf431825132267d54a0955f634f8bd817d0eb3f95b7b4bf8a91d9e44 0x30a3b17e1c062a0a4bc7cce9c927cf578f0ec4e0eaa0bb32bee1ac0231e91d95,
     Mu 0x14ef0df5578ed93c984c1a844e04e564f6f0a61f68c61181b215802fbbb6f0f9 0x6ea696028ca52f70e2efd3e96c811614af5b683b8c5cc5750271fd48cdb075f,
     Sq 0x2fd3955143e6ed27b0f1df28199cf139ae7e237a88d6da64db46e04d0c6495 0xe4310871f9f352e316d0cede8cea70dc0123394ec21e3b5aa7dac9add1ccb9d6,
     Mu 0x6235f798adf962440ac834d1c2f71181131a55757fb9488dffacb139f32286bd 0x340fcb9349b4ae5e956cc7f244dcb7ef0ef5c2524b69a2e27177a4de8dfbfff1,
     Sq 0xa966bad5dad615276237630afda8bf951ddbd94abb307955ab2fae2f698e408 0x2949f68e998c5bc80fc7d2fe4bbcd3d71bddd0bca0b050b97e7d38de5310e4e9,
     Mu 0x11c52e60314fd7b3323f69d26cd50925ad25f7cd23bccecdc61488383e8ace86 0x3c2660cbcdd10e8173c4f3232b6d28f67187e4f6224e17292e8aa734a778ec84,
     Sq 0xe22032077b6989a402dd9ffc7922a74b206ac1e45389d41ddeb5fb9d110b74c 0xa2aaadab4f00d6b4c76fbca9a19cbc26d95cf32a730dd83c877eab0c9f545b5c,
     Mu 0x46027e283b93b9cde396106503d0226de16992a7c353316210a1762f59f713a0 0x4d3183fae0434b56549c13834cbb05078ed875bfdc68c4fc0c72a947b0126da8,
     Sq 0x1746d2f8cc43df6d21eea8ad6052456060e65b2ee10561d91cbbd33cef4e58d4 0x110fc39a6f81d7188a4171cefc34cd51473fec758200c9d5fe75ce8789e6d714,
     Sq 0x12318f305800bc5a211de233dcaf64cac70608561c4ce2bae4162a91be79dc9 0xfb07d6f0b54bf595c90f8c4bdf71b19441452d980dcca6f2346d4c1bb08a3759,
     Mu 0x6c0a5c3c752c5ff0ef5faaa53cf979cd18406bc4edb9cbc0c2018fc2a70d8b7b 0x2d014a91e13c37bccd0e1b0b5267edd616c0fdd52033969d302e7248f9d3d799,
     Sq 0x7e97438fbf50ba1803759973404405ab7739e1a592521f659eec1e103584c29 0xf299321263cd877b32c781ae17032622fc42668d1872be95be614a5c120a59a,
     Mu 0x68694e813c1bda11323bff93f7bc79663f2f8490abf9720f6bb74cd1ad7e98e 0xaccfaa6090e8a66fd4b9bd183844f8742b4c914758388eee734182fb7d8d947a,
     Sq 0x74a7b56730ef122c288ae04f710d368c0289005b4e4b864950b58f7d4e8a0a0c 0x13bb39dd3f298f943006b6bba6b719f742844158612a48ff8eaa3005570b5430,
     Mu 0x87dfc2f451e3aa2a30cc65b4bb825fafcdab1ecb25e8d3c41bbf1c1f6660375 0x6505492395be582d61f23727c235714188fac98deccb75b55f4f7e4d2f46fa15,
     Sq 0x27dd2bd22c4e872e1d6d6cc8395afbd01569cd89ebb7692ca016a76a554c51d3 0x3ce63214e22a424b7b7b83007328f5393af1074877042a17e6a6e78dc315578c,
     Sq 0xe7cb677dfd31386f328a075508dec48df01dfd599e412d7d4866915369b43cb 0x115df260b628047a39fe2fe6fccfac35e25de73964a83b8dec410673f983b85b,
     Mu 0x7797afc1d637d184c6e36af8998b6dd3fded628c03629d51455053cffb16aa5 0x7867315e55cd67f6f5ff6f41fc784e4c6da387997ece3cb1359cb2a80e30135f,
     Sq 0x38a0e7e16c7fc43e249f379837309fd77157c5887467aa7ad1a5487ed3d25245 0xef83ffa054513a2034bd06ee73229d296e7b0a301c3a50833e401c547ce98f86,
     Mu 0x6715a561ff05358a761f3ffa1bf9fdee09a23dbd20d6b1d311cfa43f5b84cd28 0x893bf489d07add46cb1a363d20be8d3ab4905c1cc6f1b259c371aff5a81f31fc,
     Sq 0x499139c66bd1d2d8e95bf0aef4fd380a3fb4b94da0b4180e41f9a36588aa3e0b 0x78b9258ad14f06927d4fb79073fcae4b64d5b197e24f028c2ae6cd256d74ae1b]
   = Some (0x78b9258ad14f06927d4fb79073fcae4b64d5b197e24f028c2ae6cd256d74ae1b, 0x249b449db907eb84ff76)"
  by (simp only: chain_eval)

lemma prime_p256_pow_c_4:
  "run_chain p256_pos p256_neg 0x6e2de1e253b630ab90fb6c14c9913e3f79353ced1be9c68ed42e7ee18b96074e 0x78b9258ad14f06927d4fb79073fcae4b64d5b197e24f028c2ae6cd256d74ae1b 0x249b449db907eb84ff76
    [Sq 0x38ee1919a54c1f416dcd6ebee83831fc3a21cdd957ffb8992ba197fd7637af04 0x9ac328c5d6cdd77e0255b747f2d0db954e6fec258e907fb09183bb3cb31865dd,
     Mu 0x429b9861c96a17fe8a0647fb93b2c03fd43cd86462330a5eec40d5ec13f828e0 0xf6d1b56db13df93594af93138f6f71888a8e822055cdd1d2439c0827feae3d36,
     Sq 0xedf7b4797c4a823e7d73c09a6ffd7383100c7795f1e9a791372ecb698da46b3d 0xe9986cadf18c447af9303dcbeea94dd3a66184620c845eb88f4709ebf9af32a1,
     Sq 0xd526d096b38a35cdbf4ad53da7b2bfb8a6deb1dffbde795d6d77936410dbdc58 0xacfaf7baa1a4eabd6dfb56f10a1f52c662b789970126279e0d82215d84fd2599,
     Sq 0x74e232ec065530701de7083c7d3d129d6993f7f862df211de13bee722f2e3f26 0xe3bc4e03e6a3ff88b66129cb18a348ccea5372416f102d58c354bab54d1dd497,
     Mu 0x6203ba919d142ad04dc4903821c3f3e8828f4711bdd1e81a35ca99eab78d0129 0xc09bfb58b25bbc8663e56845844c8b41e1b3de8e1f4435fb96ccfee394ede82b,
     Sq 0x90ea580ff0a2fa6a3f528de1d6cc4da29332caa9c3199c6a73c9c22e1c3adff5 0x7358b2ac97204531a7aa6f3e8a92fb330705b7d0fb9d3bd26994c3f98666d72e,
     Sq 0x33f8cf42971c2a20deb6dd9135bb42c6915f02f37ba0157896750f41ceb6513b 0x3ee10139ee581fe34a0275eb76cc19a2c0c48d1a64be2a5486138d52243c9d7f,
     Mu 0x1b0ff38f8fef69b1930c77285343266eb33e864ff7b575813fa92dcc7bc67aca 0x26e07153ce144a18a807f1c5558831593e9fff7f29aac6e831e68f786bf6f07c,
     Sq 0x5e7666b6be927499380a3bb26a1e2c203d184bfcbac7b38fc3f732fe27d73cb 0x6060472c4f70e333496a09ce2745378c3d8694d3ca0e7503d8c3caaa9ab62fdb,
     Mu 0x297aa48b8977b1cc4e63e8709e18921553f79adbe18903fbe08b6bf675ed7dd0 0x8d2dae178db8125c2347e54e5137bf16e09659187417c9c843bd426388110f8a,
     Sq 0x4ddb59eceaa3f7ad8e870cb77e25b5ae13ab649bca8b2094b12a80f7501cf76a 0x64955bba3320eb868fd4b53b4b388a19165dd8123bcd6c633075cf5901626dce,
     Mu 0x2b4a346b7f5af9c59d78a60da042c5ccf3ae274026cc126d4f769d6a8cef5106 0xb3f5afeafab8a7485f83235bd7ada25e20a187dc758936611a8060ebdaa167ca,
     Sq 0x7e817fcd49c6b9a3f5315d18eecb6a483b9d643e1f337dc47c9c5e31a9ef249f 0xc2f30ccfba59bf3d42b73122aefc6d5e31d67f77987684997b7fb59568175003,
     Mu 0x53e7603ecf111f5f7e2b207b07ab69069ae34311a1cd4b1fcb1dc4b029a8f4dc 0xbc5f7f6a3eedb0a9317832128677e3b07f68631405bc70594176a0cc06b56ac6,
     Sq 0x8a9c66c4674ecd2d7c83d09e34d1a43e8e293e6b5d471d768a4dd37c06252303 0x11e49c839b73a174c9008578ebaf26559faaa75490269596fb9c809d76a9b427,
     Mu 0x7b37039d6dd256a0831d6be11ca289abc463cf7962374ea56f84a4e4337f4d3 0xf748b3b73856f08e0cd598f836457183fc008b8907730f72a0b1fd0ecab3e9b5,
     Sq 0xeedd5f7212ce9075bdb54e2663a3cde1ff6ad4663c9e7592d2bbcf7eed6fbc46 0x2e3fa99cba0804fb99f4bae3be02d39a47c1d3461ed73f34a7238c8d39e8b63f,
     Sq 0x85af0c946b9b017f51264532f47c70fa76df85e1a53124943365077e65d9a56 0xb8bc1ad67fe344b126b68ef766deaccdc745b44509b85688a9376e90c84b3dd7,
     Mu 0x4f81ef99d838bf6213c26457eef3319ef6ccea45506b1637198387bd783dc78e 0xad086c82e29eb027f711e31bb8c78a7d58938c34402cc3d0cd368ff586d58010,
     Sq 0x74f462f0516bb911b94e26a591ed40510853b54537a93ac9172fad13834d64f6 0x688e905b75a4cfe8f945a909e6a220fd5e7f58cfdfacbe129eacdfd29dfd65f6,
     Mu 0x2cffff58968cf3d3dc8489f8f99b41c97b581de0c1a88e5c4520c2e8817d91fa 0xd01c2ffaf667844ea9ca12f33c72cff2073ca8cda9a7417d77369172e2a05cee,
     Sq 0xa92dd113017a0b374f58254270ee6ca126158d6e5b403a3ee9269d81d4c8e4eb 0x9d37ff9f14fd0a4ae3b8479cd59baa0c1f6f6dbc135be0ffaa4686025804d22f,
     Mu 0x43aa3d67c4292fc5973782495dd88ae987c346a8486257271f062807689808e1 0xadb9e70c82adecf22a0530d617fb36841bea00388b0ea12b25791b6808595c33,
     Sq 0x75e4c9471f204f58d0a79eecff47e6db9fb2bd3562713fc50e54269357b2efa3 0x5c3d713b144675ab46d9acef87d15c9d276a62720bb3341096dd86f7c45da1cc,
     Mu 0x27b2eed7feb839b1f047d148bb94231b8dc4457316b51b121489f9fadbb8fa24 0x794723a7f272b49a318831d92d443c6572b1bf833f6206b7661b61d9d134da4c,
     Sq 0x39745379c8c4984d1451590efa83977f2afa8d3ca802d079daa40e59d9fabcb9 0x1d4769ce1e7fcdc8278c4219bcafb504641ec253220d821adaab128b5b004349,
     Sq 0x35941e49251dc61fd13e3dd590246a4a134bf375291b5dc91bb561450773c40 0x50142f00523fea803a74f52b19f5f8f650b032d56adf6e4ac559db3048268711,
     Sq 0x190c9ef7ad2289b7ef303de7da67af79afe624245ae6e6914f9b6c7dac97ba5f 0xd9b2da2165ba7d53b2b1ba2804ea3f1339df0bd60326b39c714cdaa39ce6a980,
     Sq 0xb920b2c167e5382bdc0ddcd254fd7f0a0166a72464887babfe6d004fb07d886e 0x51972436a3bfc04eb31ea63e4d89e81341edb2127d13ea0da900c7b8b2b7c86e,
     Mu 0x231d911ef404ce5201e500ce4f7d58d9913e608919e71d069972d5a6cbe6b6a3 0x566529d688cd0ae5d8d46caab59753d7753dfd596064410610598b0170d4ca27,
     Sq 0x1d2820164b3040cde27a48e140e9145c0198a91099d423fa12bd59e641560518 0x16dc234240767d05b4922375a3085ad4b3f2970141830990a8c629f5d18f9709,
     Mu 0x9d6b00464fcedfdf9d4a913c93b619597ea923adce09995886075cc7e72f5a2 0xd7207c0d84f54c1ec5545501c706f50b7edb70b23fa7213be1e0e57aa79a3960,
     Sq 0xb4c7947ea999f13113acc464e8c39378d0212482892f9e0e2876ed9d8b35977f 0x6da2c434f401d4ba9dcd9bec65de3a47987c68aaa747e1ab67d5f0e1df917b7f,
     Mu 0x2f2f96a86954d1c47bb36c53e22f4c4cce59ac1a8dcd715fe8ba805c7ed11077 0xc29d756bf4af3bd10d26d9152b86f088db37fac101d02800a4b51c36e8ef2a29,
     Sq 0x93f306d16f129797b2802c3075205dda797e02bc46e22414edd89cb06be7867d 0x8c5ff4782b016407eba716ca8c43c35df2003a1c1be2d3067de3b9d67b67010e,
     Sq 0x4cf9175b16a7d22eb084ba041602c263506bab3469f58f4e3d8b24b24dc0cf8c 0x2d679aba040c5bdd39a78b01298a4da80b537e575d07d1b73397488f9b05ec50,
     Mu 0x138aa7c26747aaa22289a8649b9f32f9c32bea42b7d3c4e84e1940e9d9ceae08 0x9edc4db2173b9256dda99311cb7e987f93377a757c0837d48762690025f2de68,
     Sq 0x6294ad7dd8eec2625c3fe62fe6e639b059ce860e39c2687f2826a72de9eb4373 0x198bd011cd409bd597c21b08ee7de4431d083d6dcd47c8645fd811e137c3cdb3,
     Mu 0xafea785bbf956aae0cefd90a427f8400c7c62207d10a9bd96414f2295e37211 0xdd706de015f301b5c40ddf70f8aa1baa0bcc7fb2b13f38770a51cc05a60e039b]
   = Some (0xdd706de015f301b5c40ddf70f8aa1baa0bcc7fb2b13f38770a51cc05a60e039b, 0x249b449db907eb84ff7697de3b)"
  by (simp only: chain_eval)

lemma prime_p256_pow_c_5:
  "run_chain p256_pos p256_neg 0x6e2de1e253b630ab90fb6c14c9913e3f79353ced1be9c68ed42e7ee18b96074e 0xdd706de015f301b5c40ddf70f8aa1baa0bcc7fb2b13f38770a51cc05a60e039b 0x249b449db907eb84ff7697de3b
    [Sq 0xbf8b4f15f8acab81e74668577895a47b0a7ded3eb0250092bc148065655f46ec 0x981a54212277741d6b970ae3f0804974255733ba7e2f58995e2bd9e4ce6046c5,
     Sq 0x5a5f469ce5ade3ab5caf05712f9589d9f73720978759394baabc9735aa9437eb 0x7e726dc0c544c972cb88b8aec6d8defeaea8c6dc434cfb7596c1b637dde48b84,
     Mu 0x366bd4d8b2e679088e867516f4e67bc0d767386893cf5ce0e41d152a5b4bfb2e 0x6c1e2b8f0eb24dcd82b27e71af372707c36eb9df972f9681d96d3efa2171966,
     Sq 0x2da9784f1f00ba9fe5f67109130f4fc96074ab2c56531568b569015fa5f47f 0x67bda058a28fa7c2fe685a455654d7ef8ab61829305b764a69de37b00a7f0923,
     Mu 0x2ca612c4d35624c082bf88fb292bd5ac037ac6f4d3b0bad1816cfdc3a932da34 0x5bac7aea0d184c2a12ee97dec427fdd9491fb4c1124e4f866df127d8b0a997de,
     Sq 0x20d41397eba8dcdb2682aad8570c92b8791d3c79e3d576a8e207abacdc443bd8 0x584add1948d091acf95c138bf7509f40bd0c610dd7043ef222633777f977e05c,
     Sq 0x1e738de61215b4d88008b3cdfadf495e62439277663af9b58d6f35cb1b6a7d68 0xc7c7123a4e3b0262d680c56598176346ad8439da797f4760e78bbde86d939e78,
     Mu 0x55fb581a2def8225bc09376762dffc93c9e8fad7466153284d91351990c69bed 0xfd221e38a4b772d66a223381843ade5a2e4a457cf2143a8af6531febff662c7d,
     Sq 0xfa4c7448fa7c2121c8138503086efba9dd51409ad9ffec5793ec822c4d5b6a0d 0x7fa644c3207d26c4ab093cedeee9f92008069c3a0db382464c232b12ceb29f16,
     Mu 0x36f052682228c3a5ca58a38ee59c978bb3462dd10605aed55479e258258b5d29 0xdf8f087b8dc68573904f4ec00b6066a96efd3de7119d70a253dd451a2b356fdd,
     Sq 0xc33a80b27e8ab5781b755797cdb6d77945fd56207e49e2af0f53dc44cecd7cdc 0xdadb57f718086f6fbc61d8860abdfb750792b97dd8b935271d58b5e48f30e1a5,
     Sq 0xbb1a4dc12f05aace8834e20e399c4b5d83af313afea37b473a6eb267a2a98dc6 0xa4acd49f65c01c024a5f9674851cb55208c530e4c44110d23c1b97bb5d6d021f,
     Mu 0x46dfc70ba1ea3e1c8b7fd5b227955ffad61c731ef84984d193a7b1fde17b0e94 0xbca07a3ca081f9190a85e2066335ec5e318c9d2ab8ae62451a2519e766ea8d06,
     Sq 0x8afc18229ce177cdbba2861fdd69fcd31d95326886b42a97e3971ec407c401ce 0x35c846b11badcc676a2632fb1c40077e7352944f69af2f8a93888adeec6b9df2,
     Mu 0x1725b20930b2849fedcd2af5994d83e743fc450af9ff480cfc37aeca227ff798 0xc724918882a5325152a07759db29d18b7bca3319274a4c60a069fab00e67b554,
     Sq 0x9ae9df7c17275ef646c3fddf83f33a5e71eddd7a282789784285487a7f219ac1 0x8fbba1aba955bdfa795c82be12d20e8328e24429a213316a5efe2dd319297e51,
     Mu 0x3ddc62466788b77d228157ff30f4fc2c2e124df567da7c02a8ab6ef5ee27b3d0 0x5c3e480d479d2511e1995014dbe228d2031822d63a1de4be55ea540eb9b6677e,
     Sq 0x213cd2f0a76beeac13d6f14ac39ddc3ccd86b5b345e66ec97b0f0743aa98b320 0x89cb244a6f0a393f4fd211992246c5ff30e1ae6bf164cab8e3fe2c9717975524,
     Mu 0x3b4dfbe2f56447f8604ed3c0100c9bdd8ffe5ea49a347b659965c7f2175997fb 0x59f77a3ee7c948b96410368949ab20662ddff4b21f2c172e82c80a2ad9e184f3,
     Sq 0x1f9e023cfc8b41990aec693e86b8c3882264e87f5448dc1663699d0d891d8171 0xd75af310b424cdd3ea3da63b8d7755db9db425e31d652902c0ec52d8774f001a,
     Sq 0xb529e496924717456baf432a9ead93b3e417377536760b1020ecf4e8678bb8c6 0xc43ba8612e6ab09327512f184967e1f1a2b1332de7203cbf79d85341a397bb6a,
     Sq 0x966b67bc7109dd1acfac5bf133595e400bf9252553ad795b76948c28b23a8af4 0xe0fdef8e4a5aba451f4c60a7c266dd9a59cca9bf5cedf1a6cc9306944e7a92d8,
     Sq 0xc5bd5f1d27461a557efa8a4bc2edd7e7f1de9fa90f28e9ddfd95aec6b7aaf4f0 0x9ce0d432118600e1536c79266977a22feec7cc8dae1ace63765084b2a1c60b30,
     Sq 0x6022c8116cffba75ffdbc0527e9dda8bc316fe329f9fc5e56e4ed3535b18579c 0x2d6ef39a362b92a235e24fb7c5f035f0f951ff11e01e0e96457a955b09d5809c,
     Sq 0x81031ba7f70307571faa3f98ce4cbb008ff71facc03cd907ebc916205dc45b9 0xf44e04104aaa16014d0c1c02946e4db0bbd1430d960d2505b14c4d644210a4c9,
     Sq 0xe924cf8671770c7c27b5d607b150a3583ee13efa151b5700b34a2dbb8e15cd0f 0xca1e20ca225e6d1474c0e5b218f48c7ca2ae35e77015959c2dd06ad03547f2e0,
     Sq 0x9f938f4b5163c9c267c27b702dd8e3ba9d7c8b0b24085963c29d5f9b73929ad0 0x24ca7edf1916fedbd42e8245f18b5264f4262dce9ed4102763c06a64d23eded0,
     Sq 0x54993db3b4c02f2980044d1cb3af3caa4311d8eb26b771cfa996e39e3c2ff8e 0xd4979897a7f37384a7b143144589743020ff0fd423fcfef110e6f5b7d270688e,
     Sq 0xb08b6e813c93384f30d289e090da4a15d3b4d37342c0c25f75c6a7194bf8ad23 0x69b8695b2f6d8a05a8a21289b3370fdd3210182ba1e4f192c6c08b01eaec5be7,
     Mu 0x2d802ff86ce0c613fadaf4e7737c041456575bee20d1616a5b2b67eb428516f1 0xd2807e4a086316d192f1d3ed852ebecc88f546ff1a10b4e349cb445893666853,
     Sq 0xad170fb0ab2ef9e108c5714cbb5820b8a84f3734dfdd169ef1c1244534535b39 0x6822d866e8f7723db7796632d52ceb854ecba2112b582aadce15ba1bd2fae622,
     Sq 0x2a5c5491f9e9159e56fcbd5d639b1b100420edfe068d26d5aae46f9f3affde40 0xdd2e13e1a88be6bb172b87c000921cb6a7f9a241fbf431ece9aefa414c48fac4,
     Mu 0x5f3170cddec26a245e8ccc31e8f503887be62320d56dd2034aa51fe863931fe7 0x59030a17bbb6fa2fdf776f0689e2b578b29463e162965d6db4445a12fb82e39f,
     Sq 0x1ef31d0ddc6c9a2a740b4b75dad3c82a9133fb98e85e69bf70a1d31ac9a53664 0xbe2142a377d16d1dcd40ebbf43b480f22ced802d5500cd0652a78ebc8b849325,
     Sq 0x8d35633d728dd75d0cbc6d5a3236b1d5563927286242063c2f926eafc6bf2369 0xfdf52928172a8a8ee84c781b34427a45e38735dd2516d8d827d6d57a077aa6c2,
     Mu 0x6d4cdbdce1f3008c7b3c5918edb7ac855f91c3987a7ad8a1699bb53376ba4bbb 0x75fd2cde5f96b293ea5a1016047fcb0bb1cb7ea83e3ef70c54331d81245468d7,
     Sq 0x3661656531274682e1cb2c2e8fd8926ed898fcbb95c97d06155dd0075cf323fc 0x228fb229af9f5c030e31c5eef9ab451b502f206250d894fdb5020806ccfa888d,
     Sq 0x4aa7bfb9de1037889e09762e4c39a08aa1367c2e92786c029db5cd7188afc2b 0x76d234365f5c29d7b02bd8ae59dfcbe4d2204d7b0a625b719676d242ccc519d4,
     Sq 0x372674bc0aea00cd1f6fce8d9e8fc56f5bcc467919cfcc6a27aa55f6838f7578 0x726569facb96e731bf6db8ac70fce2e34e21e9bf20babaebfee6303126728d08,
     Mu 0x313c144ddae1fcb860c5678058a0113844a8da9cc94d012f88b8151b233433c0 0x9eed3d2a76328f8bc97c14844285ec3c300eca9558977c098e60b9dbf6a66430]
   = Some (0x9eed3d2a76328f8bc97c14844285ec3c300eca9558977c098e60b9dbf6a66430, 0x249b449db907eb84ff7697de3b6de00a9)"
  by (simp only: chain_eval)

lemma prime_p256_pow_c_6:
  "run_chain p256_pos p256_neg 0x6e2de1e253b630ab90fb6c14c9913e3f79353ced1be9c68ed42e7ee18b96074e 0x9eed3d2a76328f8bc97c14844285ec3c300eca9558977c098e60b9dbf6a66430 0x249b449db907eb84ff7697de3b6de00a9
    [Sq 0x62a9b35b1bcc3988263d1d72c8c5b164f70d9471404ab784622c699d23c52aa6 0xed7313b6f47443cdc29fc8dafae75183fd6dc1faeb357e51314d686f793ab3a6,
     Mu 0x663201378bf56f808428e53bb202a7dcb6358587e5460057bcdded75f5cd76af 0xd2cecef9af420ae5cec167a82d91c8de8843ba554bd2b787c94a4c93e5ddbd43,
     Sq 0xad97f2a4124d2462a5c1a6cc97911ef99e7e023f191421801ba357a2c357e4a8 0xbe4f4dab003c4e60cdecbc8b9eaf978267f02d34ecd2c57c2fccef3ef2f1e431,
     Mu 0x51e82f3c6692266cbc40569c2747f47028fb6cc852243ed24b8131f7187635eb 0x3e3d3e0658b41f120dd03a62fd2b49a32814663a161dcb76fd002d7d0b1d13d9,
     Sq 0xf21b8b1c02650b4c48a91286ae4839924a42ec61248e71a2b4a5ca6080019f6 0x3bb4225da977495a237b5ef9b65789f4861f1bf369c8055d29258b922eb407e7,
     Sq 0xdec8697925cd56e77e305746542b2a5b20911a261a178aceedc33abf48bd3fe 0xc4d086dbec01c178412d99d2ad7e3f3a80f1ca35a6fd79460415429a15a2466f,
     Mu 0x54b4e043cfc023ac3bb0117fff93a0a5c34a48150c56430ddcb44f7f31c30a51 0x9a52f1283e0514f2fc91194da289c9510d053a7e0b5a13fd64523ebc32b8923,
     Sq 0x5d07e504289a8892912984abaa5ffae38c1fa6e904c2fd0c9d265e69d5cc70 0xa453ef26855524a07cb0dc97b19f327411cc00af72dc97734bb3d8f3170e4739,
     Mu 0x46b98482eacfaedbf4d16ed384e0ae1bc967fa9f409a511005af9c9c8691911c 0x98f18b4aa961063d204d8a8aa011cf38b5f6081da31f819a683746719f43d37a,
     Sq 0x5b5fb95092e0031c45e26bbc7a7f59fda6b5e449fb34df5c2ed1b080d8450d11 0x7d7eaf3846540ab3f6c42ecaa3c7253515bf8af9311822a341da6cdec4d36335,
     Sq 0x3d84f5ce25863f81eedc94115c0d539faf195842cc4e9de743392a4c955ac2aa 0xe20717bd99736d63ddf9f9d408eca2c54220ffed35704fb7752650ae6d2acba3,
     Mu 0x61478ee31594e323ec06017c1822f5d416f41e5490aceceeba4cce77d41bd365 0xc47cb756a46391621c1259595e44df974dd872e130e7851109c990811539540f,
     Sq 0x96cf357f61c3e8eb134ba90fa8efd820939a656d6bb813079ab2c9a8aa8b46b7 0x70bc1db5d9ec5bf4a527aeeaab7996881437261f7181a7eb8c5ad567aad31f98,
     Sq 0x31a5243af6debc6553a0e6fb8f4c8a7c3730031dde62cf552267b2402063e3da 0x791ad97f48093b2e3dfd0ca3b9f430ff8c0bf7951a07d3a3d3bb22a318da0e1a,
     Sq 0x394a646b7206c7a5287c7f2ac7cd7af796d99aafa6327fac8b5564b6f123b176 0xa72b0726a27df85f631e0d5d7488ab28d17920d54678cd1a9527de33d6328c1a,
     Mu 0x47f27323bf7e549dfd5015f8cb8b90455723d351453c556dea4c87f26c28949b 0x42d1499609594e445d8c62ad7a267f1613318efe64609320a3408923469ffa87,
     Sq 0x1170950aaa64ce7b887377ab73212e581851331e5fa06e19ec933d4b250de806 0x96ddc9f78ae82394466d8c0e5765a3843b23186e59fe952b7721d3021ebdb37,
     Sq 0x58e8a8d4c46d2ed17b4116d5a0f454ba74c3979b6544b20db947aa97de27ee 0x49f83449c783c615b0dfb5871adb9175b211e996328b2c2219509a1af88f4dbf,
     Mu 0x1fd5e85d8fcbb89abbd48dc3388c5adddca84fae89ba74882691b9ea34ee121e 0x5ff1e8d0fb4dae3fb0dcad3b5e2ec233783ffe68ade656a324a434fb1ea1fb50,
     Sq 0x23f56f636badb10ec1a70d0e1df8441023227885790120fafbae3cfe13124591 0xb7a7035f63fb8e64a0cacc4d51558059b053e5469134b1da5d93e942e4683e91,
     Sq 0x83c033c84b31ab72adb3c21deddbd4a2b854901048321c5278fff6650176532e 0x35125410b3dfeba9b775d48ef41e4fe5a66d521d6e7a0fb400f4050e2e90e14f,
     Mu 0x16d7632c127cd4021e5eba19ebe26d8c26eac41e139d6d5b1faf8641b4206b7e 0xf8e46fe3972a911ab384e4b8b39c3ad1b7175d03e3d208c5e4314f82c3b83a90,
     Sq 0xf1fb64a1652a4902ff25df87e9c8f1a67578af1ce74bcc5feb3146782b076411 0x453bf1b0082a073d4ef3a5a18d54c38b8f1587248e1ffa6de733ce83c76cf511,
     Sq 0x12b95e524270b202ee3719959c8cb39675e19da539edab636bc14160a93999e5 0x6c103b9507a9cc828e527bd987f4a2017fbd1b0d27a0054cdcc0026c82b2506,
     Sq 0x2d9db34d6c93f55f27849c433d7b3f225a4c67641e982533984a20df223f19 0xfd6d48feaed3ab490a33ce4af04aad11770c7ad3c8b0803da7ab907b480fb3d,
     Sq 0xfae130ef9e20b1735161fce9f7bcef4d57cbb8206357bb49425ac6c2999310 0x44ffaf4850bd6ca2a697ff83ca72d284e2eb285bd7dae51a6cd7e466be2a3f99,
     Mu 0x1db23b24b9711ea599f263c68189319a21d32d05aad71f82df47a0662b2472ec 0xbb92cb64ddd486e8e13df6c43008a6310f2801403c5dbb139daf97a99a67028a,
     Sq 0x896fc952862a6c6133a370c4cee308d56a5e15cb179e63e6fbdc6afb30d71e1f 0x260ab4220b7b4e4031fa106e915493b8348aebeac3ff56d876a8a9b043e99083,
     Sq 0x5a72decb27893764bfa6d6670b8dc669c784113ffc0e8037e1ae2d43e9a8d98 0x9e18a6ff7f207cecead35a711439298b3a4350ea4656fe1c202a3b130a430a1,
     Mu 0x440aed96d7d0b9fe41f8e8ea4b5dac87747a5a418cc6e4baad3800bd33206c2 0x78d78246432c32dabbfa7ad41a4c3ad86310457d459d17909a82da7a0be33ed0,
     Sq 0x390abf8e2c5472fa205e6616526013bd7b14281ddb7ba8d6c86afc02912e711c 0x71db3176eb360bde2cb1c3b71c3b17073781abe6b04143a32fca6b60e577da1c,
     Sq 0x32a33d58d94e1f9376ba8c4748c57ab7ceb187e312e0a288daa6a3d7ab1ab0da 0xa40353dda0d53cb49b66281d1ea65f0e082ae5187e1951ea6ebd452a42f663ea,
     Mu 0x4696d3572cef5aa8990312b1b3f4f82daa1847045a8ae64f5e3ba247f4033371 0x2c0dbbfd0bdc828eae74b789bb9cd1c94e9c874afe59fe229db0de45b0ed0abd,
     Sq 0x794b95ba5676416856bb3b91e245d16de438220a5dd517389721e9b3e26af16 0x1bb90cc697305a65af08f2bc1b811d40418d84dc65602e9618007ebe008bfe9f,
     Sq 0x3008e755e8e7da436003ecaec41b4a7ffd0fcd6c13deddf74df2d92979a44a0 0xd9cc08c1356ae237474bfae6e06e023b3bde180600e7497fe351f22515842b61,
     Sq 0xb94b89763a1484780433658e53fff4f8cd55a65e723da58a7d3f9eff99f8bc2c 0xaaa38d4aece36dc67b4d668da916d11a001bcbfe59d6266712a88064475a76ed,
     Sq 0x71bda0252fc0f66e7a235e1263795dcd8b8d4245b6c9138dd63d6c3689b5079e 0xdbb78c601595c16a3ec7e28b58bb0efd944b7fba7929f05b8acaa34dd5985f07,
     Sq 0xbc938dc71fd9de78ae453dc1b741d6877b3780d28cbb811ec0d4c834c3058114 0x37b841bf3981f5e7677fc7bf47794a97da589ed730c3c0ac7cc3c53d649bb345,
     Mu 0x17fb28ce05f99d93358e2f1d141bf0a774c7ee74e2c5959a48ef3958697656d6 0x510e95326e8e67d073b7d7c5bf1ec41b8d8087b99ccdcd8ef80e0303d43bd8dc,
     Sq 0x19aa3b3eac182f24faacd71cb8ef4562976ad35f62ceb42dda47f292e7fe53ef 0x812469e1b68da15c46fd080044d228ed0296e50de83e1fbe2c75ce4f51a50ff]
   = Some (0x812469e1b68da15c46fd080044d228ed0296e50de83e1fbe2c75ce4f51a50ff, 0x249b449db907eb84ff7697de3b6de00a9da54542)"
  by (simp only: chain_eval)

lemma prime_p256_pow_c_7:
  "run_chain p256_pos p256_neg 0x6e2de1e253b630ab90fb6c14c9913e3f79353ced1be9c68ed42e7ee18b96074e 0x812469e1b68da15c46fd080044d228ed0296e50de83e1fbe2c75ce4f51a50ff 0x249b449db907eb84ff7697de3b6de00a9da54542
    [Sq 0x4125b7e3ae66bb1a644102abeeece581d8b31fc94772646700eca0f560fdfa 0xa6e8071f940f884e54a7a018a9b2488fc4bf3105a4a9674afb35dc9598cd5bfb,
     Sq 0x6cd1bb8a4a44fa748c0f5481e98e513741b9335737d7ce6ab52b4e5c06b8d930 0x971dc7b66ca4718c41d448ef00e36abbdb37764645a062f92d724a8087c34149,
     Mu 0x4109e16385057b44ebbb3a7f79578b0bee4062a5a5dcd6fcfa40e91c67f31cc3 1]
   = Some (1, 0x926d1276e41fae13fdda5f78edb7802a76951509)"
  by (simp only: chain_eval)

lemma prime_p256: "is_prime 0xffffffff00000001000000000000000000000000ffffffffffffffffffffffff"
proof -
  have c: "(2::nat) ^ 0x1bf921271fffffffe406ded8e mod 0xffffffff00000001000000000000000000000000ffffffffffffffffffffffff = 0x6e2de1e253b630ab90fb6c14c9913e3f79353ced1be9c68ed42e7ee18b96074e"
  proof -
    note s1 = chain_step [OF p256_pos_neg prime_p256_pow_a_1 chain_start]
    note s2 = chain_step [OF p256_pos_neg prime_p256_pow_a_2 s1]
    note s3 = chain_step [OF p256_pos_neg prime_p256_pow_a_3 s2]
    note s4 = chain_step [OF p256_pos_neg prime_p256_pow_a_4 s3]
    have "(0x6e2de1e253b630ab90fb6c14c9913e3f79353ced1be9c68ed42e7ee18b96074e::nat) mod 0xffffffff00000001000000000000000000000000ffffffffffffffffffffffff = 0x6e2de1e253b630ab90fb6c14c9913e3f79353ced1be9c68ed42e7ee18b96074e" by (rule mod_less) (simp only: chain_eval)
    with s4 show ?thesis by (simp only:)
  qed
  have one: "(0x6e2de1e253b630ab90fb6c14c9913e3f79353ced1be9c68ed42e7ee18b96074e::nat) ^ 0x926d1276e41fae13fdda5f78edb7802a76951509 mod 0xffffffff00000001000000000000000000000000ffffffffffffffffffffffff = 1"
  proof -
    note s1 = chain_step [OF p256_pos_neg prime_p256_pow_c_1 chain_start]
    note s2 = chain_step [OF p256_pos_neg prime_p256_pow_c_2 s1]
    note s3 = chain_step [OF p256_pos_neg prime_p256_pow_c_3 s2]
    note s4 = chain_step [OF p256_pos_neg prime_p256_pow_c_4 s3]
    note s5 = chain_step [OF p256_pos_neg prime_p256_pow_c_5 s4]
    note s6 = chain_step [OF p256_pos_neg prime_p256_pow_c_6 s5]
    note s7 = chain_step [OF p256_pos_neg prime_p256_pow_c_7 s6]
    have "(1::nat) mod 0xffffffff00000001000000000000000000000000ffffffffffffffffffffffff = 1" by (rule mod_less) (simp only: chain_eval)
    with s7 show ?thesis by (simp only:)
  qed
  show ?thesis
  proof (rule pocklington_one [where q = "0x926d1276e41fae13fdda5f78edb7802a76951509" and m = "0x1bf921271fffffffe406ded8e" and a = "2" and c = "0x6e2de1e253b630ab90fb6c14c9913e3f79353ced1be9c68ed42e7ee18b96074e"
        and u = "0x4f5b418eca523fb75369a24772ba6e620c00261d7f768df08143595c559af3ce" and v = "0x22276f3b6051c72a50251baf7be7d0e405575a296daf2bd8e083a1a94f06090b"])
    show "is_prime 0x926d1276e41fae13fdda5f78edb7802a76951509" by (rule prime_r)
    show "(0xffffffff00000001000000000000000000000000ffffffffffffffffffffffff::nat) = 0x926d1276e41fae13fdda5f78edb7802a76951509 * 0x1bf921271fffffffe406ded8e + 1" by (simp only: chain_eval)
    show "(0xffffffff00000001000000000000000000000000ffffffffffffffffffffffff::nat) < (0x926d1276e41fae13fdda5f78edb7802a76951509 + 1) * (0x926d1276e41fae13fdda5f78edb7802a76951509 + 1)" by (simp only: chain_eval)
    show "(0x4f5b418eca523fb75369a24772ba6e620c00261d7f768df08143595c559af3ce::nat) * (0x6e2de1e253b630ab90fb6c14c9913e3f79353ced1be9c68ed42e7ee18b96074e - 1) = 0x22276f3b6051c72a50251baf7be7d0e405575a296daf2bd8e083a1a94f06090b * 0xffffffff00000001000000000000000000000000ffffffffffffffffffffffff + 1" by (simp only: chain_eval)
  qed (rule c one)+
qed

section \<open>modPow computes the modular power\<close>

declare modPow_loop.simps [simp del]

lemma bigint_rem_nonneg: "0 \<le> a \<Longrightarrow> 0 < m \<Longrightarrow> bigint_rem a m = a mod m"
  by (cases "a = 0") (simp_all add: bigint_rem_def)

lemma bigint_rem_fix:
  assumes "0 < m"
  shows "(if bigint_rem a m < 0 then bigint_rem a m + m else bigint_rem a m) = a mod m"
proof (cases "0 \<le> a")
  case True
  with assms show ?thesis by (simp add: bigint_rem_nonneg not_less)
next
  case False
  then have r: "bigint_rem a m = - ((- a) mod m)" using assms by (simp add: bigint_rem_def)
  show ?thesis
  proof (cases "(- a) mod m = 0")
    case True
    then have "m dvd - a" by (simp add: dvd_eq_mod_eq_0)
    then have "a mod m = 0" by simp
    with True r show ?thesis by simp
  next
    case nz: False
    moreover have "0 \<le> (- a) mod m" using assms by simp
    ultimately have "0 < (- a) mod m" by arith
    moreover have "a mod m = m - (- a) mod m"
      using nz zmod_zminus1_eq_if [of "- a" m] by simp
    ultimately show ?thesis using r by simp
  qed
qed

lemma modPow_loop_correct:
  assumes "0 \<le> r" "0 \<le> b" "0 \<le> e" "0 < m"
  shows "modPow_loop r b e m mod m = r * b ^ nat e mod m
       \<and> (r < m \<longrightarrow> 0 \<le> modPow_loop r b e m \<and> modPow_loop r b e m < m)"
  using assms
proof (induction r b e m rule: modPow_loop.induct)
  case (1 r b e m)
  show ?case
  proof (cases "e > 0")
    case False
    then have "modPow_loop r b e m = r" by (subst modPow_loop.simps) simp
    moreover from False "1.prems" have "nat e = 0" by simp
    ultimately show ?thesis using "1.prems" by simp
  next
    case True
    define r' where "r' = (if e AND 1 = 1 then bigint_rem (r * b) m else r)"
    define b' where "b' = bigint_rem (b * b) m"
    define e' where "e' = drop_bit 1 e"
    have odd: "(e AND 1 = 1) \<longleftrightarrow> odd e" by (simp add: and_one_eq mod_2_eq_odd)
    have b'_eq: "b' = b * b mod m" using "1.prems" by (simp add: b'_def bigint_rem_nonneg)
    have r'_eq: "r' = (if odd e then r * b mod m else r)"
      using "1.prems" by (simp add: r'_def odd bigint_rem_nonneg)
    have e'_eq: "nat e' = nat e div 2"
      using "1.prems" by (simp add: e'_def drop_bit_eq_div nat_div_distrib)
    have nn: "0 \<le> r'" "0 \<le> b'" "0 \<le> e'"
      using "1.prems" by (simp_all add: r'_eq b'_eq e'_def drop_bit_eq_div)
    from "1.IH" [OF True, folded r'_def b'_def e'_def, OF nn "1.prems"(4)]
    have IH: "modPow_loop r' b' e' m mod m = r' * b' ^ nat e' mod m"
      and IHb: "r' < m \<longrightarrow> 0 \<le> modPow_loop r' b' e' m \<and> modPow_loop r' b' e' m < m"
      by simp_all
    have unf: "modPow_loop r b e m = modPow_loop r' b' e' m"
      using True by (subst modPow_loop.simps) (simp add: r'_def b'_def e'_def)
    have pw: "b' ^ (nat e div 2) mod m = b ^ (2 * (nat e div 2)) mod m"
      by (simp add: b'_eq power_mult power2_eq_square power_mod)
    have "r' * b' ^ nat e' mod m = r * b ^ nat e mod m"
    proof (cases "odd e")
      case o: True
      then have "odd (nat e)" using "1.prems" by (simp add: even_nat_iff)
      then have ne: "nat e = Suc (2 * (nat e div 2))"
        using odd_two_times_div_two_succ [of "nat e"] by simp
      have "r' * b' ^ nat e' mod m = (r * b mod m) * (b' ^ (nat e div 2) mod m) mod m"
        using o by (simp add: r'_eq e'_eq mod_mult_right_eq)
      also have "\<dots> = (r * b) * b ^ (2 * (nat e div 2)) mod m"
        by (simp only: pw mod_mult_eq)
      also have "(r * b) * b ^ (2 * (nat e div 2)) = r * b ^ Suc (2 * (nat e div 2))"
        by simp
      finally show ?thesis using ne by simp
    next
      case ev: False
      then have ne: "nat e = 2 * (nat e div 2)"
        using "1.prems" by (simp add: even_nat_iff)
      have "r' * b' ^ nat e' mod m = r * (b' ^ (nat e div 2) mod m) mod m"
        using ev by (simp add: r'_eq e'_eq mod_mult_right_eq)
      also have "\<dots> = r * b ^ (2 * (nat e div 2)) mod m"
        by (simp only: pw mod_mult_right_eq)
      finally show ?thesis using ne by simp
    qed
    moreover have "r' < m" if "r < m"
      using that "1.prems" by (simp add: r'_eq)
    ultimately show ?thesis using IH IHb unf by auto
  qed
qed

lemma modPow_correct:
  assumes "0 \<le> b" "0 \<le> e" "1 < m"
  shows "modPow b e m = b ^ nat e mod m"
proof -
  have base: "bigint_rem (bigint_rem b m + m) m = b mod m"
    using assms by (simp add: bigint_rem_nonneg)
  have nn: "0 \<le> b mod m" using assms by simp
  from modPow_loop_correct [of 1 "b mod m" e m] assms nn
  have "modPow_loop 1 (b mod m) e m mod m = (b mod m) ^ nat e mod m"
    and "0 \<le> modPow_loop 1 (b mod m) e m" "modPow_loop 1 (b mod m) e m < m"
    by simp_all
  then show ?thesis by (simp add: modPow_def base power_mod)
qed

section \<open>Big-endian bytes and integers\<close>

lemma shift_or_byte: "push_bit 8 (x::int) OR uint (b::byte) = 256 * x + uint b"
proof -
  have "push_bit 8 x AND uint b = 0"
    by (rule bit_eqI) (auto simp: bit_simps dest: bit_imp_le_length)
  then have "push_bit 8 x + uint b = push_bit 8 x OR uint b"
    by (rule disjunctive_add_eq_or)
  then show ?thesis by (simp add: push_bit_eq_mult)
qed

lemma byte_bounds: "0 \<le> uint (b::byte) \<and> uint b < 256"
  using uint_lt2p [of b] by simp

lemma high_part: "drop_bit 8 (256 * x + uint (b::byte)) = (x::int)"
  using byte_bounds [of b] by (simp add: drop_bit_eq_div)

lemma low_byte: "word_of_int ((256 * x + uint (b::byte)) AND 0xff) = b"
proof -
  have "(256 * x + uint b) AND 0xff = take_bit 8 (256 * x + uint b)"
    by (simp add: take_bit_eq_mask mask_eq_exp_minus_1)
  also have "\<dots> = uint b"
    using byte_bounds [of b] by (simp add: take_bit_eq_mod)
  finally show ?thesis by simp
qed

lemma byte_parity: "((b::byte) AND 1 = 0) \<longleftrightarrow> even (uint b)"
proof -
  have "even b \<longleftrightarrow> even (uint b)"
    using bit_uint_iff [of b 0] by (simp add: bit_0)
  then show ?thesis by (simp add: and_one_eq even_iff_mod_2_eq_zero [symmetric])
qed

lemma int_parity: "((y::int) AND 1 = 1) \<longleftrightarrow> odd y"
  by (simp add: and_one_eq mod_2_eq_odd)

lemma bigint_of_bytes_snoc: "bigint_of_bytes (bs @ [b]) = 256 * bigint_of_bytes bs + uint b"
  by (simp add: bigint_of_bytes_def shift_or_byte)

lemma bigint_of_bytes_range: "0 \<le> bigint_of_bytes bs \<and> bigint_of_bytes bs < 256 ^ length bs"
proof (induction bs rule: rev_induct)
  case Nil
  show ?case by (simp add: bigint_of_bytes_def)
next
  case (snoc b bs)
  with byte_bounds [of b] show ?case by (simp add: bigint_of_bytes_snoc)
qed

lemma bytes_of_bigint_inverse: "bytes_of_bigint (length bs) (bigint_of_bytes bs) = bs"
proof (induction bs rule: rev_induct)
  case Nil
  show ?case by simp
next
  case (snoc b bs)
  then show ?case by (simp add: bigint_of_bytes_snoc high_part low_byte)
qed

lemma last_byte_parity:
  assumes "length bs = 32"
  shows "((bs ! 31) AND 1 = 0) \<longleftrightarrow> even (bigint_of_bytes bs)"
proof -
  from assms obtain cs b where bs: "bs = cs @ [b]" "length cs = 31"
    by (cases bs rule: rev_cases) auto
  then have "bs ! 31 = b" by (simp add: nth_append)
  with bs show ?thesis by (simp add: bigint_of_bytes_snoc byte_parity)
qed

section \<open>Point compression and the shared secret\<close>

lemma p256_facts: "1 < p256_p" "p256_p mod 4 = 3" "odd p256_p" "0 \<le> (p256_p + 1) div 4"
  by (simp_all add: p256_p_def)

lemma sqrt_int:
  assumes pr: "is_prime (nat p256_p)" and y: "0 \<le> y" "y < p256_p"
  shows "modPow (y * y mod p256_p) ((p256_p + 1) div 4) p256_p = y
       \<or> modPow (y * y mod p256_p) ((p256_p + 1) div 4) p256_p = p256_p - y"
proof -
  let ?p = p256_p
  have p1: "1 < ?p" by (rule p256_facts)
  define np ny where "np = nat ?p" and "ny = nat y"
  have ip: "?p = int np" and iy: "y = int ny" using p1 y by (simp_all add: np_def ny_def)
  have e: "nat ((?p + 1) div 4) = (np + 1) div 4"
    by (simp add: ip nat_div_distrib nat_add_distrib)
  have "modPow (y * y mod ?p) ((?p + 1) div 4) ?p
          = (y * y mod ?p) ^ nat ((?p + 1) div 4) mod ?p"
    using y p1 p256_facts(4) by (intro modPow_correct) simp_all
  also have "\<dots> = int ((ny * ny mod np) ^ ((np + 1) div 4) mod np)"
    unfolding e by (simp add: ip iy zmod_int)
  finally have m: "modPow (y * y mod ?p) ((?p + 1) div 4) ?p
                     = int ((ny * ny mod np) ^ ((np + 1) div 4) mod np)" .
  have np4: "np mod 4 = 3"
  proof -
    have "int (np mod 4) = int 3" using p256_facts(2) by (simp add: ip zmod_int)
    then show ?thesis by (simp only: of_nat_eq_iff)
  qed
  have lt: "ny < np" using y by (simp add: ip iy)
  from sqrt_3mod4 [OF pr [folded np_def] np4 lt]
  show ?thesis
  proof
    assume "(ny * ny mod np) ^ ((np + 1) div 4) mod np = ny"
    with m iy show ?thesis by simp
  next
    assume "(ny * ny mod np) ^ ((np + 1) div 4) mod np = np - ny"
    with m iy ip lt show ?thesis by (simp add: of_nat_diff)
  qed
qed

lemma key_parts:
  assumes "length key = 65" "key ! 0 = 0x04"
  shows "key = 0x04 # slice_bytes key 1 33 @ slice_bytes key 33 65"
    and "length (slice_bytes key 1 33) = 32" and "length (slice_bytes key 33 65) = 32"
proof -
  have "drop 1 key = take 32 (drop 1 key) @ drop 32 (drop 1 key)"
    by (rule append_take_drop_id [symmetric])
  then have "key = take 1 key @ take 32 (drop 1 key) @ drop 33 key"
    using append_take_drop_id [of 1 key] by simp
  moreover have "take 1 key = [key ! 0]"
    using assms(1) by (cases key) simp_all
  moreover have "drop 33 key = take 32 (drop 33 key)" using assms(1) by simp
  ultimately show "key = 0x04 # slice_bytes key 1 33 @ slice_bytes key 33 65"
    using assms(2) by (simp add: slice_bytes_def)
  show "length (slice_bytes key 1 33) = 32" "length (slice_bytes key 33 65) = 32"
    using assms(1) by (simp_all add: slice_bytes_def)
qed

lemma curve_rhs:
  assumes x: "0 \<le> x"
  shows "(let x3 = modPow x 3 p256_p;
              threeX = bigint_rem (3 * x) p256_p;
              y2 = bigint_rem (x3 - threeX + p256_b) p256_p
          in if y2 < 0 then y2 + p256_p else y2) = (x ^ 3 - 3 * x + p256_b) mod p256_p"
proof -
  have p1: "1 < p256_p" by (rule p256_facts)
  have a: "modPow x 3 p256_p = x ^ 3 mod p256_p"
    using modPow_correct [OF x _ p1, of 3] by simp
  have b: "bigint_rem (3 * x) p256_p = 3 * x mod p256_p"
    using x p1 by (simp add: bigint_rem_nonneg)
  have "(x ^ 3 mod p256_p - 3 * x mod p256_p) mod p256_p = (x ^ 3 - 3 * x) mod p256_p"
    by (rule mod_diff_eq)
  then have "(x ^ 3 mod p256_p - 3 * x mod p256_p + p256_b) mod p256_p
          = (x ^ 3 - 3 * x + p256_b) mod p256_p"
    by (metis mod_add_left_eq)
  then show ?thesis
    using bigint_rem_fix [of p256_p "x ^ 3 mod p256_p - 3 * x mod p256_p + p256_b"] p1
    by (simp add: a b Let_def)
qed

lemma p256_prime: "is_prime (nat p256_p)"
  using prime_p256 by (simp add: p256_p_def)

lemma decompress_compress:
  assumes v: "valid_p256_key key"
  shows "\<exists>c. compressPublicKey key = Inr c \<and> length c = 33 \<and> decompressPublicKey c = Inr key"
proof -
  define xs ys where "xs = slice_bytes key 1 33" and "ys = slice_bytes key 33 65"
  define x y where "x = bigint_of_bytes xs" and "y = bigint_of_bytes ys"
  from v have len: "length key = 65" and k0: "key ! 0 = 0x04"
    and yp: "y < p256_p"
    and curve: "(y * y) mod p256_p = (x ^ 3 - 3 * x + p256_b) mod p256_p"
    by (simp_all add: valid_p256_key_def Let_def x_def y_def xs_def ys_def)
  from key_parts [OF len k0]
  have key: "key = 0x04 # xs @ ys" and lx: "length xs = 32" and ly: "length ys = 32"
    by (simp_all add: xs_def ys_def)
  have x0: "0 \<le> x" and y0: "0 \<le> y"
    using bigint_of_bytes_range by (simp_all add: x_def y_def)
  define pfx :: byte where "pfx = (if (ys ! 31) AND 1 = 0 then 0x02 else 0x03)"
  have comp: "compressPublicKey key = Inr (pfx # xs)"
    using len k0 by (simp add: compressPublicKey_def Let_def pfx_def xs_def ys_def)
  have want: "(pfx = 0x03) \<longleftrightarrow> odd y"
    using last_byte_parity [OF ly] by (simp add: pfx_def y_def)
  have pfx23: "\<not> (pfx \<noteq> 0x02 \<and> pfx \<noteq> 0x03)" by (simp add: pfx_def)
  have sl: "slice_bytes (c # xs) (Suc 0) 33 = xs" for c
    using lx by (simp add: slice_bytes_def)
  define s where "s = modPow (y * y mod p256_p) ((p256_p + 1) div 4) p256_p"
  have s_cases: "s = y \<or> s = p256_p - y"
    unfolding s_def by (rule sqrt_int [OF p256_prime y0 yp])
  have sel: "(if (pfx = 0x03) \<noteq> (s AND 1 = 1) then p256_p - s else s) = y"
  proof (cases "s = y")
    case True
    then show ?thesis by (simp add: want int_parity)
  next
    case False
    with s_cases have sv: "s = p256_p - y" by simp
    then have "odd s \<longleftrightarrow> even y" using p256_facts(3) by simp
    with sv show ?thesis by (simp add: want int_parity)
  qed
  have yb: "bytes_of_bigint 32 y = ys"
    using bytes_of_bigint_inverse [of ys] ly by (simp add: y_def)
  have sl1: "slice_bytes (pfx # xs) 1 33 = xs"
    using lx by (simp add: slice_bytes_def)
  have cr: "(if bigint_rem (modPow x 3 p256_p - bigint_rem (3 * x) p256_p + p256_b) p256_p < 0
             then bigint_rem (modPow x 3 p256_p - bigint_rem (3 * x) p256_p + p256_b) p256_p
                    + p256_p
             else bigint_rem (modPow x 3 p256_p - bigint_rem (3 * x) p256_p + p256_b) p256_p)
            = y * y mod p256_p"
    using curve_rhs [OF x0] curve by (simp add: Let_def)
  have "decompressPublicKey (pfx # xs)
          = Inr (0x04 # xs @ bytes_of_bigint 32
                   (if (pfx = 0x03) \<noteq> (s AND 1 = 1) then p256_p - s else s))"
    unfolding decompressPublicKey_def Let_def sl1 x_def [symmetric] cr s_def [symmetric]
    using lx pfx23 by simp
  then have "decompressPublicKey (pfx # xs) = Inr (0x04 # xs @ ys)"
    by (simp only: sel yb)
  with comp key lx show ?thesis by simp
qed

lemma curve_check:
  fixes x y :: int
  assumes "y * y = q1 * p + r" "x ^ 3 + b = 3 * x + q2 * p + r"
  shows "y * y mod p = (x ^ 3 - 3 * x + b) mod p"
proof -
  have "x ^ 3 - 3 * x + b = q2 * p + r" using assms(2) by simp
  then show ?thesis using assms(1) by simp
qed

lemma generator_x_value: "bigint_of_bytes generator_x = 0x6b17d1f2e12c4247f8bce6e563a440f277037d812deb33a0f4a13945d898c296"
  by (simp add: generator_x_def bigint_of_bytes_def)

lemma generator_y_value: "bigint_of_bytes generator_y = 0x4fe342e2fe1a7f9b8ee7eb4a7c0f9e162bce33576b315ececbb6406837bf51f5"
  by (simp add: generator_y_def bigint_of_bytes_def)

lemma generator_slices:
  "slice_bytes generator_key 1 33 = generator_x" "slice_bytes generator_key 33 65 = generator_y"
  by (simp_all add: generator_key_def slice_bytes_def generator_x_def generator_y_def)

lemma valid_generator: "valid_p256_key generator_key"
  unfolding valid_p256_key_def generator_slices Let_def generator_x_value generator_y_value
proof (intro conjI)
  show "length generator_key = 65"
    by (simp add: generator_key_def generator_x_def generator_y_def)
  show "generator_key ! 0 = 0x04"
    by (simp add: generator_key_def)
  show "(0x6b17d1f2e12c4247f8bce6e563a440f277037d812deb33a0f4a13945d898c296::int) < p256_p"
    by (simp add: p256_p_def)
  show "(0x4fe342e2fe1a7f9b8ee7eb4a7c0f9e162bce33576b315ececbb6406837bf51f5::int) < p256_p"
    by (simp add: p256_p_def)
  show "(0x4fe342e2fe1a7f9b8ee7eb4a7c0f9e162bce33576b315ececbb6406837bf51f5::int) * 0x4fe342e2fe1a7f9b8ee7eb4a7c0f9e162bce33576b315ececbb6406837bf51f5 mod p256_p
      = (0x6b17d1f2e12c4247f8bce6e563a440f277037d812deb33a0f4a13945d898c296 ^ 3 - 3 * 0x6b17d1f2e12c4247f8bce6e563a440f277037d812deb33a0f4a13945d898c296 + p256_b) mod p256_p"
    by (rule curve_check [where ?q1.0 = "0x18ee0d07e1cadf1365bd80dd843314dd534834655163ed44a7f051b975f0f918"
          and ?q2.0 = "0x12bdd1ad23dfc833dccf5f6141d6bb4a1f365dc1430b0e600b52dd851938d2d6ac1f13af10c6cf49636cc473bf6b1231aa3140cad30ce8beb57a985cd88ffd70"
          and r = "0x55df5d5850f47bad82149139979369fe498a9022a412b5e0bedd2cfc21c3ed91"])
       (simp_all add: p256_p_def p256_b_def)
qed

lemma compress_generator: "compressPublicKey generator_key = Inr generator_compressed"
  by (simp add: compressPublicKey_def generator_key_def generator_compressed_def generator_x_def generator_y_def
      slice_bytes_def)

lemma peer_x_value: "bigint_of_bytes peer_x = 0x7cf27b188d034f7e8a52380304b51ac3c08969e277f21b35a60b48fc47669978"
  by (simp add: peer_x_def bigint_of_bytes_def)

lemma peer_y_value: "bigint_of_bytes peer_y = 0xf888aaee24712fc0d6c26539608bcf244582521ac3167dd661fb4862dd878c2e"
  by (simp add: peer_y_def bigint_of_bytes_def)

lemma peer_slices:
  "slice_bytes peer_key 1 33 = peer_x" "slice_bytes peer_key 33 65 = peer_y"
  by (simp_all add: peer_key_def slice_bytes_def peer_x_def peer_y_def)

lemma valid_peer: "valid_p256_key peer_key"
  unfolding valid_p256_key_def peer_slices Let_def peer_x_value peer_y_value
proof (intro conjI)
  show "length peer_key = 65"
    by (simp add: peer_key_def peer_x_def peer_y_def)
  show "peer_key ! 0 = 0x04"
    by (simp add: peer_key_def)
  show "(0x7cf27b188d034f7e8a52380304b51ac3c08969e277f21b35a60b48fc47669978::int) < p256_p"
    by (simp add: p256_p_def)
  show "(0xf888aaee24712fc0d6c26539608bcf244582521ac3167dd661fb4862dd878c2e::int) < p256_p"
    by (simp add: p256_p_def)
  show "(0xf888aaee24712fc0d6c26539608bcf244582521ac3167dd661fb4862dd878c2e::int) * 0xf888aaee24712fc0d6c26539608bcf244582521ac3167dd661fb4862dd878c2e mod p256_p
      = (0x7cf27b188d034f7e8a52380304b51ac3c08969e277f21b35a60b48fc47669978 ^ 3 - 3 * 0x7cf27b188d034f7e8a52380304b51ac3c08969e277f21b35a60b48fc47669978 + p256_b) mod p256_p"
    by (rule curve_check [where ?q1.0 = "0xf1491424670c3ed9edd0eca32c3b32c8876cfd7e8d6e387678f3709f6ac2b3e9"
          and ?q2.0 = "0x1dc3ba9d565a54501b9dc80f301669ffaea465279ca3dfc8fd5ff05f28c8c56521092d28dd3ee583c574eae91397457e1229867fae68ebb67aeaa6ccc90d5a4a"
          and r = "0x8c3dffbb84ab37204b90947194463028580c2ea69106430d17bf3a3fc090c2d"])
       (simp_all add: p256_p_def p256_b_def)
qed

lemma compress_peer: "compressPublicKey peer_key = Inr peer_compressed"
  by (simp add: compressPublicKey_def peer_key_def peer_compressed_def peer_x_def peer_y_def
      slice_bytes_def)

lemma double_x_value: "bigint_of_bytes double_x = 0x7cf27b188d034f7e8a52380304b51ac3c08969e277f21b35a60b48fc47669978"
  by (simp add: double_x_def bigint_of_bytes_def)

lemma double_y_value: "bigint_of_bytes double_y = 0x7775510db8ed040293d9ac69f7430dbba7dade63ce982299e04b79d227873d1"
  by (simp add: double_y_def bigint_of_bytes_def)

lemma double_slices:
  "slice_bytes double_key 1 33 = double_x" "slice_bytes double_key 33 65 = double_y"
  by (simp_all add: double_key_def slice_bytes_def double_x_def double_y_def)

lemma valid_double: "valid_p256_key double_key"
  unfolding valid_p256_key_def double_slices Let_def double_x_value double_y_value
proof (intro conjI)
  show "length double_key = 65"
    by (simp add: double_key_def double_x_def double_y_def)
  show "double_key ! 0 = 0x04"
    by (simp add: double_key_def)
  show "(0x7cf27b188d034f7e8a52380304b51ac3c08969e277f21b35a60b48fc47669978::int) < p256_p"
    by (simp add: p256_p_def)
  show "(0x7775510db8ed040293d9ac69f7430dbba7dade63ce982299e04b79d227873d1::int) < p256_p"
    by (simp add: p256_p_def)
  show "(0x7775510db8ed040293d9ac69f7430dbba7dade63ce982299e04b79d227873d1::int) * 0x7775510db8ed040293d9ac69f7430dbba7dade63ce982299e04b79d227873d1 mod p256_p
      = (0x7cf27b188d034f7e8a52380304b51ac3c08969e277f21b35a60b48fc47669978 ^ 3 - 3 * 0x7cf27b188d034f7e8a52380304b51ac3c08969e277f21b35a60b48fc47669978 + p256_b) mod p256_p"
    by (rule curve_check [where ?q1.0 = "0x37be471e29df59404c22306b23947ffc68594a07413cc9b4fcdfd9afb39b8c"
          and ?q2.0 = "0x1dc3ba9d565a54501b9dc80f301669ffaea465279ca3dfc8fd5ff05f28c8c56521092d28dd3ee583c574eae91397457e1229867fae68ebb67aeaa6ccc90d5a4a"
          and r = "0x8c3dffbb84ab37204b90947194463028580c2ea69106430d17bf3a3fc090c2d"])
       (simp_all add: p256_p_def p256_b_def)
qed

lemma compress_double: "compressPublicKey double_key = Inr double_compressed"
  by (simp add: compressPublicKey_def double_key_def double_compressed_def double_x_def double_y_def
      slice_bytes_def)

text \<open>
  Claim C8. For an uncompressed P-256 public key (65 bytes, prefix \<open>0x04\<close>, coordinates in
  the field and on the curve \<open>y\<^sup>2 = x\<^sup>3 - 3x + b\<close> modulo \<open>p\<close>), \<open>compressPublicKey\<close> returns 33
  bytes and \<open>decompressPublicKey\<close> of them returns the original 65 bytes, so both
  coordinates are reproduced.
\<close>

theorem compress_decompress_roundtrip:
  "valid_p256_key key \<Longrightarrow>
     \<exists>c. compressPublicKey key = Inr c \<and> length c = 33 \<and> decompressPublicKey c = Inr key"
  by (rule decompress_compress)

theorem compress_decompress_roundtrip_witness:
  "valid_p256_key generator_key
   \<and> compressPublicKey generator_key = Inr generator_compressed
   \<and> length generator_compressed = 33
   \<and> decompressPublicKey generator_compressed = Inr generator_key
   \<and> valid_p256_key peer_key
   \<and> compressPublicKey peer_key = Inr peer_compressed
   \<and> length peer_compressed = 33
   \<and> decompressPublicKey peer_compressed = Inr peer_key"
  using compress_decompress_roundtrip [OF valid_generator]
    compress_decompress_roundtrip [OF valid_peer]
    valid_generator valid_peer
  by (simp add: compress_generator compress_peer)

text \<open>
  \<open>deriveSharedSecret\<close> on the compressed form of a valid key: the ECDH is taken with the
  key itself, and its bits go through HKDF with the salt (32 zero bytes when there is
  none) and the UTF-8 bytes of the label.
\<close>

lemma deriveSharedSecret_valid_key:
  assumes "valid_p256_key pub" and "compressPublicKey pub = Inr c"
  shows "deriveSharedSecret wc priv c info salt =
           (case ecdh wc priv pub of
              None \<Rightarrow> Inl WebCryptoError
            | Some rawBits \<Rightarrow>
                Inr (hkdf_deriveBits wc rawBits
                       (case salt of Some s \<Rightarrow> s | None \<Rightarrow> replicate 32 0)
                       (TextEncoder_encode info) 256))"
proof -
  from decompress_compress [OF assms(1)] assms(2)
  have "decompressPublicKey c = Inr pub" by auto
  then show ?thesis by (simp add: deriveSharedSecret_def Let_def split: option.split)
qed

text \<open>Multiples of a point: \<open>(m + n) P = m P + n P\<close> and \<open>m (n P) = (m n) P\<close>.\<close>

lemma scalar_mult_add:
  assumes "point_monoid C"
  shows "scalar_mult C (m + n) P = point_add C (scalar_mult C m P) (scalar_mult C n P)"
proof (induction m)
  case 0
  from assms show ?case by (simp add: point_monoid_def)
next
  case (Suc m)
  from assms have "point_add C P (point_add C (scalar_mult C m P) (scalar_mult C n P))
                 = point_add C (point_add C P (scalar_mult C m P)) (scalar_mult C n P)"
    by (simp add: point_monoid_def)
  with Suc show ?case by simp
qed

lemma scalar_mult_mult:
  assumes "point_monoid C"
  shows "scalar_mult C m (scalar_mult C n P) = scalar_mult C (m * n) P"
proof (induction m)
  case 0
  show ?case by simp
next
  case (Suc m)
  have "scalar_mult C (Suc m) (scalar_mult C n P)
          = point_add C (scalar_mult C n P) (scalar_mult C (m * n) P)"
    using Suc by simp
  also have "\<dots> = scalar_mult C (n + m * n) P"
    by (rule scalar_mult_add [OF assms, symmetric])
  finally show ?case by simp
qed

text \<open>
  Claim C1. The platform's point addition is associative with the point at infinity as
  neutral element, and its ECDH returns the \<open>x\<close> coordinate of the private scalar times the
  imported point. \<open>A\<close> and \<open>B\<close> are valid key pairs with the scalars \<open>a\<close> and \<open>b\<close>: the public
  keys are the raw forms of \<open>a G\<close> and \<open>b G\<close>, and \<open>cA\<close> and \<open>cB\<close> are their compressed forms.
  Then for every label and every salt, present or absent, \<open>deriveSharedSecret\<close> of \<open>A\<close>'s
  private key and \<open>cB\<close> and \<open>deriveSharedSecret\<close> of \<open>B\<close>'s private key and \<open>cA\<close> both succeed
  with the same 32 bytes: the HKDF output for the \<open>x\<close> coordinate of \<open>(a b) G\<close>, the salt
  (32 zero bytes when absent) and the UTF-8 bytes of the label.
\<close>

theorem deriveSharedSecret_agreement:
  assumes "point_monoid C" and "implements_ecdh C wc"
    and "valid_key_pair C privA pubA" and "valid_key_pair C privB pubB"
    and "compressPublicKey pubA = Inr cA" and "compressPublicKey pubB = Inr cB"
  shows "\<exists>secret. length secret = 32
           \<and> secret = hkdf_deriveBits wc
                (x_bytes C (scalar_mult C (scalar_of C privA * scalar_of C privB) (base_point C)))
                (case salt of Some s \<Rightarrow> s | None \<Rightarrow> replicate 32 0)
                (TextEncoder_encode info) 256
           \<and> deriveSharedSecret wc privA cB info salt = Inr secret
           \<and> deriveSharedSecret wc privB cA info salt = Inr secret"
proof -
  let ?a = "scalar_of C privA" and ?b = "scalar_of C privB"
  from assms(3) have vA: "valid_p256_key pubA"
    and iA: "point_of_raw C pubA = Some (scalar_mult C ?a (base_point C))"
    unfolding valid_key_pair_def by blast+
  from assms(4) have vB: "valid_p256_key pubB"
    and iB: "point_of_raw C pubB = Some (scalar_mult C ?b (base_point C))"
    unfolding valid_key_pair_def by blast+
  have eA: "ecdh wc privA pubB = Some (x_bytes C (scalar_mult C (?a * ?b) (base_point C)))"
    using assms(2) by (simp add: implements_ecdh_def iB scalar_mult_mult [OF assms(1)])
  have "ecdh wc privB pubA = Some (x_bytes C (scalar_mult C (?b * ?a) (base_point C)))"
    using assms(2) by (simp add: implements_ecdh_def iA scalar_mult_mult [OF assms(1)])
  then have eB: "ecdh wc privB pubA
                   = Some (x_bytes C (scalar_mult C (?a * ?b) (base_point C)))"
    by (simp add: mult.commute)
  show ?thesis
    by (simp add: deriveSharedSecret_valid_key [OF vB assms(6)]
        deriveSharedSecret_valid_key [OF vA assms(5)] eA eB hkdf_deriveBits_def)
qed

lemma stand_in_monoid: "point_monoid stand_in_platform"
  by (simp add: point_monoid_def stand_in_platform_def add.assoc)

lemma stand_in_ecdh: "implements_ecdh stand_in_platform dh_webcrypto"
  by (simp add: implements_ecdh_def dh_webcrypto_def no_webcrypto_def)

lemma keys_differ: "generator_key \<noteq> double_key"
  by (simp add: generator_key_def double_key_def generator_x_def double_x_def)

lemma stand_in_pair_generator: "valid_key_pair stand_in_platform 1 generator_key"
  using valid_generator by (simp add: valid_key_pair_def stand_in_platform_def)

lemma stand_in_pair_double: "valid_key_pair stand_in_platform 2 double_key"
  using valid_double keys_differ
  by (simp add: valid_key_pair_def stand_in_platform_def numeral_2_eq_2)

theorem deriveSharedSecret_agreement_witness:
  "point_monoid stand_in_platform \<and> implements_ecdh stand_in_platform dh_webcrypto
   \<and> valid_key_pair stand_in_platform 1 generator_key
   \<and> valid_key_pair stand_in_platform 2 double_key
   \<and> compressPublicKey generator_key = Inr generator_compressed
   \<and> compressPublicKey double_key = Inr double_compressed
   \<and> (\<exists>secret. length secret = 32
         \<and> deriveSharedSecret dh_webcrypto 1 double_compressed BOND_INFO (Some (replicate 32 7))
             = Inr secret
         \<and> deriveSharedSecret dh_webcrypto 2 generator_compressed BOND_INFO (Some (replicate 32 7))
             = Inr secret)"
proof -
  from deriveSharedSecret_agreement [OF stand_in_monoid stand_in_ecdh stand_in_pair_generator
      stand_in_pair_double compress_generator compress_double,
      of "Some (replicate 32 7)" BOND_INFO]
  have "\<exists>secret. length secret = 32
         \<and> deriveSharedSecret dh_webcrypto 1 double_compressed BOND_INFO (Some (replicate 32 7))
             = Inr secret
         \<and> deriveSharedSecret dh_webcrypto 2 generator_compressed BOND_INFO (Some (replicate 32 7))
             = Inr secret"
    by blast
  with stand_in_monoid stand_in_ecdh stand_in_pair_generator stand_in_pair_double
    compress_generator compress_double
  show ?thesis by simp
qed

section \<open>Care score, decay and tiers\<close>

text \<open>
  The value of \<open>double_of\<close> at a number whose significand, scaled by \<open>2 ^ k\<close>, lies between
  \<open>2 ^ 52\<close> and \<open>2 ^ 53\<close>; then the doubles of the literals and the six bounds that
  \<open>scoreToTier\<close> compares with.
\<close>

lemma double_of_scaled:
  assumes "2 ^ 52 \<le> x * 2 ^ k" and "x * 2 ^ k < 2 ^ 53"
  shows "double_of x = of_int (round_half_even (x * 2 ^ k)) / 2 ^ k"
proof -
  have pos: "0 < x"
  proof (rule ccontr)
    assume "\<not> 0 < x"
    then have "x * 2 ^ k \<le> 0" by (simp add: mult_le_0_iff)
    with assms(1) show False by (smt (verit) zero_less_power)
  qed
  have p: "2 powr real_of_int (52 - int k) = (2::real) ^ 52 / 2 ^ k"
    by (simp add: powr_diff powr_realpow)
  have "real_of_int (52 - int k + 1) = (53::real) - real k" by simp
  then have q: "2 powr real_of_int (52 - int k + 1) = (2::real) ^ 53 / 2 ^ k"
    by (simp only: powr_diff) (simp add: powr_realpow)
  have lo: "2 powr real_of_int (52 - int k) \<le> x"
    unfolding p using assms(1) by (simp add: field_simps)
  have hi: "x < 2 powr real_of_int (52 - int k + 1)"
    unfolding q using assms(2) by (simp add: field_simps)
  have fl: "\<lfloor>log 2 x\<rfloor> = 52 - int k"
    using floor_log_eq_powr_iff [OF pos, of 2 "52 - int k"] lo hi by simp
  have e: "2 powr - real k = 1 / (2::real) ^ k"
    by (simp add: powr_minus powr_realpow inverse_eq_divide)
  show ?thesis
    using pos by (simp add: double_of_def fl Let_def e)
qed

lemma double_literals:
  "double_of 0.02 = 5764607523034235 / 2 ^ 58"
  "double_of 0.2 = 7205759403792794 / 2 ^ 55"
  "double_of 0.5 = 1 / 2"
  "double_of 0.8 = 7205759403792794 / 2 ^ 53"
  "double_of 0.18 = 6485183463413514 / 2 ^ 55"
  "double_of 0.48 = 8646911284551352 / 2 ^ 54"
  "double_of 0.52 = 4683743612465316 / 2 ^ 53"
  "double_of 0.82 = 7385903388887613 / 2 ^ 53"
  by (subst double_of_scaled [where k = 58], simp_all add: round_half_even_def Let_def)
     (subst double_of_scaled [where k = 55], simp_all add: round_half_even_def Let_def,
      subst double_of_scaled [where k = 53], simp_all add: round_half_even_def Let_def,
      subst double_of_scaled [where k = 53], simp_all add: round_half_even_def Let_def,
      subst double_of_scaled [where k = 55], simp_all add: round_half_even_def Let_def,
      subst double_of_scaled [where k = 54], simp_all add: round_half_even_def Let_def,
      subst double_of_scaled [where k = 53], simp_all add: round_half_even_def Let_def,
      subst double_of_scaled [where k = 53], simp_all add: round_half_even_def Let_def)

lemma double_more:
  "double_of 0.22 = 7926335344172073 / 2 ^ 55"
  "double_of 0.78 = 7025615418697974 / 2 ^ 53"
  by (subst double_of_scaled [where k = 55], simp_all add: round_half_even_def Let_def)
     (subst double_of_scaled [where k = 53], simp_all add: round_half_even_def Let_def)

lemma tier_bounds:
  "double_add threshold_resonant hysteresis = 7385903388887614 / 2 ^ 53"
  "double_sub threshold_resonant hysteresis = 7025615418697974 / 2 ^ 53"
  "double_add threshold_coherent hysteresis = 4683743612465316 / 2 ^ 53"
  "double_sub threshold_coherent hysteresis = 8646911284551352 / 2 ^ 54"
  "double_add threshold_strut hysteresis = 7926335344172073 / 2 ^ 55"
  "double_sub threshold_strut hysteresis = 6485183463413515 / 2 ^ 55"
  unfolding double_add_def double_sub_def threshold_resonant_def threshold_coherent_def
    threshold_strut_def hysteresis_def double_literals
  by (subst double_of_scaled [where k = 53], simp_all add: round_half_even_def Let_def)
     (subst double_of_scaled [where k = 53], simp_all add: round_half_even_def Let_def,
      subst double_of_scaled [where k = 53], simp_all add: round_half_even_def Let_def,
      subst double_of_scaled [where k = 54], simp_all add: round_half_even_def Let_def,
      subst double_of_scaled [where k = 55], simp_all add: round_half_even_def Let_def,
      subst double_of_scaled [where k = 55], simp_all add: round_half_even_def Let_def)

lemmas tier_consts = tier_bounds

lemmas component_defs =
  frequency_of_def reciprocity_of_def consistency_of_def responsiveness_of_def
  dailyCounts_or_total_def avgResponseMinutes_of_def

lemma rawScore_fresh: "rawScore_of fresh_tracking = 0.55"
  by (simp add: rawScore_of_def fresh_tracking_def recalculateCareScore_def component_defs)

lemma rawScore_range: "0 \<le> rawScore_of tracking \<and> rawScore_of tracking \<le> 1"
  by (simp add: rawScore_of_def recalculateCareScore_def Let_def)

lemma updateCareScore_bonds:
  assumes "map_of (bonds st) peerId = Some bond" "interactions st peerId = Some tracking"
  shows "map_of (bonds (snd (updateCareScore env peerId days st))) peerId =
     Some (bond\<lparr>trust :=
       \<lparr>careScore = (if days > 0 then applyDecay (rawScore_of tracking) days
                      else rawScore_of tracking),
        components =
          \<lparr>frequency = frequency_of (sentCount tracking) (recvCount tracking),
           reciprocity = reciprocity_of (sentCount tracking) (recvCount tracking),
           consistency = consistency_of (dailyCounts_or_total tracking),
           responsiveness = responsiveness_of (avgResponseMinutes_of tracking)\<rparr>,
        tier = scoreToTier (if days > 0 then applyDecay (rawScore_of tracking) days
                            else rawScore_of tracking) (Some (tier (trust bond)))\<rparr>\<rparr>)"
  using assms by (simp add: updateCareScore_def Let_def update_conv' emit_def)

lemma createBondRecord_fresh:
  "map_of (bonds (snd (createBondRecord env peerId pk ks secret ts st))) peerId =
     Some \<lparr>version = 1,
           partner = \<lparr>nodeId = peerId, publicKey = pk, keySequence = ks\<rparr>,
           trust = \<lparr>careScore = 0.5,
                    components = \<lparr>frequency = 0.5, reciprocity = 0.5, consistency = 1,
                                  responsiveness = 1\<rparr>,
                    tier = STRUT\<rparr>,
           channel = \<lparr>sharedSecret = secret, lastInteraction = ts,
                      totalExchanges = 0, status = ACTIVE\<rparr>,
           permissions = \<lparr>grantedVaultLayers = [], stateVisibility = VOLTAGE\<rparr>,
           createdAt = ts\<rparr>
   \<and> interactions (snd (createBondRecord env peerId pk ks secret ts st)) peerId
       = Some fresh_tracking"
  by (simp add: createBondRecord_def Let_def emit_def update_conv' fresh_tracking_def
      scoreToTier_def tier_consts)

text \<open>
  Claim C4. A bond as \<open>createBondRecord\<close> leaves it (care score 0.5, tier \<open>STRUT\<close>, both
  counters zero, no daily counts, no response-time samples): \<open>updateCareScore\<close> with zero
  elapsed days stores the care score 0.55, with the components frequency 0, reciprocity 0.5,
  consistency 1 and responsiveness 1, and the tier \<open>COHERENT\<close>. Scores are real numbers
  here, so the score is 0.55 exactly.
\<close>

theorem updateCareScore_fresh_bond:
  assumes "map_of (bonds st) peerId = Some bond"
    and "careScore (trust bond) = 0.5" and "tier (trust bond) = STRUT"
    and "interactions st peerId = Some fresh_tracking"
  shows "\<exists>b. map_of (bonds (snd (updateCareScore env peerId 0 st))) peerId = Some b
           \<and> careScore (trust b) = 0.55 \<and> tier (trust b) = COHERENT
           \<and> components (trust b) =
                \<lparr>frequency = 0, reciprocity = 0.5, consistency = 1, responsiveness = 1\<rparr>"
  using updateCareScore_bonds [OF assms(1) assms(4), of env 0] assms(3)
  apply (simp add: rawScore_fresh)
  apply (simp add: scoreToTier_def tier_consts fresh_tracking_def component_defs)
  done

theorem updateCareScore_fresh_bond_witness:
  "(let st = snd (createBondRecord quiet_env ''peer'' [] 0 [] 0 empty_manager) in
    (\<exists>bond. map_of (bonds st) ''peer'' = Some bond \<and> careScore (trust bond) = 0.5
        \<and> tier (trust bond) = STRUT) \<and> interactions st ''peer'' = Some fresh_tracking \<and>
    (\<exists>b. map_of (bonds (snd (updateCareScore quiet_env ''peer'' 0 st))) ''peer'' = Some b
           \<and> careScore (trust b) = 0.55 \<and> tier (trust b) = COHERENT))"
proof -
  let ?st = "snd (createBondRecord quiet_env ''peer'' [] 0 [] 0 empty_manager)"
  from createBondRecord_fresh [of quiet_env "''peer''" "[]" 0 "[]" 0 empty_manager]
  obtain bond where b: "map_of (bonds ?st) ''peer'' = Some bond"
      "careScore (trust bond) = 0.5" "tier (trust bond) = STRUT"
    and i: "interactions ?st ''peer'' = Some fresh_tracking"
    by simp
  from updateCareScore_fresh_bond [OF b i, of quiet_env] b i show ?thesis
    unfolding Let_def by blast
qed

text \<open>
  Claim C5, as the code has it. The bounds are doubles: \<open>threshold + H\<close> and
  \<open>threshold - H\<close> as the code evaluates them, which is \<open>0.8200000000000001\<close> for
  \<open>0.8 + 0.02\<close> and \<open>0.18000000000000002\<close> for \<open>0.2 - 0.02\<close>, and the doubles of the literals
  \<open>0.52\<close>, \<open>0.22\<close>, \<open>0.78\<close> and \<open>0.48\<close> for the other four. From a current tier \<open>X\<close>,
  \<open>scoreToTier\<close> returns a lower tier only when the score is below the bound
  \<open>threshold X - H\<close>, and returns a higher tier \<open>Y\<close> only when the score is at least the
  bound \<open>threshold Y + H\<close> (a score equal to the bound promotes); the tiers are tried from
  \<open>RESONANT\<close> down, with \<open>GHOST\<close> left when none applies.
\<close>

theorem scoreToTier_hysteresis:
  "(tier_rank (scoreToTier s (Some X)) < tier_rank X
      \<longrightarrow> s < double_sub (threshold_of X) hysteresis) \<and>
   (tier_rank X < tier_rank (scoreToTier s (Some X))
      \<longrightarrow> s \<ge> double_add (threshold_of (scoreToTier s (Some X))) hysteresis) \<and>
   scoreToTier s (Some X) =
     (if s \<ge> (if X = RESONANT then double_sub threshold_resonant hysteresis
                else double_add threshold_resonant hysteresis)
        then RESONANT
      else if s \<ge> (if X = COHERENT then double_sub threshold_coherent hysteresis
                     else double_add threshold_coherent hysteresis)
        then COHERENT
      else if s \<ge> (if X = STRUT then double_sub threshold_strut hysteresis
                     else double_add threshold_strut hysteresis)
        then STRUT
      else GHOST) \<and>
   double_add threshold_resonant hysteresis = 7385903388887614 / 2 ^ 53 \<and>
   double_sub threshold_resonant hysteresis = double_of 0.78 \<and>
   double_add threshold_coherent hysteresis = double_of 0.52 \<and>
   double_sub threshold_coherent hysteresis = double_of 0.48 \<and>
   double_add threshold_strut hysteresis = double_of 0.22 \<and>
   double_sub threshold_strut hysteresis = 6485183463413515 / 2 ^ 55 \<and>
   double_of 0.82 < double_add threshold_resonant hysteresis \<and>
   double_of 0.18 < double_sub threshold_strut hysteresis"
proof (intro conjI)
  show "tier_rank (scoreToTier s (Some X)) < tier_rank X
          \<longrightarrow> s < double_sub (threshold_of X) hysteresis"
    by (cases X) (auto simp: scoreToTier_def tier_rank_def threshold_of_def tier_bounds)
  show "tier_rank X < tier_rank (scoreToTier s (Some X))
          \<longrightarrow> s \<ge> double_add (threshold_of (scoreToTier s (Some X))) hysteresis"
    by (cases X) (auto simp: scoreToTier_def tier_rank_def threshold_of_def tier_bounds)
  show "scoreToTier s (Some X) =
     (if s \<ge> (if X = RESONANT then double_sub threshold_resonant hysteresis
                else double_add threshold_resonant hysteresis)
        then RESONANT
      else if s \<ge> (if X = COHERENT then double_sub threshold_coherent hysteresis
                     else double_add threshold_coherent hysteresis)
        then COHERENT
      else if s \<ge> (if X = STRUT then double_sub threshold_strut hysteresis
                     else double_add threshold_strut hysteresis)
        then STRUT
      else GHOST)"
    by (cases X) (auto simp: scoreToTier_def tier_bounds)
qed (unfold tier_bounds double_literals double_more, simp_all)

text \<open>
  The doubles next to two of the bounds: the literal \<open>0.82\<close> is below \<open>0.8 + 0.02\<close> and is
  not promoted from \<open>COHERENT\<close>, the literal \<open>0.18\<close> is below \<open>0.2 - 0.02\<close> and drops from
  \<open>STRUT\<close>, and the literal \<open>0.48\<close> is \<open>0.5 - 0.02\<close> and stays \<open>COHERENT\<close>.
\<close>

lemma scoreToTier_at_literals:
  "scoreToTier (double_of 0.82) (Some COHERENT) = COHERENT"
  "scoreToTier (double_of 0.18) (Some STRUT) = GHOST"
  "scoreToTier (double_of 0.48) (Some COHERENT) = COHERENT"
  unfolding scoreToTier_def tier_bounds double_literals by simp_all

theorem scoreToTier_hysteresis_witness:
  "tier_rank (scoreToTier (double_of 0.18) (Some STRUT)) < tier_rank STRUT
   \<and> double_of 0.18 < double_sub (threshold_of STRUT) hysteresis
   \<and> tier_rank COHERENT
        < tier_rank (scoreToTier (double_add threshold_resonant hysteresis) (Some COHERENT))
   \<and> double_add threshold_resonant hysteresis
        \<ge> double_add (threshold_of (scoreToTier (double_add threshold_resonant hysteresis)
                                     (Some COHERENT))) hysteresis"
  using scoreToTier_hysteresis [of "double_of 0.18" STRUT]
    scoreToTier_hysteresis [of "double_add threshold_resonant hysteresis" COHERENT]
  unfolding scoreToTier_def threshold_of_def tier_bounds double_literals
  by (simp add: tier_rank_def tier_bounds)

text \<open>
  Claim C5 as stated fails at the boundary: from \<open>STRUT\<close>, the score \<open>0.52\<close> is promoted to
  \<open>COHERENT\<close> although it does not rise above \<open>threshold COHERENT + H\<close>, which the code
  evaluates to the same double.
\<close>

theorem scoreToTier_promote_counterexample:
  "tier_rank STRUT < tier_rank (scoreToTier (double_of 0.52) (Some STRUT))
   \<and> \<not> (double_of 0.52
          > double_add (threshold_of (scoreToTier (double_of 0.52) (Some STRUT))) hysteresis)"
  unfolding scoreToTier_def threshold_of_def tier_bounds double_literals
  by (simp add: tier_rank_def tier_bounds)

text \<open>
  Claim C6. For a score in \<open>[0, 1]\<close> and a nonnegative number of days \<open>t\<close>, \<open>applyDecay\<close>
  returns \<open>s * exp (- (ln 2 / 14) * t)\<close>; fourteen days halve the score; and
  \<open>updateCareScore\<close> stores the decayed raw score when its days argument is positive and
  the raw score itself otherwise. Real arithmetic stands for the floating-point one.
\<close>

theorem applyDecay_half_life:
  assumes "0 \<le> s" "s \<le> 1" "0 \<le> t"
    and "map_of (bonds st) peerId = Some bond" and "interactions st peerId = Some tracking"
  shows "applyDecay s t = s * exp (- (ln 2 / 14) * t)
       \<and> applyDecay s 14 = s / 2
       \<and> (\<exists>b. map_of (bonds (snd (updateCareScore env peerId days st))) peerId = Some b
            \<and> careScore (trust b) =
                (if days > 0 then rawScore_of tracking * exp (- (ln 2 / 14) * days)
                 else rawScore_of tracking))"
proof -
  have half: "exp (- ln (2::real)) = 1 / 2"
    by (simp add: exp_minus inverse_eq_divide)
  have decay: "applyDecay x d = x * exp (- (ln 2 / 14) * d)" if "0 \<le> x" for x d
    using that by (simp add: applyDecay_def halfLifeDays_def Let_def max_def)
  have "applyDecay s 14 = s / 2"
    using assms(1) half by (simp add: decay)
  moreover have "applyDecay (rawScore_of tracking) days
                   = rawScore_of tracking * exp (- (ln 2 / 14) * days)"
    using rawScore_range [of tracking] by (simp add: decay)
  ultimately show ?thesis
    using updateCareScore_bonds [OF assms(4) assms(5), of env days] assms(1)
    by (simp add: decay)
qed

theorem applyDecay_half_life_witness:
  "(let st = snd (createBondRecord quiet_env ''peer'' [] 0 [] 0 empty_manager) in
     (0::real) \<le> 1 \<and> (\<exists>bond. map_of (bonds st) ''peer'' = Some bond)
     \<and> interactions st ''peer'' = Some fresh_tracking
     \<and> applyDecay 1 14 = 1 / 2
     \<and> (\<exists>b. map_of (bonds (snd (updateCareScore quiet_env ''peer'' 14 st))) ''peer'' = Some b
            \<and> careScore (trust b) = 0.275))"
proof -
  let ?st = "snd (createBondRecord quiet_env ''peer'' [] 0 [] 0 empty_manager)"
  have half: "exp (- ln (2::real)) = 1 / 2"
    by (simp add: exp_minus inverse_eq_divide)
  from createBondRecord_fresh [of quiet_env "''peer''" "[]" 0 "[]" 0 empty_manager]
  obtain bond where b: "map_of (bonds ?st) ''peer'' = Some bond"
    and i: "interactions ?st ''peer'' = Some fresh_tracking"
    by simp
  from applyDecay_half_life [OF _ _ _ b i, of 1 14 quiet_env 14] b i show ?thesis
    unfolding Let_def by (auto simp: rawScore_fresh half)
qed

section \<open>Wire codec: length checks\<close>

lemma byte_at_Some: "i < length buffer \<Longrightarrow> byte_at buffer i = Some (buffer ! i)"
  by (simp add: byte_at_def)

lemma read_slice_Some:
  "a \<le> b \<Longrightarrow> b \<le> length buffer \<Longrightarrow> read_slice buffer a b = Some (slice_bytes buffer a b)"
  by (simp add: read_slice_def)

lemma read_be32_Some:
  "off + 3 < length buffer \<Longrightarrow>
   read_be32 buffer off = Some (be32 (buffer ! off) (buffer ! (off + 1))
                                      (buffer ! (off + 2)) (buffer ! (off + 3)))"
  by (simp add: read_be32_def byte_at_def)

lemma deserializeStateUpdate_ok:
  "length buffer = 105 \<Longrightarrow> \<exists>m. deserializeStateUpdate buffer = Inr m"
  by (simp add: deserializeStateUpdate_def byte_at_Some read_slice_Some read_be32_Some)

lemma deserializeBondHandshake_ok:
  "length buffer = 43 \<Longrightarrow> \<exists>p. deserializeBondHandshake buffer = Inr p"
  by (simp add: deserializeBondHandshake_def byte_at_Some read_slice_Some read_be32_Some)

lemma deserializeVaultFragment_ok:
  "4 \<le> length buffer \<Longrightarrow> \<exists>f. deserializeVaultFragment buffer = Inr f"
  by (auto simp: deserializeVaultFragment_def byte_at_def read_slice_def)

text \<open>
  Claim C9. Each decoder checks the length first: \<open>deserializeStateUpdate\<close> fails with the
  length error on every buffer whose length is not 105, \<open>deserializeBondHandshake\<close> on
  every buffer whose length is not 43, \<open>deserializeVaultFragment\<close> on every buffer shorter
  than 4 bytes; and no decoder reads out of the bounds of its buffer: on every buffer it
  either fails with the length error or returns a value, all of whose reads were in range.
\<close>

theorem decoders_check_length:
  "(length buffer \<noteq> 105 \<longrightarrow> deserializeStateUpdate buffer = Inl LengthError) \<and>
   (length buffer \<noteq> 43 \<longrightarrow> deserializeBondHandshake buffer = Inl LengthError) \<and>
   (length buffer < 4 \<longrightarrow> deserializeVaultFragment buffer = Inl LengthError) \<and>
   deserializeStateUpdate buffer \<noteq> Inl OutOfBounds \<and>
   deserializeBondHandshake buffer \<noteq> Inl OutOfBounds \<and>
   deserializeVaultFragment buffer \<noteq> Inl OutOfBounds \<and>
   (length buffer = 105 \<longrightarrow> (\<exists>m. deserializeStateUpdate buffer = Inr m)) \<and>
   (length buffer = 43 \<longrightarrow> (\<exists>p. deserializeBondHandshake buffer = Inr p)) \<and>
   (4 \<le> length buffer \<longrightarrow> (\<exists>f. deserializeVaultFragment buffer = Inr f))"
proof -
  have su: "deserializeStateUpdate buffer \<noteq> Inl OutOfBounds"
  proof (cases "length buffer = 105")
    case True
    from deserializeStateUpdate_ok [OF this] show ?thesis by auto
  next
    case False
    then show ?thesis by (simp add: deserializeStateUpdate_def)
  qed
  have hs: "deserializeBondHandshake buffer \<noteq> Inl OutOfBounds"
  proof (cases "length buffer = 43")
    case True
    from deserializeBondHandshake_ok [OF this] show ?thesis by auto
  next
    case False
    then show ?thesis by (simp add: deserializeBondHandshake_def)
  qed
  have vf: "deserializeVaultFragment buffer \<noteq> Inl OutOfBounds"
  proof (cases "4 \<le> length buffer")
    case True
    from deserializeVaultFragment_ok [OF this] show ?thesis by auto
  next
    case False
    then show ?thesis by (simp add: deserializeVaultFragment_def)
  qed
  show ?thesis
    using su hs vf deserializeStateUpdate_ok [of buffer] deserializeBondHandshake_ok [of buffer]
      deserializeVaultFragment_ok [of buffer]
    by (simp add: deserializeStateUpdate_def deserializeBondHandshake_def
        deserializeVaultFragment_def)
qed

theorem decoders_check_length_witness:
  "length (replicate 104 (0::byte)) \<noteq> 105
   \<and> deserializeStateUpdate (replicate 104 0) = Inl LengthError
   \<and> length (replicate 104 (0::byte)) \<noteq> 43
   \<and> deserializeBondHandshake (replicate 104 0) = Inl LengthError
   \<and> length [1, 2, 3 :: byte] < 4
   \<and> deserializeVaultFragment [1, 2, 3] = Inl LengthError
   \<and> length (replicate 105 (0::byte)) = 105
   \<and> (\<exists>m. deserializeStateUpdate (replicate 105 0) = Inr m)
   \<and> length (replicate 43 (0::byte)) = 43
   \<and> (\<exists>p. deserializeBondHandshake (replicate 43 0) = Inr p)
   \<and> 4 \<le> length [3, 0, 0x21, 0x43, 7 :: byte]
   \<and> (\<exists>f. deserializeVaultFragment [3, 0, 0x21, 0x43, 7] = Inr f)"
  using decoders_check_length [of "replicate 104 0"] decoders_check_length [of "[1, 2, 3]"]
    decoders_check_length [of "replicate 105 0"] decoders_check_length [of "replicate 43 0"]
    decoders_check_length [of "[3, 0, 0x21, 0x43, 7]"]
  by simp

section \<open>Bond negotiation: guards, verification, failure\<close>

lemma arrayEqual_iff: "arrayEqual a b \<longleftrightarrow> a = b"
  by (auto simp: arrayEqual_def list_eq_iff_nth_eq)

lemma length_uint32_be [simp]: "length (uint32_be v) = 4"
  by (simp add: uint32_be_def Let_def)

lemma transmit_stores:
  "transmit env frame st = (r, st') \<Longrightarrow>
     bonds st' = bonds st \<and> interactions st' = interactions st
     \<and> (\<forall>e. r = Inl e \<longrightarrow> e = CollaboratorError)"
  by (auto simp: transmit_def split: if_splits)

lemma createBondRecord_result:
  "fst (createBondRecord env peerId pk ks secret ts st) = Inr ()
   \<or> fst (createBondRecord env peerId pk ks secret ts st) = Inl ListenerError"
  by (simp add: createBondRecord_def Let_def emit_def)

lemma ends_well_failI:
  "e \<noteq> ListenerError \<Longrightarrow> bonds st1 = bonds st \<Longrightarrow> interactions st1 = interactions st
   \<Longrightarrow> ends_well env pk st (Inl e, st1)"
  by (simp add: ends_well_def)

lemma ends_well_createI:
  "bonds st2 = bonds st \<Longrightarrow> interactions st2 = interactions st
   \<Longrightarrow> ends_well env pk st (createBondRecord env peerId pk ks secret ts st2)"
  unfolding ends_well_def using createBondRecord_result by blast

lemma ends_well_trans:
  "ends_well env pk st1 out \<Longrightarrow> bonds st1 = bonds st \<Longrightarrow> interactions st1 = interactions st
   \<Longrightarrow> ends_well env pk st out"
  by (simp add: ends_well_def)

lemma initiate_confirm_ends:
  "ends_well env pk st
     (initiate_confirm env pk peerId myPubKey myKeySeq myEcdhPub nonce now raw st)"
  unfolding initiate_confirm_def Let_def
  by (auto split: option.splits sum.splits prod.splits
      intro!: ends_well_failI ends_well_createI dest!: transmit_stores)

lemma initiate_response_ends:
  "ends_well env pk st
     (initiate_response env pk peerId myPubKey myKeySeq myEcdhPub nonce now st)"
  unfolding initiate_response_def Let_def
  by (auto split: option.splits intro!: ends_well_failI initiate_confirm_ends)

lemma initiate_challenge_stores:
  "initiate_challenge env pk st = (r, st1) \<Longrightarrow>
     bonds st1 = bonds st \<and> interactions st1 = interactions st
     \<and> (\<forall>e. r = Inl e \<longrightarrow> e \<noteq> ListenerError)"
  unfolding initiate_challenge_def Let_def
  by (auto split: option.splits sum.splits prod.splits if_splits dest!: transmit_stores)

lemma initiate_ends: "ends_well env pk st (initiate env pk st)"
proof (cases "initiate_challenge env pk st")
  case (Pair r st1)
  from initiate_challenge_stores [OF Pair]
  have s: "bonds st1 = bonds st" "interactions st1 = interactions st"
    and e: "\<And>e. r = Inl e \<Longrightarrow> e \<noteq> ListenerError" by auto
  show ?thesis
  proof (cases r)
    case (Inl e)
    with Pair s e show ?thesis by (simp add: initiate_def ends_well_failI)
  next
    case (Inr ctx)
    obtain a b c d f g where "ctx = (a, b, c, d, f, g)" by (cases ctx) auto
    with Pair Inr s show ?thesis
      using ends_well_trans [OF initiate_response_ends [of env pk st1 a b c d f g] s]
      by (simp add: initiate_def)
  qed
qed

lemma accept_confirm_ends:
  "ends_well env pk st (accept_confirm env pk peerId challengeRaw nonce now raw st)"
  unfolding accept_confirm_def Let_def
  by (auto split: option.splits sum.splits intro!: ends_well_failI ends_well_createI)

lemma accept_ends: "ends_well env pk st (accept env pk st)"
  unfolding accept_def Let_def
  by (auto split: option.splits sum.splits prod.splits
      intro!: ends_well_failI dest!: transmit_stores
      intro: ends_well_trans [OF accept_confirm_ends])

lemma ends_well_error:
  assumes "ends_well env pk st out" "fst out = Inl e" "e \<noteq> ListenerError"
  shows "bonds (snd out) = bonds st \<and> interactions (snd out) = interactions st"
  using assms unfolding ends_well_def by auto

text \<open>
  Claim C2. When \<open>initiate\<close> or \<open>accept\<close> ends with an error of the negotiation (a
  \<open>ChannelError\<close> of any code, timeout, undersized message and failed verification among
  them, or an error of a collaborator), the bond store and the interaction store are as
  they were before the call. The stores change only through \<open>createBondRecord\<close>, which is
  the last step, after every check has passed. (An exception thrown by a listener of
  \<open>BOND_FORMED\<close> leaves \<open>emit\<close> after the record is stored; it is not an error of the
  negotiation.)
\<close>

theorem failed_negotiation_keeps_stores:
  "(\<forall>e. fst (initiate env pk st) = Inl e \<and> e \<noteq> ListenerError \<longrightarrow>
        bonds (snd (initiate env pk st)) = bonds st
        \<and> interactions (snd (initiate env pk st)) = interactions st) \<and>
   (\<forall>e. fst (accept env pk st) = Inl e \<and> e \<noteq> ListenerError \<longrightarrow>
        bonds (snd (accept env pk st)) = bonds st
        \<and> interactions (snd (accept env pk st)) = interactions st) \<and>
   ends_well env pk st (initiate env pk st) \<and> ends_well env pk st (accept env pk st)"
  using ends_well_error [OF initiate_ends] ends_well_error [OF accept_ends]
    initiate_ends accept_ends
  by blast

lemma deriveNodeId_toy: "deriveNodeId toy_webcrypto (replicate 33 2) = Some ''3''"
  by (simp add: deriveNodeId_def toy_webcrypto_def no_webcrypto_def base58Encode_def
      bigint_of_bytes_def BASE58_ALPHABET_def)

lemma initiate_timeout:
  "fst (initiate timeout_env (replicate 33 2) empty_manager)
     = Inl (ChannelError NEGOTIATION_TIMEOUT)"
  using deriveNodeId_toy
  by (simp add: initiate_def initiate_challenge_def initiate_response_def timeout_env_def
      ready_env_def quiet_env_def empty_manager_def getActiveBondCount_def
      MAX_BONDS_PER_CELL_def randomBytes_def now_seconds_def payload103_def set_at_def
      frame_of_def transmit_def Let_def map_replicate_const)

lemma accept_timeout:
  "fst (accept timeout_env (replicate 33 2) empty_manager)
     = Inl (ChannelError NEGOTIATION_TIMEOUT)"
  using deriveNodeId_toy
  by (simp add: accept_def timeout_env_def ready_env_def quiet_env_def empty_manager_def
      getActiveBondCount_def MAX_BONDS_PER_CELL_def)

theorem failed_negotiation_keeps_stores_witness:
  "fst (initiate timeout_env (replicate 33 2) empty_manager)
     = Inl (ChannelError NEGOTIATION_TIMEOUT)
   \<and> fst (accept timeout_env (replicate 33 2) empty_manager)
     = Inl (ChannelError NEGOTIATION_TIMEOUT)
   \<and> ChannelError NEGOTIATION_TIMEOUT \<noteq> ListenerError
   \<and> bonds (snd (initiate timeout_env (replicate 33 2) empty_manager)) = []
   \<and> bonds (snd (accept timeout_env (replicate 33 2) empty_manager)) = []"
  using failed_negotiation_keeps_stores [of timeout_env "replicate 33 2" empty_manager]
    initiate_timeout accept_timeout
  by (simp add: empty_manager_def)

text \<open>
  Claim C3, as the code has it. With four or more \<open>ACTIVE\<close> bonds, \<open>initiate\<close> and
  \<open>accept\<close> fail with \<open>TOPOLOGY_VIOLATION\<close> and leave the state, the log of transmitted
  frames included, as it was. With fewer than four \<open>ACTIVE\<close> bonds, \<open>initiate\<close> towards a
  peer whose node id is already in the bond store fails with \<open>ALREADY_BONDED\<close>, again
  with the state as it was.
\<close>

theorem initiate_accept_guards:
  "(getActiveBondCount st \<ge> 4 \<longrightarrow>
      initiate env pk st = (Inl (ChannelError TOPOLOGY_VIOLATION), st)
      \<and> accept env pk st = (Inl (ChannelError TOPOLOGY_VIOLATION), st)) \<and>
   (getActiveBondCount st < 4 \<and> deriveNodeId (webcrypto env) pk = Some peerId
      \<and> map_of (bonds st) peerId \<noteq> None \<longrightarrow>
      initiate env pk st = (Inl (ChannelError ALREADY_BONDED), st))"
  by (auto simp: initiate_def initiate_challenge_def accept_def MAX_BONDS_PER_CELL_def)

lemma full_count: "getActiveBondCount full_manager = 4"
  by (simp add: getActiveBondCount_def full_manager_def empty_manager_def sample_bond_def)

lemma one_bond_count: "getActiveBondCount one_bond_manager = 1"
  by (simp add: getActiveBondCount_def one_bond_manager_def empty_manager_def sample_bond_def)

lemma deriveNodeId_ready:
  "deriveNodeId (webcrypto ready_env) (replicate 33 2) = Some ''3''"
  using deriveNodeId_toy by (simp add: ready_env_def quiet_env_def)

theorem initiate_accept_guards_witness:
  "getActiveBondCount full_manager \<ge> 4
   \<and> initiate ready_env (replicate 33 2) full_manager
       = (Inl (ChannelError TOPOLOGY_VIOLATION), full_manager)
   \<and> accept ready_env (replicate 33 2) full_manager
       = (Inl (ChannelError TOPOLOGY_VIOLATION), full_manager)
   \<and> getActiveBondCount one_bond_manager < 4
   \<and> deriveNodeId (webcrypto ready_env) (replicate 33 2) = Some ''3''
   \<and> map_of (bonds one_bond_manager) ''3'' \<noteq> None
   \<and> initiate ready_env (replicate 33 2) one_bond_manager
       = (Inl (ChannelError ALREADY_BONDED), one_bond_manager)"
proof -
  have b: "map_of (bonds one_bond_manager) ''3'' \<noteq> None"
    by (simp add: one_bond_manager_def empty_manager_def)
  show ?thesis
    using initiate_accept_guards [of full_manager ready_env "replicate 33 2" "''3''"]
      initiate_accept_guards [of one_bond_manager ready_env "replicate 33 2" "''3''"]
      deriveNodeId_ready b
    by (simp add: full_count one_bond_count)
qed

text \<open>
  Claim C3 as stated fails where its two cases meet: with four \<open>ACTIVE\<close> bonds, one of
  them with the target, \<open>initiate\<close> fails with \<open>TOPOLOGY_VIOLATION\<close>, not with
  \<open>ALREADY_BONDED\<close>, because the topology guard comes first.
\<close>

theorem already_bonded_counterexample:
  "deriveNodeId (webcrypto ready_env) (replicate 33 2) = Some ''3''
   \<and> map_of (bonds full_manager) ''3'' \<noteq> None
   \<and> fst (initiate ready_env (replicate 33 2) full_manager)
       \<noteq> Inl (ChannelError ALREADY_BONDED)"
proof -
  have "map_of (bonds full_manager) ''3'' \<noteq> None"
    by (simp add: full_manager_def empty_manager_def)
  moreover have "fst (initiate ready_env (replicate 33 2) full_manager)
                   = Inl (ChannelError TOPOLOGY_VIOLATION)"
    by (simp add: initiate_def initiate_challenge_def full_count MAX_BONDS_PER_CELL_def)
  ultimately show ?thesis using deriveNodeId_ready by simp
qed

lemma initiate_challenge_verify:
  "initiate_challenge (env\<lparr>verify := v\<rparr>) pk st = initiate_challenge env pk st"
  by (simp add: initiate_challenge_def transmit_def now_seconds_def randomBytes_def
      cong: option.case_cong prod.case_cong sum.case_cong if_cong)

text \<open>
  Claim C7. \<open>initiate\<close> has sent its challenge with the nonce \<open>nonce\<close> and receives a
  response of full length (199 bytes or more, so that it has an echoed nonce and a
  signature). When the echoed nonce (bytes 99 to 130) differs from \<open>nonce\<close>, \<open>initiate\<close>
  fails with \<open>VERIFICATION_FAILED\<close>, whatever \<open>verify\<close> would answer: the nonce is compared
  before the signature is looked at.
\<close>

theorem response_nonce_mismatch_rejected:
  assumes "initiate_challenge env pk st
             = (Inr (peerId, myPubKey, myKeySeq, myEcdhPub, nonce, now), st1)"
    and "waitForMessage env peerId BOND_RESPONSE = Some responseRaw"
    and "199 \<le> length responseRaw"
    and "slice_bytes responseRaw 99 131 \<noteq> nonce"
  shows "initiate (env\<lparr>verify := v\<rparr>) pk st = (Inl (ChannelError VERIFICATION_FAILED), st1)"
  using assms
  by (simp add: initiate_def initiate_challenge_verify initiate_response_def arrayEqual_iff
      Let_def)

lemma challenge_ready:
  "\<exists>st1. initiate_challenge ready_env (replicate 33 2) empty_manager =
     (Inr (''3'', replicate 33 2, 1, replicate 33 3, replicate 32 7, 1700000000), st1)"
  using deriveNodeId_toy
  by (simp add: initiate_challenge_def ready_env_def quiet_env_def empty_manager_def
      getActiveBondCount_def MAX_BONDS_PER_CELL_def randomBytes_def now_seconds_def
      payload103_def set_at_def frame_of_def transmit_def Let_def map_replicate_const)

theorem response_nonce_mismatch_rejected_witness:
  "\<exists>st1. initiate_challenge ready_env (replicate 33 2) empty_manager
            = (Inr (''3'', replicate 33 2, 1, replicate 33 3, replicate 32 7, 1700000000), st1)
     \<and> waitForMessage ready_env ''3'' BOND_RESPONSE = Some (replicate 199 0)
     \<and> 199 \<le> length (replicate 199 (0::byte))
     \<and> slice_bytes (replicate 199 0) 99 131 \<noteq> replicate 32 7
     \<and> initiate (ready_env\<lparr>verify := (\<lambda>_ _ _. Some True)\<rparr>) (replicate 33 2) empty_manager
         = (Inl (ChannelError VERIFICATION_FAILED), st1)"
proof -
  from challenge_ready obtain st1 where
    c: "initiate_challenge ready_env (replicate 33 2) empty_manager
          = (Inr (''3'', replicate 33 2, 1, replicate 33 3, replicate 32 7, 1700000000), st1)"
    by blast
  have w: "waitForMessage ready_env ''3'' BOND_RESPONSE = Some (replicate 199 0)"
    by (simp add: ready_env_def quiet_env_def)
  have n: "slice_bytes (replicate 199 0) 99 131 \<noteq> (replicate 32 7 :: bytes)"
    by (simp add: slice_bytes_def replicate_eq_replicate)
  from response_nonce_mismatch_rejected [OF c w _ n, of "\<lambda>_ _ _. Some True"] c w n
  show ?thesis by auto
qed

section \<open>Receiving data frames: one dispatch per frame\<close>

lemma aesGcmDecrypt_length:
  "aesGcmDecrypt wc key ct nonce = Some pt \<Longrightarrow> length pt = length ct - 16"
  by (auto simp: aesGcmDecrypt_def split: if_splits)

lemma call_listeners_quiet:
  "\<forall>l m. \<not> message_listener_throws env l m \<Longrightarrow>
   call_listeners env message ls st =
     (True, st\<lparr>delivered := delivered st @ map (\<lambda>l. (l, message)) ls\<rparr>)"
  by (induction ls arbitrary: st) (simp_all add: Let_def)


lemma updateBondChannel_fields [simp]:
  "interactions (updateBondChannel p t d st) = interactions st"
  "messageListeners (updateBondChannel p t d st) = messageListeners st"
  "delivered (updateBondChannel p t d st) = delivered st"
  "emitted (updateBondChannel p t d st) = emitted st"
  "transmitted (updateBondChannel p t d st) = transmitted st"
  by (simp_all add: updateBondChannel_def split: option.splits)

lemma updateBondChannel_other:
  "q \<noteq> p \<Longrightarrow> map_of (bonds (updateBondChannel p t d st)) q = map_of (bonds st) q"
  by (simp add: updateBondChannel_def update_conv' split: option.splits)

lemma updateBondChannel_keys:
  "map fst (bonds (updateBondChannel p t d st)) = map fst (bonds st)"
  by (auto simp: updateBondChannel_def update_keys map_of_eq_None_iff [symmetric] split: option.splits)

lemma updateBondChannel_self:
  "map_of (bonds st) p = Some b \<Longrightarrow>
   map_of (bonds (updateBondChannel p t d st)) p =
     Some (b\<lparr>channel := (channel b)\<lparr>lastInteraction := t,
                 totalExchanges := totalExchanges (channel b) + d\<rparr>\<rparr>)"
  by (simp add: updateBondChannel_def update_conv')

lemma receive_on_bond_self:
  assumes "callbacks_quiet env" "map_of (bonds st) p = Some b"
  shows "map_of (bonds (snd (receive_on_bond env p plaintext st))) p =
           Some (b\<lparr>channel := (channel b)\<lparr>lastInteraction := now_seconds env,
                 totalExchanges := totalExchanges (channel b) + 1\<rparr>\<rparr>)
       \<and> (\<forall>t. interactions st p = Some t \<longrightarrow>
             (\<exists>t'. interactions (snd (receive_on_bond env p plaintext st)) p = Some t'
                   \<and> recvCount t' = recvCount t + 1 \<and> sentCount t' = sentCount t))"
  using assms
  by (auto simp: receive_on_bond_def Let_def emit_def call_listeners_quiet callbacks_quiet_def
      updateBondChannel_self split: option.splits)

lemma receive_on_bond_quiet:
  assumes "callbacks_quiet env"
  shows "\<exists>st'. receive_on_bond env peerId plaintext st = (True, st')
     \<and> (\<forall>q. q \<noteq> peerId \<longrightarrow> map_of (bonds st') q = map_of (bonds st) q
                              \<and> interactions st' q = interactions st q)
     \<and> map fst (bonds st') = map fst (bonds st)
     \<and> messageListeners st' = messageListeners st
     \<and> transmitted st' = transmitted st
     \<and> delivered st' = delivered st
          @ map (\<lambda>l. (l, received_message plaintext)) (messageListeners st)
     \<and> emitted st' = emitted st
          @ [BOND_MESSAGE_RECEIVED (received_message plaintext) (now_seconds env)]"
  using assms
  by (auto simp: receive_on_bond_def Let_def emit_def call_listeners_quiet callbacks_quiet_def
      received_message_def updateBondChannel_other updateBondChannel_keys split: option.splits)

lemma loop_quiet:
  assumes "callbacks_quiet env"
  shows "handleBondData_loop env nonce ct ps st =
     (case find (\<lambda>p. case map_of (bonds st) p of None \<Rightarrow> False
                      | Some b \<Rightarrow> takes_frame env nonce ct b) ps of
        None \<Rightarrow> st
      | Some p \<Rightarrow> if length ct - 16 < 6 then st
                  else snd (receive_on_bond env p
                         (map (gcm_plain (webcrypto env)
                                 (sharedSecret (channel (the (map_of (bonds st) p)))) nonce ct)
                              [0..<length ct - 16]) st))"
proof (induction ps)
  case Nil
  show ?case by simp
next
  case (Cons p ps)
  show ?case
  proof (cases "map_of (bonds st) p")
    case None
    with Cons show ?thesis by simp
  next
    case (Some b)
    show ?thesis
    proof (cases "takes_frame env nonce ct b")
      case False
      with Some Cons show ?thesis
        by (auto simp: takes_frame_def)
    next
      case True
      then obtain pt where pt: "aesGcmDecrypt (webcrypto env) (sharedSecret (channel b)) ct nonce = Some pt"
        and act: "status (channel b) = ACTIVE"
        by (auto simp: takes_frame_def)
      from pt have ptv: "pt = map (gcm_plain (webcrypto env) (sharedSecret (channel b)) nonce ct) [0..<length ct - 16]"
        by (auto simp: aesGcmDecrypt_def split: if_splits)
      have len: "length pt = length ct - 16" using aesGcmDecrypt_length [OF pt] .
      show ?thesis
      proof (cases "length ct - 16 < 6")
        case short: True
        have "handleBondData_loop env nonce ct ps st = st"
          using Cons short by (simp split: option.splits)
        with Some True pt act len short show ?thesis by simp
      next
        case False
        from receive_on_bond_quiet [OF assms, of p pt st] obtain st' where
          "receive_on_bond env p pt st = (True, st')" by blast
        with Some True pt act len False ptv show ?thesis by simp
      qed
    qed
  qed
qed


lemma find_keys_entries:
  assumes "distinct (map fst xs)"
  shows "find (\<lambda>p. case map_of xs p of None \<Rightarrow> False | Some b \<Rightarrow> P b) (map fst xs)
           = map_option fst (find (\<lambda>(p, b). P b) xs)"
  using assms
proof (induction xs)
  case Nil
  show ?case by simp
next
  case (Cons x xs)
  obtain p b where x: "x = (p, b)" by (cases x)
  from Cons.prems x have notin: "p \<notin> fst ` set xs" and d: "distinct (map fst xs)" by auto
  have "find (\<lambda>q. case map_of ((p, b) # xs) q of None \<Rightarrow> False | Some b \<Rightarrow> P b) (map fst xs)
        = find (\<lambda>q. case map_of xs q of None \<Rightarrow> False | Some b \<Rightarrow> P b) (map fst xs)"
    using notin by (intro find_cong) auto
  with Cons.IH [OF d] x show ?case by simp
qed

lemma find_entry_lookup:
  "distinct (map fst xs) \<Longrightarrow> find Q xs = Some (p, b) \<Longrightarrow> map_of xs p = Some b"
  by (induction xs) (auto split: if_splits simp: rev_image_eqI)

text \<open>
  One dispatch per frame when no callback throws. The keys of \<open>bonds\<close> are distinct (it is
  a \<open>Map\<close>) and no callback throws. For every inbound data frame, \<open>handleBondData\<close> looks
  for the first \<open>ACTIVE\<close> bond whose shared secret authenticates and decrypts the frame.
  If there is none, the state is as it was: no bond changes and no listener is called. If
  there is one, either the plaintext is shorter than 6 bytes and again nothing changes, or
  that bond alone is updated (\<open>totalExchanges\<close> plus one, \<open>lastInteraction\<close>, the received
  count plus one and the latency sample of \<open>receive_on_bond\<close>), every other bond and
  interaction record is as it was, and each message listener is called exactly once with
  the decoded message.
\<close>

theorem handleBondData_single_dispatch:
  assumes "distinct (map fst (bonds st))" and "callbacks_quiet env"
  shows "(case find (\<lambda>(pid, bond). takes_frame env (slice_bytes payload 0 12) (drop 12 payload) bond)
                (bonds st) of
            None \<Rightarrow> handleBondData env payload st = st
          | Some (pid, bond) \<Rightarrow>
              (\<exists>pt. aesGcmDecrypt (webcrypto env) (sharedSecret (channel bond))
                        (drop 12 payload) (slice_bytes payload 0 12) = Some pt
                 \<and> (if length pt < 6 then handleBondData env payload st = st
                     else handleBondData env payload st = snd (receive_on_bond env pid pt st)
                       \<and> (\<forall>q. q \<noteq> pid \<longrightarrow>
                              map_of (bonds (handleBondData env payload st)) q = map_of (bonds st) q
                            \<and> interactions (handleBondData env payload st) q = interactions st q)
                       \<and> (\<exists>b'. map_of (bonds (handleBondData env payload st)) pid = Some b'
                              \<and> totalExchanges (channel b') = totalExchanges (channel bond) + 1
                              \<and> lastInteraction (channel b') = now_seconds env)
                       \<and> (\<forall>t. interactions st pid = Some t \<longrightarrow>
                              (\<exists>t'. interactions (handleBondData env payload st) pid = Some t'
                                    \<and> recvCount t' = recvCount t + 1))
                       \<and> delivered (handleBondData env payload st) = delivered st
                            @ map (\<lambda>l. (l, received_message pt)) (messageListeners st))))"
proof -
  let ?n = "slice_bytes payload 0 12" and ?c = "drop 12 payload"
  let ?R = "handleBondData env payload st"
  let ?f = "find (\<lambda>(pid, bond). takes_frame env ?n ?c bond) (bonds st)"
  have keyfind: "find (\<lambda>p. case map_of (bonds st) p of None \<Rightarrow> False
                      | Some b \<Rightarrow> takes_frame env ?n ?c b) (map fst (bonds st)) = map_option fst ?f"
    by (rule find_keys_entries [OF assms(1)])
  show ?thesis
  proof (cases ?f)
    case None
    show ?thesis
    proof (cases "length payload < 13")
      case True
      with None show ?thesis by (simp add: handleBondData_def)
    next
      case False
      with None keyfind show ?thesis
        by (simp add: handleBondData_def loop_quiet [OF assms(2)])
    qed
  next
    case (Some w)
    obtain pid bond where w: "w = (pid, bond)" by (cases w)
    from Some w have tf: "takes_frame env ?n ?c bond"
      by (auto dest: find_Some_iff [THEN iffD1])
    then obtain pt where pt: "aesGcmDecrypt (webcrypto env) (sharedSecret (channel bond)) ?c ?n = Some pt"
      by (auto simp: takes_frame_def)
    have len: "length pt = length ?c - 16" by (rule aesGcmDecrypt_length [OF pt])
    from pt have long: "\<not> length payload < 13"
      by (auto simp: aesGcmDecrypt_def split: if_splits)
    from pt have ptv: "pt = map (gcm_plain (webcrypto env) (sharedSecret (channel bond)) ?n ?c)
                             [0..<length ?c - 16]"
      by (auto simp: aesGcmDecrypt_def split: if_splits)
    have lk: "map_of (bonds st) pid = Some bond"
      using find_entry_lookup [OF assms(1)] Some w by simp
    show ?thesis
    proof (cases "length pt < 6")
      case True
      with Some w keyfind long len pt show ?thesis
        by (simp add: handleBondData_def loop_quiet [OF assms(2)])
    next
      case False
      have R: "?R = snd (receive_on_bond env pid pt st)"
        using Some w keyfind long len False lk ptv
        by (simp add: handleBondData_def loop_quiet [OF assms(2)])
      from receive_on_bond_quiet [OF assms(2), of pid pt st]
        receive_on_bond_self [OF assms(2) lk, of pt]
      show ?thesis
        using Some w pt False R by auto
    qed
  qed
qed


lemma sample_plain: "map ((!) [5, 0, 0, 0, 9, 1, 65, 42 :: byte]) [0..<8] = [5, 0, 0, 0, 9, 1, 65, 42]"
  by code_simp

lemma gcm_decrypt:
  "aesGcmDecrypt (webcrypto gcm_env) key (drop 12 data_frame) (slice_bytes data_frame 0 12)
     = (if key = [1] then Some [5, 0, 0, 0, 9, 1, 65, 42] else None)"
  by (simp add: aesGcmDecrypt_def gcm_env_def quiet_env_def gcm_webcrypto_def toy_webcrypto_def
      no_webcrypto_def data_frame_def slice_bytes_def sample_plain)

lemma gcm_quiet: "callbacks_quiet gcm_env"
  by (simp add: callbacks_quiet_def gcm_env_def quiet_env_def)

theorem handleBondData_single_dispatch_witness:
  "distinct (map fst (bonds listening_manager)) \<and> callbacks_quiet gcm_env
   \<and> find (\<lambda>(pid, bond). takes_frame gcm_env (slice_bytes data_frame 0 12)
                                (drop 12 data_frame) bond) (bonds listening_manager)
       = Some (''3'', sample_bond ''3'' [1])
   \<and> (\<exists>b'. map_of (bonds (handleBondData gcm_env data_frame listening_manager)) ''3'' = Some b'
          \<and> totalExchanges (channel b') = 1)
   \<and> map_of (bonds (handleBondData gcm_env data_frame listening_manager)) ''a''
       = Some (sample_bond ''a'' [2])
   \<and> delivered (handleBondData gcm_env data_frame listening_manager)
       = [(0, received_message [5, 0, 0, 0, 9, 1, 65, 42]),
          (1, received_message [5, 0, 0, 0, 9, 1, 65, 42])]"
proof -
  have d: "distinct (map fst (bonds listening_manager))"
    by (simp add: listening_manager_def empty_manager_def)
  have f: "find (\<lambda>(pid, bond). takes_frame gcm_env (slice_bytes data_frame 0 12)
                                (drop 12 data_frame) bond) (bonds listening_manager)
       = Some (''3'', sample_bond ''3'' [1])"
    by (simp add: listening_manager_def empty_manager_def takes_frame_def gcm_decrypt
        sample_bond_def)
  have s: "sharedSecret (channel (sample_bond ''3'' [1])) = [1]"
      "totalExchanges (channel (sample_bond ''3'' [1])) = 0"
    by (simp_all add: sample_bond_def)
  have a: "map_of (bonds listening_manager) ''a'' = Some (sample_bond ''a'' [2])"
      "delivered listening_manager = []" "messageListeners listening_manager = [0, 1]"
    by (simp_all add: listening_manager_def empty_manager_def)
  from handleBondData_single_dispatch [OF d gcm_quiet, of data_frame]
  show ?thesis
    using d gcm_quiet f
    by (auto simp: f s a gcm_decrypt)
qed

text \<open>
  Claim C10 fails in the code when a message listener throws. The \<open>catch\<close> of
  \<open>handleBondData\<close>, written for a wrong key, also takes the listener's exception: the
  \<open>return\<close> is skipped and the loop goes on to the next bond. Here two \<open>ACTIVE\<close> bonds
  have the shared secret that decrypts the frame and listener 0 throws: both bonds are
  updated (\<open>totalExchanges\<close> and the received count go from 0 to 1 on each), and listener 0
  is called twice with the message, where the claim has at most one bond updated and the
  listeners called at most once.
\<close>

theorem handleBondData_double_dispatch:
  "map (totalExchanges \<circ> channel \<circ> snd)
       (bonds (handleBondData throwing_env data_frame twin_manager)) = [1, 1]
   \<and> map_option recvCount (interactions (handleBondData throwing_env data_frame twin_manager) ''a'')
       = Some 1
   \<and> map_option recvCount (interactions (handleBondData throwing_env data_frame twin_manager) ''3'')
       = Some 1
   \<and> delivered (handleBondData throwing_env data_frame twin_manager)
       = [(0, received_message [5, 0, 0, 0, 9, 1, 65, 42]),
          (0, received_message [5, 0, 0, 0, 9, 1, 65, 42])]"
proof -
  have w: "webcrypto throwing_env = webcrypto gcm_env"
    by (simp add: throwing_env_def)
  have dec: "aesGcmDecrypt (webcrypto throwing_env) [1] (drop 12 data_frame)
               (slice_bytes data_frame 0 12) = Some [5, 0, 0, 0, 9, 1, 65, 42]"
    unfolding w by (simp add: gcm_decrypt)
  have len: "\<not> length data_frame < 13" by (simp add: data_frame_def)
  have quiet: "\<not> event_listener_throws throwing_env e" for e
    by (simp add: throwing_env_def gcm_env_def quiet_env_def)
  have thr: "message_listener_throws throwing_env l m \<longleftrightarrow> l = 0" for l m
    by (simp add: throwing_env_def)
  show ?thesis
    by (simp add: handleBondData_def len twin_manager_def empty_manager_def sample_bond_def
        dec receive_on_bond_def updateBondChannel_def emit_def quiet thr Let_def
        fresh_tracking_def received_message_def)
qed

end
